(* ===== verification/Prelude.thy ===== *)
theory Prelude
  imports Complex_Main "HOL-Library.Word" "HOL-Library.Sublist"
begin

text \<open>
  Shared vocabulary of the development: the JavaScript string primitives the
  pages of \<open>src/src/app/tryon\<close> and \<open>src/src/components\<close> call
  (\<open>toLowerCase\<close>, \<open>toUpperCase\<close>, \<open>substring\<close>, \<open>includes\<close>, the letter
  regex \<open>/^[A-Za-z]+$/\<close>, a global literal \<open>replace\<close>), \<open>Math.round\<close>, and the
  lemmas about them that the component theories share.

  Strings are HOL \<open>string\<close> (lists of 8-bit \<open>char\<close>): a JavaScript string is
  a list of UTF-16 code units, and the model covers the inputs whose code
  units are below 256.  Case conversion maps the ASCII and the Latin-1 letters
  as \<open>toLowerCase\<close>/\<open>toUpperCase\<close> do; upper-casing \<open>\<ss>\<close> gives \<open>SS\<close>.
  Two upper-case forms lie beyond 8 bits (those of U+00B5 and U+00FF); the model
  leaves these two code units unchanged, and neither form is ASCII, as the
  unchanged units are not either.
\<close>

named_theorems js_simps \<open>evaluation rules for the JavaScript string primitives\<close>

subsection \<open>Characters\<close>

text \<open>\<open>toLowerCase\<close> on one code unit: A--Z and the Latin-1 capitals
  U+00C0--U+00DE except U+00D7 move up by 32.  \<open>toUpperCase\<close>: a--z and
  U+00E0--U+00FE except U+00F7 move down by 32.\<close>

definition lower_range :: "nat \<Rightarrow> bool" where
  "lower_range n \<longleftrightarrow> (65 \<le> n \<and> n \<le> 90) \<or> (192 \<le> n \<and> n \<le> 222 \<and> n \<noteq> 215)"

definition upper_range :: "nat \<Rightarrow> bool" where
  "upper_range n \<longleftrightarrow> (97 \<le> n \<and> n \<le> 122) \<or> (224 \<le> n \<and> n \<le> 254 \<and> n \<noteq> 247)"

definition lower_char :: "char \<Rightarrow> char" where
  "lower_char c = (let n = (of_char c :: nat) in if lower_range n then char_of (n + 32) else c)"

definition upper_char :: "char \<Rightarrow> char" where
  "upper_char c = (let n = (of_char c :: nat) in if upper_range n then char_of (n - 32) else c)"

definition is_lower_letter :: "char \<Rightarrow> bool" where
  "is_lower_letter c \<longleftrightarrow> (let n = (of_char c :: nat) in 97 \<le> n \<and> n \<le> 122)"

definition is_ascii_letter :: "char \<Rightarrow> bool" where
  "is_ascii_letter c \<longleftrightarrow> (let n = (of_char c :: nat) in (65 \<le> n \<and> n \<le> 90) \<or> (97 \<le> n \<and> n \<le> 122))"

definition is_ascii :: "char \<Rightarrow> bool" where
  "is_ascii c \<longleftrightarrow> (of_char c :: nat) < 128"

text \<open>The whitespace code units of \<open>String.prototype.trim\<close> below 256: tab, line
  feed, vertical tab, form feed, carriage return, space and no-break space.\<close>

definition is_js_space :: "char \<Rightarrow> bool" where
  "is_js_space c \<longleftrightarrow> (of_char c :: nat) \<in> {9, 10, 11, 12, 13, 32, 160}"

definition js_trim :: "string \<Rightarrow> string" where
  "js_trim s = rev (dropWhile is_js_space (rev (dropWhile is_js_space s)))"

text \<open>A code unit of a string after a \<open>replace\<close> that inserts a character beyond
  8 bits: \<open>Eng\<close> is U+014B (the marker the validation rules write for a
  digraph); every other unit is a \<open>char\<close>.\<close>

datatype code_unit = Unit char | Eng

text \<open>\<open>s.toLowerCase()\<close> and \<open>s.toUpperCase()\<close>.\<close>

definition js_lower :: "string \<Rightarrow> string" where
  "js_lower s = map lower_char s"

definition sharp_s :: char where
  "sharp_s = char_of (223 :: nat)"

definition js_upper :: "string \<Rightarrow> string" where
  "js_upper s = concat (map (\<lambda>c. if c = sharp_s then ''SS'' else [upper_char c]) s)"

text \<open>\<open>/^[A-Za-z]+$/.test(s)\<close>: JavaScript's \<open>$\<close> without the \<open>m\<close> flag matches at
  the end of the input only, so the regex accepts exactly the non-empty strings of
  ASCII letters.\<close>

definition letters_only :: "string \<Rightarrow> bool" where
  "letters_only s \<longleftrightarrow> s \<noteq> [] \<and> list_all is_ascii_letter s"

text \<open>\<open>s.substring(a, b)\<close> for \<open>a \<le> b\<close>, with JavaScript's clamping of \<open>b\<close> to the length.\<close>

definition substring :: "string \<Rightarrow> nat \<Rightarrow> nat \<Rightarrow> string" where
  "substring s a b = take (b - a) (drop a s)"

text \<open>\<open>s.replace(/pat/g, rep)\<close> for a literal pattern: the matches are found left
  to right, do not overlap, and each is replaced by \<open>rep\<close>.  The element type is
  left open, so that the replacement can be a code unit that is not a \<open>char\<close>.\<close>

function replace_all :: "'a list \<Rightarrow> 'a list \<Rightarrow> 'a list \<Rightarrow> 'a list" where
  "replace_all pat rep s =
     (if pat = [] \<or> s = [] then s
      else if take (length pat) s = pat then rep @ replace_all pat rep (drop (length pat) s)
      else hd s # replace_all pat rep (tl s))"
  by pat_completeness auto
termination
  by (relation "measure (\<lambda>(pat, rep, s). length s)") auto

declare replace_all.simps [simp del]

subsection \<open>Numbers\<close>

text \<open>\<open>Math.round x\<close>: the nearest integer, halves rounded up.\<close>

definition js_round :: "real \<Rightarrow> int" where
  "js_round x = \<lfloor>x + 1 / 2\<rfloor>"

text \<open>\<open>String(n)\<close> and template literals of integers, \<open>padStart\<close>, the
  remainder \<open>%\<close> (sign of the dividend) and an array read \<open>xs[i]\<close>, which is
  \<open>undefined\<close> (\<open>None\<close>) out of range.\<close>

definition digit_char :: "nat \<Rightarrow> char" where
  "digit_char d = char_of (48 + d)"

fun js_nat_str :: "nat \<Rightarrow> string" where
  "js_nat_str n = (if n < 10 then [digit_char n] else js_nat_str (n div 10) @ [digit_char (n mod 10)])"

declare js_nat_str.simps [simp del]

definition js_int_str :: "int \<Rightarrow> string" where
  "js_int_str i = (if i < 0 then CHR ''-'' # js_nat_str (nat (- i)) else js_nat_str (nat i))"

definition padStart :: "nat \<Rightarrow> char \<Rightarrow> string \<Rightarrow> string" where
  "padStart n c s = replicate (n - length s) c @ s"

definition js_rem :: "int \<Rightarrow> int \<Rightarrow> int" where
  "js_rem a b = sgn a * (\<bar>a\<bar> mod \<bar>b\<bar>)"

definition js_at :: "'a list \<Rightarrow> nat \<Rightarrow> 'a option" where
  "js_at xs i = (if i < length xs then Some (xs ! i) else None)"

text \<open>A decimal reader, the specification that number printing is checked
  against.\<close>

definition digit_val :: "char \<Rightarrow> nat option" where
  "digit_val c = (let k = (of_char c :: nat) in if 48 \<le> k \<and> k \<le> 57 then Some (k - 48) else None)"

fun read_digits :: "nat \<Rightarrow> string \<Rightarrow> nat option" where
  "read_digits acc [] = Some acc"
| "read_digits acc (c # cs) = (case digit_val c of None \<Rightarrow> None | Some d \<Rightarrow> read_digits (10 * acc + d) cs)"

definition read_nat :: "string \<Rightarrow> nat option" where
  "read_nat s = (if s = [] then None else read_digits 0 s)"

text \<open>A sequence of events applied to a page's state by a partial step function
  (\<open>None\<close>: the event is not enabled, e.g. its button is not rendered).\<close>

fun run_opt :: "('e \<Rightarrow> 's \<Rightarrow> 's option) \<Rightarrow> 'e list \<Rightarrow> 's \<Rightarrow> 's option" where
  "run_opt step [] s = Some s"
| "run_opt step (e # es) s = (case step e s of None \<Rightarrow> None | Some s' \<Rightarrow> run_opt step es s')"

subsection \<open>Lemmas shared by the components\<close>

lemma of_char_lower_char:
  "(of_char (lower_char c) :: nat) =
     (if lower_range (of_char c) then of_char c + 32 else of_char c)"
  using nat_of_char_less_256 [of c] by (auto simp: lower_char_def lower_range_def Let_def)

lemma of_char_upper_char:
  "(of_char (upper_char c) :: nat) =
     (if upper_range (of_char c) then of_char c - 32 else of_char c)"
  using nat_of_char_less_256 [of c] by (auto simp: upper_char_def upper_range_def Let_def)

lemma char_eq_iff_of_char: "c = d \<longleftrightarrow> (of_char c :: nat) = of_char d"
  by (metis char_of_char)

lemma lower_char_idem [simp]: "lower_char (lower_char c) = lower_char c"
  by (simp add: char_eq_iff_of_char of_char_lower_char lower_range_def upper_range_def)

lemma upper_lower_char:
  "is_ascii_letter c \<Longrightarrow> upper_char (lower_char c) = upper_char c"
  by (auto simp: char_eq_iff_of_char of_char_lower_char lower_range_def upper_range_def of_char_upper_char
      is_ascii_letter_def Let_def)

lemma lower_upper_lower_char:
  "is_lower_letter c \<Longrightarrow> lower_char (upper_char c) = c"
  by (auto simp: char_eq_iff_of_char of_char_lower_char lower_range_def upper_range_def of_char_upper_char
      is_lower_letter_def Let_def)

lemma is_lower_letter_lower_char [simp]:
  "is_lower_letter (lower_char c) \<longleftrightarrow> is_ascii_letter c"
  by (auto simp: is_lower_letter_def is_ascii_letter_def of_char_lower_char lower_range_def upper_range_def Let_def)

lemma lower_char_of_lower_letter:
  "is_lower_letter c \<Longrightarrow> lower_char c = c"
  by (auto simp: char_eq_iff_of_char of_char_lower_char lower_range_def upper_range_def is_lower_letter_def Let_def)

lemma js_lower_idem [simp]: "js_lower (js_lower s) = js_lower s"
  by (simp add: js_lower_def comp_def)

lemma length_js_lower [simp]: "length (js_lower s) = length s"
  by (simp add: js_lower_def)

lemma js_lower_empty_iff [simp]: "js_lower s = [] \<longleftrightarrow> s = []"
  by (simp add: js_lower_def)

lemma js_lower_Nil [simp, js_simps]: "js_lower [] = []"
  and js_lower_Cons [js_simps]: "js_lower (c # s) = lower_char c # js_lower s"
  by (simp_all add: js_lower_def)

lemma is_ascii_lower_char: "is_ascii c \<Longrightarrow> is_ascii (lower_char c)"
  by (simp add: is_ascii_def of_char_lower_char lower_range_def upper_range_def)

lemma is_ascii_letter_ascii: "is_ascii_letter c \<Longrightarrow> is_ascii c"
  by (auto simp: is_ascii_letter_def is_ascii_def Let_def)

lemma js_trim_Nil_letters: "letters_only s \<Longrightarrow> js_trim s \<noteq> []"
proof -
  assume l: "letters_only s"
  then obtain c cs where s: "s = c # cs" by (cases s) (auto simp: letters_only_def)
  with l have "\<not> is_js_space c"
    by (auto simp: letters_only_def is_ascii_letter_def is_js_space_def Let_def)
  with s show ?thesis by (simp add: js_trim_def)
qed

lemma upper_char_idem [simp]: "upper_char (upper_char c) = upper_char c"
  by (auto simp: char_eq_iff_of_char of_char_upper_char lower_range_def upper_range_def)

lemma of_char_sharp_s [simp]: "(of_char sharp_s :: nat) = 223"
  by (simp add: sharp_s_def)

lemma upper_char_eq_sharp_s [simp]: "upper_char c = sharp_s \<longleftrightarrow> c = sharp_s"
  using nat_of_char_less_256 [of c]
  by (auto simp: char_eq_iff_of_char [of _ sharp_s] of_char_upper_char upper_range_def)

lemma js_upper_Nil [simp, js_simps]: "js_upper [] = []"
  and js_upper_Cons [simp, js_simps]:
    "js_upper (c # s) = (if c = sharp_s then ''SS'' else [upper_char c]) @ js_upper s"
  by (simp_all add: js_upper_def)

lemma js_upper_append [simp]: "js_upper (s @ t) = js_upper s @ js_upper t"
  by (induction s) simp_all

lemma sharp_s_not_ascii: "is_ascii_letter c \<Longrightarrow> c \<noteq> sharp_s"
  by (auto simp: is_ascii_letter_def Let_def)

lemma sharp_s_not_lower: "is_lower_letter c \<Longrightarrow> c \<noteq> sharp_s"
  by (auto simp: is_lower_letter_def Let_def)

lemma js_upper_idem [simp]: "js_upper (js_upper s) = js_upper s"
proof (induction s)
  case (Cons c s)
  have "CHR ''S'' \<noteq> sharp_s" "upper_char CHR ''S'' = CHR ''S''"
    by (simp_all add: char_eq_iff_of_char [of _ sharp_s] upper_char_def upper_range_def)
  then show ?case using Cons by simp
qed simp

lemma js_lower_upper_lower_letters:
  "list_all is_lower_letter s \<Longrightarrow> js_lower (js_upper s) = s"
  by (induction s) (auto simp: js_lower_Cons lower_upper_lower_char sharp_s_not_lower)

lemma js_lower_lower_letters:
  "list_all is_lower_letter s \<Longrightarrow> js_lower s = s"
  by (induction s) (auto simp: js_lower_def lower_char_of_lower_letter)

lemma letters_only_lower:
  "letters_only s \<Longrightarrow> list_all is_lower_letter (js_lower s)"
  by (induction s) (auto simp: letters_only_def js_lower_def list_all_iff)

lemma substring_in_range:
  "i + k \<le> length s \<Longrightarrow> substring s i (i + k) = take k (drop i s)"
  by (simp add: substring_def)

lemma replace_all_Nil [simp]: "replace_all pat rep [] = []"
  by (simp add: replace_all.simps)

lemma replace_all_no_match:
  "pat \<noteq> [] \<Longrightarrow> take (length pat) (c # s) \<noteq> pat \<Longrightarrow>
   replace_all pat rep (c # s) = c # replace_all pat rep s"
  by (simp add: replace_all.simps)

lemma replace_all_match:
  "pat \<noteq> [] \<Longrightarrow> take (length pat) s = pat \<Longrightarrow> s \<noteq> [] \<Longrightarrow>
   replace_all pat rep s = rep @ replace_all pat rep (drop (length pat) s)"
  by (simp add: replace_all.simps)

text \<open>Every element of the result is an element of the input or of the replacement.\<close>

lemma set_replace_all: "set (replace_all pat rep s) \<subseteq> set s \<union> set rep"
proof (induction pat rep s rule: replace_all.induct)
  case (1 pat rep s)
  consider "pat = [] \<or> s = []"
    | (hit) "\<not> (pat = [] \<or> s = [])" "take (length pat) s = pat"
    | (miss) "\<not> (pat = [] \<or> s = [])" "take (length pat) s \<noteq> pat"
    by blast
  then show ?case
  proof cases
    case 1
    then show ?thesis by (auto simp: replace_all.simps)
  next
    case hit
    with "1.IH"(1) have "set (replace_all pat rep (drop (length pat) s))
        \<subseteq> set s \<union> set rep"
      using set_drop_subset [of "length pat" s] by blast
    with hit show ?thesis by (auto simp: replace_all.simps [of pat rep s])
  next
    case miss
    with "1.IH"(2) have "set (replace_all pat rep (tl s)) \<subseteq> set s \<union> set rep"
      using list.set_sel(2) [of s] by blast
    with miss show ?thesis by (auto simp: replace_all.simps [of pat rep s])
  qed
qed

text \<open>The elements of the input that do not occur in the pattern survive the replacement.\<close>

lemma replace_all_keeps:
  "x \<in> set s \<Longrightarrow> x \<notin> set pat \<Longrightarrow> x \<in> set (replace_all pat rep s)"
proof (induction pat rep s rule: replace_all.induct)
  case (1 pat rep s)
  consider "pat = [] \<or> s = []"
    | (hit) "\<not> (pat = [] \<or> s = [])" "take (length pat) s = pat"
    | (miss) "\<not> (pat = [] \<or> s = [])" "take (length pat) s \<noteq> pat"
    by blast
  then show ?case
  proof cases
    case 1
    with "1.prems" show ?thesis by (auto simp: replace_all.simps)
  next
    case hit
    have "x \<notin> set (take (length pat) s)" using hit "1.prems"(2) by simp
    with "1.prems"(1) have "x \<in> set (drop (length pat) s)"
      by (metis Un_iff append_take_drop_id set_append)
    with hit "1.IH"(1) "1.prems"(2) show ?thesis
      by (simp add: replace_all.simps [of pat rep s])
  next
    case miss
    show ?thesis
    proof (cases "x = hd s")
      case True
      with miss show ?thesis by (simp add: replace_all.simps [of pat rep s])
    next
      case False
      with "1.prems"(1) miss have "x \<in> set (tl s)" by (cases s) auto
      with miss "1.IH"(2) "1.prems"(2) show ?thesis
        by (simp add: replace_all.simps [of pat rep s])
    qed
  qed
qed

lemma run_opt_append:
  "run_opt step (es @ fs) s = (case run_opt step es s of None \<Rightarrow> None | Some s' \<Rightarrow> run_opt step fs s')"
  by (induction es arbitrary: s) (auto split: option.splits)

lemma run_opt_replicate_Suc:
  "run_opt step (replicate (Suc n) e) s = (case step e s of None \<Rightarrow> None | Some s' \<Rightarrow> run_opt step (replicate n e) s')"
  by simp

lemma digit_val_digit_char [simp]: "d < 10 \<Longrightarrow> digit_val (digit_char d) = Some d"
  by (simp add: digit_val_def digit_char_def)

lemma read_digits_snoc:
  "read_digits acc (s @ [c]) =
     (case read_digits acc s of None \<Rightarrow> None | Some v \<Rightarrow> map_option (\<lambda>d. 10 * v + d) (digit_val c))"
  by (induction s arbitrary: acc) (auto split: option.splits)

lemma js_nat_str_ne [simp]: "js_nat_str n \<noteq> []"
  by (subst js_nat_str.simps) simp

lemma read_nat_js_nat_str [simp]: "read_nat (js_nat_str n) = Some n"
proof (induction n rule: js_nat_str.induct)
  case (1 n)
  show ?case
  proof (cases "n < 10")
    case True
    then show ?thesis by (simp add: js_nat_str.simps [of n] read_nat_def)
  next
    case False
    then have "read_digits 0 (js_nat_str (n div 10)) = Some (n div 10)"
      using "1.IH" by (simp add: read_nat_def)
    then show ?thesis using False by (simp add: js_nat_str.simps [of n] read_nat_def read_digits_snoc)
  qed
qed

lemma js_nat_str_digits: "c \<in> set (js_nat_str n) \<Longrightarrow> digit_val c \<noteq> None"
proof (induction n rule: js_nat_str.induct)
  case (1 n)
  then show ?case by (cases "n < 10") (auto simp: js_nat_str.simps [of n])
qed

lemma length_js_nat_str_lt10: "n < 10 \<Longrightarrow> js_nat_str n = [digit_char n]"
  by (simp add: js_nat_str.simps [of n])

lemma length_js_nat_str_lt100: "10 \<le> n \<Longrightarrow> n < 100 \<Longrightarrow> js_nat_str n = [digit_char (n div 10), digit_char (n mod 10)]"
  by (simp add: js_nat_str.simps [of n] js_nat_str.simps [of "n div 10"])

end
