(* ===== verification/Aksara.thy ===== *)
theory Aksara
  imports Prelude
begin

text \<open>
  The Batak (Toba) symbol catalog and the syllable-to-symbol mapping of the
  "write your name" page, \<open>src/src/app/tryon/custom-name/page.tsx\<close>:
  the \<open>characters\<close> array (lines 90--116), \<open>isVowel\<close> and \<open>isConsonant\<close>
  (176--182), \<open>canConvertToAksara\<close> (184--187) and \<open>convertSyllableToAksara\<close>
  with its \<open>mapping\<close> table (189--296).  The practice, challenge and explore
  pages carry the first nineteen entries of the same catalog
  (\<open>characters_base\<close>).

  The main result is the characterisation \<open>canConvertToAksara_letters\<close>: on a
  string of lower-case ASCII letters, \<open>canConvertToAksara\<close> holds exactly for the
  keys of the mapping table, although the code also accepts any string whose
  upper-case form happens to be a catalog label.
\<close>

record character =
  latin :: string
  svgPath :: string

definition characters :: "character list" where
  "characters = [
     \<lparr>latin = ''A'', svgPath = ''/toba/a.svg''\<rparr>,
     \<lparr>latin = ''BA'', svgPath = ''/toba/ba.svg''\<rparr>,
     \<lparr>latin = ''DA'', svgPath = ''/toba/da.svg''\<rparr>,
     \<lparr>latin = ''GA'', svgPath = ''/toba/ga.svg''\<rparr>,
     \<lparr>latin = ''HA'', svgPath = ''/toba/ha.svg''\<rparr>,
     \<lparr>latin = ''I'', svgPath = ''/toba/i.svg''\<rparr>,
     \<lparr>latin = ''JA'', svgPath = ''/toba/ja.svg''\<rparr>,
     \<lparr>latin = ''LA'', svgPath = ''/toba/la.svg''\<rparr>,
     \<lparr>latin = ''MA'', svgPath = ''/toba/ma.svg''\<rparr>,
     \<lparr>latin = ''NA'', svgPath = ''/toba/na.svg''\<rparr>,
     \<lparr>latin = ''NGA'', svgPath = ''/toba/nga.svg''\<rparr>,
     \<lparr>latin = ''NYA'', svgPath = ''/toba/nya.svg''\<rparr>,
     \<lparr>latin = ''PA'', svgPath = ''/toba/pa.svg''\<rparr>,
     \<lparr>latin = ''RA'', svgPath = ''/toba/ra.svg''\<rparr>,
     \<lparr>latin = ''SA'', svgPath = ''/toba/sa.svg''\<rparr>,
     \<lparr>latin = ''TA'', svgPath = ''/toba/ta.svg''\<rparr>,
     \<lparr>latin = ''U'', svgPath = ''/toba/u.svg''\<rparr>,
     \<lparr>latin = ''WA'', svgPath = ''/toba/wa.svg''\<rparr>,
     \<lparr>latin = ''YA'', svgPath = ''/toba/ya.svg''\<rparr>,
     \<lparr>latin = ''~'', svgPath = ''/toba/~.svg''\<rparr>,
     \<lparr>latin = ''~E'', svgPath = ''/toba/~e.svg''\<rparr>,
     \<lparr>latin = ''~I'', svgPath = ''/toba/~i.svg''\<rparr>,
     \<lparr>latin = ''~NG'', svgPath = ''/toba/~ng.svg''\<rparr>,
     \<lparr>latin = ''~O'', svgPath = ''/toba/~o.svg''\<rparr>,
     \<lparr>latin = ''~U'', svgPath = ''/toba/~u.svg''\<rparr>]"

text \<open>The catalog of the practice, challenge and explore pages: the base symbols only.\<close>

definition characters_base :: "character list" where
  "characters_base = take 19 characters"

definition isVowel :: "char \<Rightarrow> bool" where
  "isVowel c \<longleftrightarrow> c \<in> set ''aiueo''"

definition isConsonant :: "char \<Rightarrow> bool" where
  "isConsonant c \<longleftrightarrow> c \<in> set ''bdghjlmnprstwy''"

text \<open>The \<open>mapping\<close> object literal, in the source's order.  The keys are distinct
  (lemma \<open>aksara_mapping_distinct\<close>), so \<open>map_of\<close> agrees with the JavaScript
  property lookup.\<close>

definition aksara_mapping :: "(string \<times> string) list" where
  "aksara_mapping = [
     (''a'', ''A''), (''i'', ''I''), (''u'', ''U''),
     (''ba'', ''BA''), (''da'', ''DA''), (''ga'', ''GA''), (''ha'', ''HA''),
     (''ja'', ''JA''), (''la'', ''LA''), (''ma'', ''MA''), (''na'', ''NA''),
     (''pa'', ''PA''), (''ra'', ''RA''), (''sa'', ''SA''), (''ta'', ''TA''),
     (''wa'', ''WA''), (''ya'', ''YA''),
     (''nga'', ''NGA''), (''nya'', ''NYA''),
     (''be'', ''BA''), (''bi'', ''BA''), (''bu'', ''BA''), (''bo'', ''BA''),
     (''de'', ''DA''), (''di'', ''DA''), (''du'', ''DA''), (''do'', ''DA''),
     (''ge'', ''GA''), (''gi'', ''GA''), (''gu'', ''GA''), (''go'', ''GA''),
     (''he'', ''HA''), (''hi'', ''HA''), (''hu'', ''HA''), (''ho'', ''HA''),
     (''je'', ''JA''), (''ji'', ''JA''), (''ju'', ''JA''), (''jo'', ''JA''),
     (''le'', ''LA''), (''li'', ''LA''), (''lu'', ''LA''), (''lo'', ''LA''),
     (''me'', ''MA''), (''mi'', ''MA''), (''mu'', ''MA''), (''mo'', ''MA''),
     (''ne'', ''NA''), (''ni'', ''NA''), (''nu'', ''NA''), (''no'', ''NA''),
     (''pe'', ''PA''), (''pi'', ''PA''), (''pu'', ''PA''), (''po'', ''PA''),
     (''re'', ''RA''), (''ri'', ''RA''), (''ru'', ''RA''), (''ro'', ''RA''),
     (''se'', ''SA''), (''si'', ''SA''), (''su'', ''SA''), (''so'', ''SA''),
     (''te'', ''TA''), (''ti'', ''TA''), (''tu'', ''TA''), (''to'', ''TA''),
     (''we'', ''WA''), (''wi'', ''WA''), (''wu'', ''WA''), (''wo'', ''WA''),
     (''ye'', ''YA''), (''yi'', ''YA''), (''yu'', ''YA''), (''yo'', ''YA''),
     (''e'', ''A''), (''o'', ''A'')]"

text \<open>\<open>mapping[lowerSyllable] || lowerSyllable.toUpperCase()\<close>: every value of the
  table is a non-empty string, so the \<open>||\<close> falls back exactly when the key is absent.\<close>

definition convertSyllableToAksara :: "string \<Rightarrow> string" where
  "convertSyllableToAksara syllable =
     (let lowerSyllable = js_lower syllable
      in case map_of aksara_mapping lowerSyllable of
           Some a \<Rightarrow> a
         | None \<Rightarrow> js_upper lowerSyllable)"

definition canConvertToAksara :: "string \<Rightarrow> bool" where
  "canConvertToAksara syllable =
     (let aksara = convertSyllableToAksara syllable
      in list_ex (\<lambda>char. js_upper (latin char) = js_upper aksara) characters)"

text \<open>The keys of the mapping table: the syllables the page knows.\<close>

definition mapping_keys :: "string list" where
  "mapping_keys = map fst aksara_mapping"

subsection \<open>Facts of the tables, evaluated\<close>

lemma aksara_mapping_distinct: "distinct mapping_keys"
  by code_simp

lemma mapping_values_in_catalog:
  "list_all (\<lambda>(k, v). list_ex (\<lambda>c. js_upper (latin c) = js_upper v) characters) aksara_mapping"
  by code_simp

lemma mapping_values_are_labels:
  "list_all (\<lambda>(k, v). v \<in> set (map latin characters)) aksara_mapping"
  by code_simp

lemma catalog_lower_forms:
  "list_all (\<lambda>c. js_lower (js_upper (latin c)) \<in> set mapping_keys
      \<or> \<not> list_all is_lower_letter (js_lower (js_upper (latin c)))) characters"
  by code_simp

lemma mapping_keys_shape:
  "list_all (\<lambda>k. list_all is_lower_letter k \<and> 1 \<le> length k \<and> length k \<le> 3
      \<and> length (filter isVowel k) = 1) mapping_keys"
  by code_simp

lemma vowels_convertible: "list_all (\<lambda>c. canConvertToAksara [c]) ''aiueo''"
  by code_simp

lemma vowels_are_keys: "list_all (\<lambda>c. [c] \<in> set mapping_keys) ''aiueo''"
  by code_simp

lemma isVowel_key: "isVowel c \<Longrightarrow> [c] \<in> set mapping_keys"
  using vowels_are_keys by (auto simp: isVowel_def list_all_iff)

lemma isVowel_convertible: "isVowel c \<Longrightarrow> canConvertToAksara [c]"
  using vowels_convertible by (auto simp: isVowel_def list_all_iff)

lemma mapping_key_lower:
  "k \<in> set mapping_keys \<Longrightarrow> list_all is_lower_letter k"
  using mapping_keys_shape by (auto simp: list_all_iff)

lemma mapping_key_vowels:
  "k \<in> set mapping_keys \<Longrightarrow> length (filter isVowel k) = 1"
  using mapping_keys_shape by (auto simp: list_all_iff)

lemma mapping_key_length:
  "k \<in> set mapping_keys \<Longrightarrow> 1 \<le> length k \<and> length k \<le> 3"
  using mapping_keys_shape by (auto simp: list_all_iff)

subsection \<open>Conversion of the table's keys\<close>

lemma convertSyllableToAksara_key:
  assumes "(k, a) \<in> set aksara_mapping"
  shows "convertSyllableToAksara k = a"
proof -
  have k: "k \<in> set mapping_keys" using assms by (force simp: mapping_keys_def)
  then have "js_lower k = k" by (simp add: mapping_key_lower js_lower_lower_letters)
  moreover have "map_of aksara_mapping k = Some a"
    using aksara_mapping_distinct assms by (simp add: mapping_keys_def)
  ultimately show ?thesis by (simp add: convertSyllableToAksara_def)
qed

lemma convertSyllableToAksara_non_key:
  assumes "list_all is_lower_letter t" and "t \<notin> set mapping_keys"
  shows "convertSyllableToAksara t = js_upper t"
proof -
  have "map_of aksara_mapping t = None"
    using assms(2) by (simp add: mapping_keys_def map_of_eq_None_iff)
  with assms(1) show ?thesis
    by (simp add: convertSyllableToAksara_def js_lower_lower_letters)
qed

text \<open>On lower-case letters, \<open>canConvertToAksara\<close> is membership in the table: the
  fallback \<open>toUpperCase\<close> branch never produces a catalog label for them.\<close>

lemma canConvertToAksara_letters:
  assumes "list_all is_lower_letter t"
  shows "canConvertToAksara t \<longleftrightarrow> t \<in> set mapping_keys"
proof
  assume "t \<in> set mapping_keys"
  then obtain a where ka: "(t, a) \<in> set aksara_mapping"
    by (auto simp: mapping_keys_def)
  then have "list_ex (\<lambda>c. js_upper (latin c) = js_upper a) characters"
    using mapping_values_in_catalog by (auto simp: list_all_iff)
  with ka show "canConvertToAksara t"
    by (simp add: canConvertToAksara_def convertSyllableToAksara_key)
next
  assume conv: "canConvertToAksara t"
  show "t \<in> set mapping_keys"
  proof (rule ccontr)
    assume nk: "t \<notin> set mapping_keys"
    with assms have "convertSyllableToAksara t = js_upper t"
      by (rule convertSyllableToAksara_non_key)
    with conv obtain c where c: "c \<in> set characters" "js_upper (latin c) = js_upper t"
      by (auto simp: canConvertToAksara_def list_ex_iff)
    then have "js_lower (js_upper (latin c)) = t"
      using assms by (simp add: js_lower_upper_lower_letters)
    with c(1) catalog_lower_forms assms nk show False
      by (auto simp: list_all_iff)
  qed
qed

end
