(* ===== verification/Syllables.thy ===== *)
theory Syllables
  imports Aksara
begin

text \<open>
  The segmentation loop \<open>convertToSyllables\<close> of
  \<open>src/src/app/tryon/custom-name/page.tsx\<close> (lines 119--174), modelled as
  it is written: an index \<open>i\<close> over the lower-cased name, an inner
  \<open>for (len = 3; len >= 1; len--)\<close> search (\<open>match_len\<close>), and the two fallback
  branches (consonant--vowel pair, single vowel) and the final skip.

  Against it stands the abstract specification \<open>segment\<close>: greedy
  longest-match-first segmentation against a dictionary predicate, which drops
  a character that starts no dictionary word.  The theory proves
  \<^item> termination of the loop (a measure on the distance to the end);
  \<^item> that the loop equals \<open>segment canConvertToAksara\<close> on every input, so both
    fallback branches of the source are dead code;
  \<^item> that on letters the dictionary is the key set of the mapping table;
  \<^item> that each syllable of a name of letters holds exactly one vowel and every
    vowel of the name lies in one syllable, so a name has as many syllables as vowels;
  \<^item> that the syllables, concatenated, form a subsequence of the name: what
    is lost are the consonants that start no table key (the \<open>d\<close> of \<open>ridho\<close>);
  \<^item> exactly when nothing is lost: on a name of ASCII letters the syllables
    concatenate to the lower-cased name if and only if every letter is kept
    (\<open>all_kept\<close>: a vowel, a consonant followed by a vowel, or the \<open>n\<close> of
    \<open>nga\<close>/\<open>nya\<close>).
\<close>

subsection \<open>The source loop\<close>

text \<open>The inner \<open>for\<close> loop: the first length, from \<open>len\<close> down to 1, whose
  substring at \<open>i\<close> fits in the name and converts.\<close>

fun match_len :: "string \<Rightarrow> nat \<Rightarrow> nat \<Rightarrow> nat option" where
  "match_len s i 0 = None"
| "match_len s i (Suc len) =
     (if i + Suc len \<le> length s \<and> canConvertToAksara (substring s i (i + Suc len))
      then Some (Suc len) else match_len s i len)"

lemma match_len_Some:
  "match_len s i k = Some len \<Longrightarrow>
   0 < len \<and> len \<le> k \<and> i + len \<le> length s \<and> canConvertToAksara (substring s i (i + len))"
  by (induction k) (auto split: if_splits)

text \<open>The \<open>while (i < lowerName.length)\<close> loop.  JavaScript's guard
  \<open>i < lowerName.length - 1\<close> is \<open>i + 1 < length\<close> here (the length is positive
  inside the loop).\<close>

function syllable_loop :: "string \<Rightarrow> nat \<Rightarrow> string list" where
  "syllable_loop lowerName i =
     (if i < length lowerName then
        (case match_len lowerName i 3 of
           Some len \<Rightarrow> substring lowerName i (i + len) # syllable_loop lowerName (i + len)
         | None \<Rightarrow>
             (if i + 1 < length lowerName \<and> isConsonant (lowerName ! i)
                 \<and> isVowel (lowerName ! (i + 1))
                 \<and> canConvertToAksara [lowerName ! i, lowerName ! (i + 1)]
              then [lowerName ! i, lowerName ! (i + 1)] # syllable_loop lowerName (i + 2)
              else if isVowel (lowerName ! i)
              then [lowerName ! i] # syllable_loop lowerName (Suc i)
              else syllable_loop lowerName (Suc i)))
      else [])"
  by pat_completeness auto
termination
  by (relation "measure (\<lambda>(s, i). length s - i)") (auto dest: match_len_Some)

declare syllable_loop.simps [simp del]

definition convertToSyllables :: "string \<Rightarrow> string list" where
  "convertToSyllables name = syllable_loop (js_lower name) 0"

text \<open>The same loop with an iteration budget: \<open>None\<close> when the budget runs out
  before \<open>i\<close> reaches the end of the name.\<close>

fun syllable_loop_fuel :: "nat \<Rightarrow> string \<Rightarrow> nat \<Rightarrow> string list option" where
  "syllable_loop_fuel 0 lowerName i = None"
| "syllable_loop_fuel (Suc fuel) lowerName i =
     (if i < length lowerName then
        (case match_len lowerName i 3 of
           Some len \<Rightarrow> map_option (Cons (substring lowerName i (i + len)))
                         (syllable_loop_fuel fuel lowerName (i + len))
         | None \<Rightarrow>
             (if i + 1 < length lowerName \<and> isConsonant (lowerName ! i)
                 \<and> isVowel (lowerName ! (i + 1))
                 \<and> canConvertToAksara [lowerName ! i, lowerName ! (i + 1)]
              then map_option (Cons [lowerName ! i, lowerName ! (i + 1)])
                     (syllable_loop_fuel fuel lowerName (i + 2))
              else if isVowel (lowerName ! i)
              then map_option (Cons [lowerName ! i]) (syllable_loop_fuel fuel lowerName (Suc i))
              else syllable_loop_fuel fuel lowerName (Suc i)))
      else Some [])"

subsection \<open>The specification: greedy longest match\<close>

fun longest :: "(string \<Rightarrow> bool) \<Rightarrow> string \<Rightarrow> nat \<Rightarrow> nat option" where
  "longest known s 0 = None"
| "longest known s (Suc k) =
     (if Suc k \<le> length s \<and> known (take (Suc k) s) then Some (Suc k) else longest known s k)"

lemma longest_Some:
  "longest known s k = Some j \<Longrightarrow> 0 < j \<and> j \<le> k \<and> j \<le> length s \<and> known (take j s)"
  by (induction k) (auto split: if_splits)

lemma longest_None:
  "longest known s k = None \<Longrightarrow> 0 < j \<Longrightarrow> j \<le> k \<Longrightarrow> j \<le> length s \<Longrightarrow> \<not> known (take j s)"
  by (induction k) (auto simp: le_Suc_eq split: if_splits)

function segment :: "(string \<Rightarrow> bool) \<Rightarrow> string \<Rightarrow> string list" where
  "segment known s =
     (if s = [] then []
      else case longest known s 3 of
             Some k \<Rightarrow> take k s # segment known (drop k s)
           | None \<Rightarrow> segment known (tl s))"
  by pat_completeness auto
termination
  by (relation "measure (\<lambda>(known, s). length s)") (auto dest: longest_Some)

declare segment.simps [simp del]

lemma segment_Nil [simp]: "segment known [] = []"
  by (simp add: segment.simps)

lemma segment_Some:
  "s \<noteq> [] \<Longrightarrow> longest known s 3 = Some k \<Longrightarrow> segment known s = take k s # segment known (drop k s)"
  by (simp add: segment.simps [of known s])

lemma segment_None:
  "s \<noteq> [] \<Longrightarrow> longest known s 3 = None \<Longrightarrow> segment known s = segment known (tl s)"
  by (simp add: segment.simps [of known s])

text \<open>Which letters survive the segmentation: a vowel; a consonant followed by a
  vowel; the \<open>n\<close> of \<open>nga\<close> and \<open>nya\<close>.  \<open>all_kept\<close> asks this of every letter.\<close>

fun letter_kept :: "char \<Rightarrow> string \<Rightarrow> bool" where
  "letter_kept c rest \<longleftrightarrow>
     isVowel c \<or> (isConsonant c \<and> rest \<noteq> [] \<and> isVowel (hd rest))
     \<or> (c = CHR ''n'' \<and> (take 2 rest = ''ga'' \<or> take 2 rest = ''ya''))"

fun all_kept :: "string \<Rightarrow> bool" where
  "all_kept [] = True"
| "all_kept (c # rest) = (letter_kept c rest \<and> all_kept rest)"

subsection \<open>The loop implements the specification\<close>

lemma match_len_longest:
  "match_len s i k = longest canConvertToAksara (drop i s) k"
  by (induction k) (auto simp: substring_def)

lemma drop_two_prefix:
  "i + 1 < length s \<Longrightarrow> take 2 (drop i s) = [s ! i, s ! (i + 1)]"
  by (simp add: take_Suc_conv_app_nth numeral_2_eq_2)

lemma drop_one_prefix:
  "i < length s \<Longrightarrow> take 1 (drop i s) = [s ! i]"
  by (simp add: take_Suc_conv_app_nth)

text \<open>When no table length matches at \<open>i\<close>, neither fallback branch of the source
  fires: the consonant--vowel pair is the length-2 candidate that was already
  rejected, and a lone vowel always converts.\<close>

lemma fallbacks_dead:
  assumes "i < length s" and "match_len s i 3 = None"
  shows "\<not> (i + 1 < length s \<and> canConvertToAksara [s ! i, s ! (i + 1)])"
    and "\<not> isVowel (s ! i)"
proof -
  have none: "longest canConvertToAksara (drop i s) 3 = None"
    using assms(2) by (simp add: match_len_longest)
  show "\<not> (i + 1 < length s \<and> canConvertToAksara [s ! i, s ! (i + 1)])"
    using longest_None [OF none, of 2] drop_two_prefix [of i s] by auto
  have "1 \<le> length (drop i s)" using assms(1) by simp
  then have "\<not> canConvertToAksara [s ! i]"
    using longest_None [OF none, of 1] drop_one_prefix [OF assms(1)] by simp
  then show "\<not> isVowel (s ! i)" using isVowel_convertible by blast
qed

lemma syllable_loop_segment:
  "syllable_loop s i = segment canConvertToAksara (drop i s)"
proof (induction s i rule: syllable_loop.induct)
  case (1 s i)
  show ?case
  proof (cases "i < length s")
    case False
    then show ?thesis by (simp add: syllable_loop.simps [of s i])
  next
    case lt: True
    then have ne: "drop i s \<noteq> []" by simp
    show ?thesis
    proof (cases "match_len s i 3")
      case (Some len)
      then have "longest canConvertToAksara (drop i s) 3 = Some len"
        by (simp add: match_len_longest)
      moreover have "i + len \<le> length s" using match_len_Some [OF Some] by simp
      moreover have "syllable_loop s (i + len) = segment canConvertToAksara (drop (i + len) s)"
        using "1.IH" lt Some by simp
      ultimately show ?thesis
        using lt Some
        by (simp add: syllable_loop.simps [of s i] segment_Some [OF ne] substring_def
            add.commute)
    next
      case None
      note dead = fallbacks_dead [OF lt None]
      have "longest canConvertToAksara (drop i s) 3 = None"
        using None by (simp add: match_len_longest)
      then have "segment canConvertToAksara (drop i s) = segment canConvertToAksara (drop (Suc i) s)"
        by (simp add: segment_None [OF ne] drop_Suc tl_drop)
      moreover have "syllable_loop s (Suc i) = segment canConvertToAksara (drop (Suc i) s)"
        using "1.IH" lt None dead by simp
      ultimately show ?thesis using lt None dead
        by (auto simp: syllable_loop.simps [of s i])
    qed
  qed
qed

subsection \<open>On letters the dictionary is the mapping table\<close>

lemma longest_cong:
  assumes "\<And>j. 0 < j \<Longrightarrow> j \<le> k \<Longrightarrow> j \<le> length s \<Longrightarrow> P (take j s) = Q (take j s)"
  shows "longest P s k = longest Q s k"
  using assms by (induction k) auto

lemma segment_cong_letters:
  "\<forall>t. list_all is_lower_letter t \<longrightarrow> P t = Q t \<Longrightarrow>
   list_all is_lower_letter s \<Longrightarrow> segment P s = segment Q s"
proof (induction P s rule: segment.induct)
  case (1 P s)
  show ?case
  proof (cases "s = []")
    case False
    have "\<And>j. P (take j s) = Q (take j s)"
      using "1.prems" by (auto simp: list_all_iff dest: in_set_takeD)
    then have lp: "longest P s 3 = longest Q s 3" by (intro longest_cong)
    show ?thesis
    proof (cases "longest P s 3")
      case None
      have "list_all is_lower_letter (tl s)" using "1.prems"(2) by (cases s) auto
      with False lp None "1.IH" "1.prems"(1) show ?thesis
        by (simp add: segment_None)
    next
      case (Some k)
      have "list_all is_lower_letter (drop k s)"
        using "1.prems"(2) by (auto simp: list_all_iff dest: in_set_dropD)
      moreover have "longest Q s 3 = Some k" using lp Some by simp
      ultimately show ?thesis using False Some "1.IH" "1.prems"(1)
        by (simp add: segment_Some)
    qed
  qed simp
qed

subsection \<open>Syllables, vowels and dropped letters\<close>

lemma segment_known: "t \<in> set (segment P s) \<Longrightarrow> P t"
proof (induction P s rule: segment.induct)
  case (1 P s)
  then show ?case
    by (cases "s = []"; cases "longest P s 3")
      (auto simp: segment_None segment_Some dest: longest_Some)
qed

lemma segment_vowels:
  "\<forall>c. isVowel c \<longrightarrow> P [c] \<Longrightarrow> filter isVowel (concat (segment P s)) = filter isVowel s"
proof (induction P s rule: segment.induct)
  case (1 P s)
  show ?case
  proof (cases "s = []")
    case ne: False
    show ?thesis
    proof (cases "longest P s 3")
      case (Some k)
      then have "filter isVowel (concat (segment P (drop k s))) = filter isVowel (drop k s)"
        using ne "1.IH" "1.prems" by simp
      then have "filter isVowel (concat (segment P s))
          = filter isVowel (take k s) @ filter isVowel (drop k s)"
        using ne Some by (simp add: segment_Some)
      then show ?thesis by (metis append_take_drop_id filter_append)
    next
      case None
      then have "\<not> P (take 1 s)" using ne by (intro longest_None) (auto simp: Suc_le_eq)
      with ne "1.prems" have "\<not> isVowel (hd s)" by (cases s) auto
      moreover have "filter isVowel (concat (segment P (tl s))) = filter isVowel (tl s)"
        using ne None "1.IH" "1.prems" by simp
      ultimately show ?thesis using ne None
        by (cases s) (auto simp: segment_None)
    qed
  qed simp
qed

lemma segment_subseq: "subseq (concat (segment P s)) s"
proof (induction P s rule: segment.induct)
  case (1 P s)
  show ?case
  proof (cases "s = []")
    case ne: False
    show ?thesis
    proof (cases "longest P s 3")
      case (Some k)
      then have "subseq (concat (segment P (drop k s))) (drop k s)"
        using ne "1.IH" by simp
      then have "subseq (take k s @ concat (segment P (drop k s))) (take k s @ drop k s)"
        by (intro list_emb_append_mono) auto
      with ne Some show ?thesis by (simp add: segment_Some)
    next
      case None
      then have "subseq (concat (segment P (tl s))) (tl s)"
        using ne "1.IH" by simp
      with ne None show ?thesis
        by (cases s) (auto simp: segment_None)
    qed
  qed simp
qed

lemma mapping_keys_iff:
  "t \<in> set mapping_keys \<longleftrightarrow>
     (\<exists>v. isVowel v \<and> t = [v]) \<or> (\<exists>c v. isConsonant c \<and> isVowel v \<and> t = [c, v])
     \<or> t = ''nga'' \<or> t = ''nya''"
proof
  have "list_all (\<lambda>t. (length t = 1 \<and> isVowel (t ! 0))
      \<or> (length t = 2 \<and> isConsonant (t ! 0) \<and> isVowel (t ! 1)) \<or> t = ''nga'' \<or> t = ''nya'')
      mapping_keys"
    by code_simp
  moreover assume "t \<in> set mapping_keys"
  ultimately have "(length t = 1 \<and> isVowel (t ! 0))
      \<or> (length t = 2 \<and> isConsonant (t ! 0) \<and> isVowel (t ! 1)) \<or> t = ''nga'' \<or> t = ''nya''"
    by (simp add: list_all_iff)
  then show "(\<exists>v. isVowel v \<and> t = [v]) \<or> (\<exists>c v. isConsonant c \<and> isVowel v \<and> t = [c, v])
     \<or> t = ''nga'' \<or> t = ''nya''"
    by (cases t rule: remdups_adj.cases) auto
next
  have pairs: "list_all (\<lambda>c. list_all (\<lambda>v. [c, v] \<in> set mapping_keys) ''aiueo'') ''bdghjlmnprstwy''"
    by code_simp
  have ng: "''nga'' \<in> set mapping_keys" "''nya'' \<in> set mapping_keys" by code_simp+
  assume "(\<exists>v. isVowel v \<and> t = [v]) \<or> (\<exists>c v. isConsonant c \<and> isVowel v \<and> t = [c, v])
     \<or> t = ''nga'' \<or> t = ''nya''"
  then show "t \<in> set mapping_keys"
    using pairs ng isVowel_key by (auto simp: list_all_iff isConsonant_def isVowel_def)
qed

lemma consonant_not_vowel: "isConsonant c \<Longrightarrow> \<not> isVowel c"
  by (auto simp: isConsonant_def isVowel_def)

lemma longest_keys:
  "longest (\<lambda>t. t \<in> set mapping_keys) (c # rest) 3 =
     (if c = CHR ''n'' \<and> (take 2 rest = ''ga'' \<or> take 2 rest = ''ya'') then Some 3
      else if isConsonant c \<and> rest \<noteq> [] \<and> isVowel (hd rest) then Some 2
      else if isVowel c then Some 1 else None)"
  by (cases rest rule: remdups_adj.cases)
    (auto simp: mapping_keys_iff numeral_3_eq_3 numeral_2_eq_2 consonant_not_vowel)

lemma concat_segment_Some:
  assumes "s \<noteq> []" "longest P s 3 = Some k"
  shows "concat (segment P s) = s \<longleftrightarrow> concat (segment P (drop k s)) = drop k s"
proof -
  have "concat (segment P s) = take k s @ concat (segment P (drop k s))"
    using assms by (simp add: segment_Some)
  then show ?thesis by (metis append_eq_append_conv append_take_drop_id length_take)
qed

lemma concat_segment_None:
  assumes "s \<noteq> []" "longest P s 3 = None"
  shows "concat (segment P s) \<noteq> s"
proof -
  have "length (concat (segment P (tl s))) \<le> length (tl s)"
    using segment_subseq list_emb_length by blast
  then show ?thesis using assms
    by (cases s) (auto simp: segment_None dest!: arg_cong [where f = length])
qed

lemma segment_keys_lossless:
  "concat (segment (\<lambda>t. t \<in> set mapping_keys) s) = s \<longleftrightarrow> all_kept s"
proof (induction "length s" arbitrary: s rule: less_induct)
  case less
  let ?P = "\<lambda>t. t \<in> set mapping_keys"
  show ?case
  proof (cases s)
    case (Cons c rest)
    show ?thesis
    proof (cases "longest ?P s 3")
      case None
      then have "\<not> letter_kept c rest" using Cons by (auto simp: longest_keys split: if_splits)
      then show ?thesis using None Cons concat_segment_None [of s ?P] by simp
    next
      case (Some k)
      have IH: "concat (segment ?P (drop k s)) = drop k s \<longleftrightarrow> all_kept (drop k s)"
        using less Some Cons longest_Some [OF Some] by simp
      have "all_kept s \<longleftrightarrow> all_kept (drop k s)"
      proof (cases "c = CHR ''n'' \<and> (take 2 rest = ''ga'' \<or> take 2 rest = ''ya'')")
        case True
        then obtain x r where "rest = x # CHR ''a'' # r" "x = CHR ''g'' \<or> x = CHR ''y''"
          by (cases rest rule: remdups_adj.cases) auto
        then show ?thesis using Some Cons True
          by (auto simp: longest_keys isConsonant_def isVowel_def)
      next
        case False
        then show ?thesis using Some Cons
          by (cases rest) (auto simp: longest_keys consonant_not_vowel split: if_splits)
      qed
      then show ?thesis using IH concat_segment_Some [OF _ Some] Cons by simp
    qed
  qed simp
qed

subsection \<open>The segmentation against the table\<close>

lemma list_all_lower_js_lower:
  "list_all is_ascii_letter name \<Longrightarrow> list_all is_lower_letter (js_lower name)"
  by (induction name) (simp_all add: js_lower_Cons)

lemma syllable_loop_table:
  "list_all is_lower_letter s \<Longrightarrow>
   syllable_loop s 0 = segment (\<lambda>t. t \<in> set mapping_keys) s"
  by (simp add: syllable_loop_segment segment_cong_letters canConvertToAksara_letters)

text \<open>Against the table, each syllable holds one vowel and no vowel is lost, so
  the number of syllables is the number of vowels.\<close>

lemma segment_table_vowel_count:
  "length (segment (\<lambda>t. t \<in> set mapping_keys) s) = length (filter isVowel s)"
proof -
  let ?ss = "segment (\<lambda>t. t \<in> set mapping_keys) s"
  have one: "\<forall>t \<in> set ?ss. length (filter isVowel t) = 1"
    using segment_known [of _ "\<lambda>t. t \<in> set mapping_keys" s] mapping_key_vowels by blast
  have "length (filter isVowel (concat ?ss)) = sum_list (map (\<lambda>t. length (filter isVowel t)) ?ss)"
    by (simp add: filter_concat length_concat comp_def)
  also have "\<dots> = sum_list (map (\<lambda>t. 1) ?ss)"
    using one by (metis (mono_tags, lifting) map_eq_conv)
  also have "\<dots> = length ?ss" by (simp add: sum_list_triv)
  finally have "length ?ss = length (filter isVowel (concat ?ss))" by simp
  also have "\<dots> = length (filter isVowel s)"
    by (simp add: segment_vowels isVowel_key)
  finally show ?thesis .
qed

subsection \<open>Properties of \<open>convertToSyllables\<close>\<close>

text \<open>C1. The source loop with its two fallback branches computes exactly the
  greedy longest-match segmentation of the lower-cased name against
  \<open>canConvertToAksara\<close>: both fallbacks are dead code.\<close>

theorem convertToSyllables_greedy:
  "convertToSyllables name = segment canConvertToAksara (js_lower name)"
  by (simp add: convertToSyllables_def syllable_loop_segment)

text \<open>C2. On a name of ASCII letters the dictionary of the segmentation is the key set
  of the page's mapping table: the name is cut into table keys, longest first.\<close>

theorem convertToSyllables_table:
  assumes "list_all is_ascii_letter name"
  shows "convertToSyllables name = segment (\<lambda>t. t \<in> set mapping_keys) (js_lower name)"
  using list_all_lower_js_lower [OF assms]
  by (simp add: convertToSyllables_def syllable_loop_table)

theorem convertToSyllables_table_witness:
  "list_all is_ascii_letter ''Ridho'' \<and>
   convertToSyllables ''Ridho'' = segment (\<lambda>t. t \<in> set mapping_keys) (js_lower ''Ridho'')"
proof -
  have h: "list_all is_ascii_letter ''Ridho''" by (simp add: is_ascii_letter_def)
  show ?thesis using h convertToSyllables_table [OF h] by blast
qed

text \<open>C3. A name of ASCII letters has exactly as many syllables as vowels: every
  syllable is a table key, each key holds one vowel, and no vowel is dropped.\<close>

theorem syllable_count_vowels:
  assumes "list_all is_ascii_letter name"
  shows "length (convertToSyllables name) = length (filter isVowel (js_lower name))"
  using list_all_lower_js_lower [OF assms]
  by (simp add: convertToSyllables_def syllable_loop_table segment_table_vowel_count)

theorem syllable_count_vowels_witness:
  "list_all is_ascii_letter ''Nganga'' \<and>
   length (convertToSyllables ''Nganga'') = length (filter isVowel (js_lower ''Nganga''))"
proof -
  have h: "list_all is_ascii_letter ''Nganga''" by (simp add: is_ascii_letter_def)
  show ?thesis using h syllable_count_vowels [OF h] by blast
qed

text \<open>Every syllable the loop emits, on any input, converts to a catalog symbol:
  the second half of the custom-name page's fifth validation rule never fails.\<close>

theorem syllables_convertible:
  "list_all canConvertToAksara (convertToSyllables name)"
  using segment_known [of _ canConvertToAksara]
  by (auto simp: convertToSyllables_def syllable_loop_segment list_all_iff)

text \<open>The syllables, concatenated, are a subsequence of the lower-cased name:
  segmentation only drops characters, it never invents or reorders them.\<close>

theorem syllables_subseq:
  "subseq (concat (convertToSyllables name)) (js_lower name)"
  by (simp add: convertToSyllables_def syllable_loop_segment segment_subseq)

text \<open>C4. Which names lose letters: on a name of ASCII letters the syllables,
  concatenated, spell the whole lower-cased name exactly when every letter is a
  vowel, a consonant followed by a vowel, or the \<open>n\<close> of \<open>nga\<close>/\<open>nya\<close>.  Any
  other letter (a consonant before a consonant or at the end, a letter outside
  the Batak alphabet) is silently dropped: \<open>Ridho\<close>, which the checklist
  accepts, loses its \<open>d\<close>.\<close>

theorem syllables_lossless_iff:
  assumes "list_all is_ascii_letter name"
  shows "concat (convertToSyllables name) = js_lower name \<longleftrightarrow> all_kept (js_lower name)"
  using list_all_lower_js_lower [OF assms]
  by (simp add: convertToSyllables_def syllable_loop_table segment_keys_lossless)

theorem syllables_lossless_iff_witness:
  "list_all is_ascii_letter ''Ridho'' \<and> concat (convertToSyllables ''Ridho'') \<noteq> js_lower ''Ridho''"
proof -
  have h: "list_all is_ascii_letter ''Ridho''" by (simp add: is_ascii_letter_def)
  have "\<not> all_kept (js_lower ''Ridho'')" by code_simp
  then show ?thesis using h syllables_lossless_iff [OF h] by blast
qed

text \<open>C33. The \<open>while\<close> loop of \<open>convertToSyllables\<close> terminates after at most
  \<open>length lowerName - i\<close> iterations: every iteration advances \<open>i\<close> by at least
  one, so a budget of one more step than that always suffices and the bounded
  loop returns the loop's result.\<close>

theorem syllable_loop_bound:
  "length lowerName - i < fuel \<Longrightarrow> syllable_loop_fuel fuel lowerName i = Some (syllable_loop lowerName i)"
proof (induction lowerName i arbitrary: fuel rule: syllable_loop.induct)
  case (1 s i)
  then obtain f where f: "fuel = Suc f" by (cases fuel) auto
  show ?case
  proof (cases "i < length s")
    case False
    then show ?thesis using f by (simp add: syllable_loop.simps [of s i])
  next
    case True
    show ?thesis
    proof (cases "match_len s i 3")
      case (Some len)
      then have "0 < len" "i + len \<le> length s" using match_len_Some by blast+
      then show ?thesis using 1 f True Some by (simp add: syllable_loop.simps [of s i])
    next
      case None
      then show ?thesis using 1 f True by (simp add: syllable_loop.simps [of s i])
    qed
  qed
qed

theorem syllable_loop_bound_witness:
  "length ''ana'' - 0 < (4::nat) \<and> syllable_loop_fuel 4 ''ana'' 0 = Some (syllable_loop ''ana'' 0)"
  using syllable_loop_bound [of "''ana''" 0 4] by simp

end
