(* ===== verification/Validation.thy ===== *)
theory Validation
  imports Syllables
begin

text \<open>
  The two name forms and their validation checklists.
  \<^item> The custom-name page, \<open>src/src/app/tryon/custom-name/page.tsx\<close>:
    \<open>inputRules\<close> (lines 299--360), five rules, the last two of which call
    \<open>convertToSyllables\<close>; \<open>nameHandler\<close> (368--379).
  \<^item> The landing page's form, \<open>src/src/components/sections/HandsOn.tsx\<close>:
    its own \<open>inputRules\<close> (29--110), which count vowel groups instead of
    syllables; \<open>nameHandler\<close> (119--131) and \<open>handleSubmit\<close> (112--117), which
    sends the name to the custom-name page.
  A rule is a record of a label and a predicate, as the \<open>ValidationRule\<close>
  interface has it; a form's verdict is \<open>inputRules.every(...)\<close>.

  The theory gives each checklist a closed form (which names it accepts), shows
  that the digraph replacement of the fifth rule never changes its verdict,
  and relates the two forms: every name the custom-name page accepts is
  accepted by the landing form, but not conversely.
\<close>

record validation_rule =
  label :: string
  rule :: "string \<Rightarrow> bool"

definition batakConsonants :: string where
  "batakConsonants = ''bdghjlmnprstwy''"

definition batakVowels :: string where
  "batakVowels = ''aiueo''"

text \<open>The marker \<open>'\<tilde>n'\<close> (U+00F1) is an 8-bit code unit.\<close>

definition enye :: char where
  "enye = char_of (241 :: nat)"

subsection \<open>The custom-name page\<close>

definition rule_letters :: "string \<Rightarrow> bool" where
  "rule_letters input = (if input = [] then False else letters_only input)"

definition rule_no_space :: "string \<Rightarrow> bool" where
  "rule_no_space input = (if input = [] then False else CHR '' '' \<notin> set input)"

definition rule_no_special :: "string \<Rightarrow> bool" where
  "rule_no_special input = (if input = [] then False else letters_only input)"

definition rule_syllables :: "string \<Rightarrow> bool" where
  "rule_syllables input =
     (if input = [] then False
      else let syllables = convertToSyllables input
           in 0 < length syllables \<and> length syllables \<le> 5)"

text \<open>The fifth rule lower-cases the input, replaces every \<open>nga\<close> by the marker
  \<open>Eng\<close> and every \<open>nya\<close> by \<open>enye\<close>, skips the markers and requires every
  other unit to be a Batak consonant or vowel; then it requires every syllable to
  convert.\<close>

definition processed_custom :: "string \<Rightarrow> code_unit list" where
  "processed_custom input =
     replace_all (map Unit ''nya'') [Unit enye]
       (replace_all (map Unit ''nga'') [Eng] (map Unit (js_lower input)))"

fun batak_unit :: "string \<Rightarrow> code_unit \<Rightarrow> bool" where
  "batak_unit alphabet Eng = True"
| "batak_unit alphabet (Unit c) = (c = enye \<or> c \<in> set alphabet)"

definition rule_batak :: "string \<Rightarrow> bool" where
  "rule_batak input =
     (if input = [] then False
      else list_all (batak_unit (batakConsonants @ batakVowels)) (processed_custom input)
           \<and> list_all canConvertToAksara (convertToSyllables input))"

definition inputRules :: "validation_rule list" where
  "inputRules = [
     \<lparr>label = ''Hanya huruf'', rule = rule_letters\<rparr>,
     \<lparr>label = ''Tidak ada spasi'', rule = rule_no_space\<rparr>,
     \<lparr>label = ''Tidak ada karakter khusus'', rule = rule_no_special\<rparr>,
     \<lparr>label = ''Tidak lebih dari 5 suku kata'', rule = rule_syllables\<rparr>,
     \<lparr>label = ''Terdapat pada Aksara Batak'', rule = rule_batak\<rparr>]"

definition isNameValid :: "string \<Rightarrow> bool" where
  "isNameValid input = list_all (\<lambda>r. rule r input) inputRules"

text \<open>\<open>nameHandler\<close>: the verdict stored in \<open>isNameValid\<close> after an edit.\<close>

definition nameHandler :: "string \<Rightarrow> bool" where
  "nameHandler inputValue = (if js_trim inputValue = [] then False else isNameValid inputValue)"

subsection \<open>The landing page's form\<close>

definition ho_rule_letters :: "string \<Rightarrow> bool" where
  "ho_rule_letters input = (if input = [] then False else letters_only input)"

definition ho_rule_no_space :: "string \<Rightarrow> bool" where
  "ho_rule_no_space input = (if input = [] then False else CHR '' '' \<notin> set input)"

definition ho_rule_no_special :: "string \<Rightarrow> bool" where
  "ho_rule_no_special input = (if input = [] then False else letters_only input)"

text \<open>\<open>input.toLowerCase().match(/[aiueo]+/g)\<close> returns the maximal runs of vowels;
  \<open>vowel_groups\<close> counts them (the flag says whether the previous unit was a vowel).\<close>

fun vowel_groups_from :: "bool \<Rightarrow> string \<Rightarrow> nat" where
  "vowel_groups_from in_run [] = 0"
| "vowel_groups_from in_run (c # cs) =
     (if isVowel c then (if in_run then 0 else 1) + vowel_groups_from True cs
      else vowel_groups_from False cs)"

definition vowel_groups :: "string \<Rightarrow> nat" where
  "vowel_groups s = vowel_groups_from False s"

definition ho_rule_vowel_groups :: "string \<Rightarrow> bool" where
  "ho_rule_vowel_groups input =
     (if input = [] then False
      else let syllableCount = vowel_groups (js_lower input)
           in if syllableCount = 0 then False else syllableCount \<le> 5)"

definition batakChars :: string where
  "batakChars = ''hnrtbwmlpsdgjyaiueo''"

definition processed_handson :: "string \<Rightarrow> code_unit list" where
  "processed_handson input =
     replace_all (map Unit ''ny'') [Unit enye]
       (replace_all (map Unit ''ng'') [Eng] (map Unit (js_lower input)))"

definition ho_rule_batak :: "string \<Rightarrow> bool" where
  "ho_rule_batak input =
     (if input = [] then False
      else list_all (batak_unit batakChars) (processed_handson input))"

definition handsOn_inputRules :: "validation_rule list" where
  "handsOn_inputRules = [
     \<lparr>label = ''common.validation.lettersOnly'', rule = ho_rule_letters\<rparr>,
     \<lparr>label = ''common.validation.noSpaces'', rule = ho_rule_no_space\<rparr>,
     \<lparr>label = ''common.validation.noSpecialChars'', rule = ho_rule_no_special\<rparr>,
     \<lparr>label = ''Tidak lebih dari 5 suku kata'', rule = ho_rule_vowel_groups\<rparr>,
     \<lparr>label = ''Terdapat pada Aksara Batak'', rule = ho_rule_batak\<rparr>]"

definition handsOn_isValid :: "string \<Rightarrow> bool" where
  "handsOn_isValid input = list_all (\<lambda>r. rule r input) handsOn_inputRules"

definition handsOn_nameHandler :: "string \<Rightarrow> bool" where
  "handsOn_nameHandler inputValue =
     (if js_trim inputValue = [] then False else handsOn_isValid inputValue)"

text \<open>\<open>handleSubmit\<close>: the name it navigates with to \<open>/tryon/custom-name\<close>, or
  \<open>None\<close> when it does nothing.  \<open>encodeURIComponent\<close> followed by the target
  page's \<open>decodeURIComponent\<close> gives the name back, so the name is passed as it is.\<close>

definition handleSubmit :: "bool \<Rightarrow> string \<Rightarrow> string option" where
  "handleSubmit isNameValid_flag inputValue =
     (if isNameValid_flag \<and> js_trim inputValue \<noteq> [] then Some inputValue else None)"

subsection \<open>Lemmas on the rules\<close>

lemma set_batak_alphabet:
  "set (batakConsonants @ batakVowels) = {c. isConsonant c \<or> isVowel c}"
  "set batakChars = {c. isConsonant c \<or> isVowel c}"
  by (auto simp: batakConsonants_def batakVowels_def batakChars_def isConsonant_def isVowel_def)

lemma batak_alphabet_mem:
  "(c \<in> set batakConsonants \<or> c \<in> set batakVowels) \<longleftrightarrow> isConsonant c \<or> isVowel c"
  by (simp add: batakConsonants_def batakVowels_def isConsonant_def isVowel_def)

lemma enye_not_in_lower_ascii:
  "list_all is_ascii s \<Longrightarrow> enye \<notin> set (js_lower s)"
proof
  assume a: "list_all is_ascii s" and e: "enye \<in> set (js_lower s)"
  then obtain c where "c \<in> set s" "lower_char c = enye" by (auto simp: js_lower_def)
  with a have "is_ascii enye" by (metis is_ascii_lower_char list_all_iff)
  then show False by (simp add: is_ascii_def enye_def)
qed

text \<open>Replacing letters of the alphabet by markers the check skips never changes
  its verdict, provided the input does not itself contain the marker \<open>enye\<close>.\<close>

lemma batak_markers_ok:
  assumes "set p1 \<subseteq> set A" and "set p2 \<subseteq> set A" and "enye \<notin> set s"
  shows "list_all (batak_unit A)
           (replace_all (map Unit p2) [Unit enye] (replace_all (map Unit p1) [Eng] (map Unit s)))
         \<longleftrightarrow> list_all (\<lambda>c. c \<in> set A) s"
  (is "list_all _ ?r \<longleftrightarrow> _")
proof
  assume ok: "list_all (batak_unit A) ?r"
  show "list_all (\<lambda>c. c \<in> set A) s"
  proof (clarsimp simp: list_all_iff)
    fix c assume c: "c \<in> set s"
    show "c \<in> set A"
    proof (cases "c \<in> set p1 \<union> set p2")
      case True
      with assms(1,2) show ?thesis by blast
    next
      case False
      then have "Unit c \<in> set ?r"
        using c by (auto intro!: replace_all_keeps)
      with ok have "c = enye \<or> c \<in> set A" by (auto simp: list_all_iff)
      with c assms(3) show ?thesis by blast
    qed
  qed
next
  assume ok: "list_all (\<lambda>c. c \<in> set A) s"
  have "set ?r \<subseteq> Unit ` set s \<union> {Eng, Unit enye}"
    using set_replace_all [of "map Unit p2" "[Unit enye]"]
      set_replace_all [of "map Unit p1" "[Eng]" "map Unit s"] by fastforce
  with ok show "list_all (batak_unit A) ?r"
    by (force simp: list_all_iff)
qed

lemma letters_only_ascii: "letters_only s \<Longrightarrow> list_all is_ascii s"
  by (auto simp: letters_only_def list_all_iff is_ascii_letter_ascii)

lemma letters_only_no_space: "letters_only s \<Longrightarrow> CHR '' '' \<notin> set s"
  by (auto simp: letters_only_def list_all_iff is_ascii_letter_def)

lemma letters_only_nonempty: "letters_only s \<Longrightarrow> s \<noteq> []"
  by (simp add: letters_only_def)

lemma length_syllables_letters:
  "letters_only s \<Longrightarrow> length (convertToSyllables s) = length (filter isVowel (js_lower s))"
  by (simp add: letters_only_def convertToSyllables_def list_all_lower_js_lower
      syllable_loop_table segment_table_vowel_count)

lemma syllables_empty_letters:
  "letters_only s \<Longrightarrow> convertToSyllables s = [] \<longleftrightarrow> filter isVowel (js_lower s) = []"
  by (metis length_0_conv length_syllables_letters)

lemma syllables_known: "list_all canConvertToAksara (convertToSyllables s)"
  using segment_known [of _ canConvertToAksara]
  by (auto simp: convertToSyllables_def syllable_loop_segment list_all_iff)

lemma rule_batak_chars:
  assumes "list_all is_ascii input"
  shows "rule_batak input \<longleftrightarrow>
    input \<noteq> [] \<and> list_all (\<lambda>c. isConsonant c \<or> isVowel c) (js_lower input)"
proof -
  have "list_all (batak_unit (batakConsonants @ batakVowels)) (processed_custom input)
      \<longleftrightarrow> list_all (\<lambda>c. c \<in> set (batakConsonants @ batakVowels)) (js_lower input)"
    unfolding processed_custom_def
    by (rule batak_markers_ok)
      (simp_all add: batakConsonants_def batakVowels_def enye_not_in_lower_ascii assms)
  then show ?thesis
    using syllables_known [of input] by (simp add: rule_batak_def batak_alphabet_mem)
qed

lemma ho_rule_batak_chars:
  assumes "list_all is_ascii input"
  shows "ho_rule_batak input \<longleftrightarrow>
    input \<noteq> [] \<and> list_all (\<lambda>c. isConsonant c \<or> isVowel c) (js_lower input)"
proof -
  have "list_all (batak_unit batakChars) (processed_handson input)
      \<longleftrightarrow> list_all (\<lambda>c. c \<in> set batakChars) (js_lower input)"
    unfolding processed_handson_def
    by (rule batak_markers_ok) (simp_all add: batakChars_def enye_not_in_lower_ascii assms)
  then show ?thesis by (simp add: ho_rule_batak_def set_batak_alphabet)
qed

lemma isNameValid_rules:
  "isNameValid input \<longleftrightarrow> rule_letters input \<and> rule_no_space input \<and> rule_no_special input
     \<and> rule_syllables input \<and> rule_batak input"
  by (simp add: isNameValid_def inputRules_def)

lemma handsOn_isValid_rules:
  "handsOn_isValid input \<longleftrightarrow> ho_rule_letters input \<and> ho_rule_no_space input
     \<and> ho_rule_no_special input \<and> ho_rule_vowel_groups input \<and> ho_rule_batak input"
  by (simp add: handsOn_isValid_def handsOn_inputRules_def)

lemma vowel_groups_from_le: "vowel_groups_from b s \<le> length (filter isVowel s)"
  by (induction b s rule: vowel_groups_from.induct) auto

lemma vowel_groups_pos:
  "filter isVowel s \<noteq> [] \<Longrightarrow> 0 < vowel_groups s"
  unfolding vowel_groups_def by (induction s) auto

subsection \<open>What each form accepts\<close>

lemma syllables_keys_letters:
  "letters_only s \<Longrightarrow> t \<in> set (convertToSyllables s) \<Longrightarrow> t \<in> set mapping_keys"
  using segment_known [of t "\<lambda>t. t \<in> set mapping_keys"]
  by (simp add: letters_only_def convertToSyllables_def list_all_lower_js_lower syllable_loop_table)

lemma key_symbol_is_label:
  "t \<in> set mapping_keys \<Longrightarrow> convertSyllableToAksara t \<in> set (map latin characters)"
proof -
  assume "t \<in> set mapping_keys"
  then obtain a where ta: "(t, a) \<in> set aksara_mapping" by (auto simp: mapping_keys_def)
  then have "a \<in> set (map latin characters)"
    using mapping_values_are_labels by (auto simp: list_all_iff)
  with ta show ?thesis by (simp add: convertSyllableToAksara_key)
qed

lemma isNameValid_closed:
  "isNameValid input \<longleftrightarrow>
     letters_only input \<and> list_all (\<lambda>c. isConsonant c \<or> isVowel c) (js_lower input)
     \<and> 0 < length (filter isVowel (js_lower input))
     \<and> length (filter isVowel (js_lower input)) \<le> 5"
proof (cases "letters_only input")
  case True
  then show ?thesis
    by (auto simp: isNameValid_rules rule_letters_def rule_no_space_def rule_no_special_def
        rule_syllables_def rule_batak_chars letters_only_ascii letters_only_no_space
        letters_only_nonempty length_syllables_letters syllables_empty_letters)
next
  case False
  then show ?thesis by (simp add: isNameValid_rules rule_letters_def)
qed

text \<open>C5. The custom-name checklist in closed form: a name passes exactly when it is a
  non-empty string of ASCII letters, all of them Batak consonants or vowels once
  lower-cased, with one to five vowels.\<close>

theorem isNameValid_closed_form:
  "isNameValid input \<longleftrightarrow>
     letters_only input \<and> list_all (\<lambda>c. isConsonant c \<or> isVowel c) (js_lower input)
     \<and> 0 < length (filter isVowel (js_lower input))
     \<and> length (filter isVowel (js_lower input)) \<le> 5"
  by (rule isNameValid_closed)

text \<open>C6. The digraph replacement of both forms' last rule (\<open>nga\<close>/\<open>nya\<close> on the
  custom-name page, \<open>ng\<close>/\<open>ny\<close> on the landing page) never changes the rule's
  verdict on an ASCII input: checking the lower-cased input unit by unit gives the same answer.\<close>

theorem digraph_replacement_irrelevant:
  assumes "list_all is_ascii input"
  shows "list_all (batak_unit (batakConsonants @ batakVowels)) (processed_custom input)
           = list_all (batak_unit (batakConsonants @ batakVowels)) (map Unit (js_lower input))
       \<and> list_all (batak_unit batakChars) (processed_handson input)
           = list_all (batak_unit batakChars) (map Unit (js_lower input))"
proof -
  have plain: "list_all (batak_unit A) (map Unit (js_lower input))
      \<longleftrightarrow> list_all (\<lambda>c. c \<in> set A) (js_lower input)" for A
    using enye_not_in_lower_ascii [OF assms] by (auto simp: list_all_iff)
  have "list_all (batak_unit (batakConsonants @ batakVowels)) (processed_custom input)
      \<longleftrightarrow> list_all (\<lambda>c. c \<in> set (batakConsonants @ batakVowels)) (js_lower input)"
    unfolding processed_custom_def
    by (rule batak_markers_ok)
      (simp_all add: batakConsonants_def batakVowels_def enye_not_in_lower_ascii assms)
  moreover have "list_all (batak_unit batakChars) (processed_handson input)
      \<longleftrightarrow> list_all (\<lambda>c. c \<in> set batakChars) (js_lower input)"
    unfolding processed_handson_def
    by (rule batak_markers_ok) (simp_all add: batakChars_def enye_not_in_lower_ascii assms)
  ultimately show ?thesis using plain by blast
qed

theorem digraph_replacement_irrelevant_witness:
  "list_all is_ascii ''Nganya'' \<and>
   list_all (batak_unit (batakConsonants @ batakVowels)) (processed_custom ''Nganya'')
     = list_all (batak_unit (batakConsonants @ batakVowels)) (map Unit (js_lower ''Nganya''))
   \<and> list_all (batak_unit batakChars) (processed_handson ''Nganya'')
     = list_all (batak_unit batakChars) (map Unit (js_lower ''Nganya''))"
proof -
  have h: "list_all is_ascii ''Nganya''" by (simp add: is_ascii_def)
  show ?thesis using h digraph_replacement_irrelevant [OF h] by blast
qed

text \<open>The landing form's checklist in closed form: ASCII letters from the Batak
  alphabet with one to five maximal groups of consecutive vowels.\<close>

theorem handsOn_isValid_closed_form:
  "handsOn_isValid input \<longleftrightarrow>
     letters_only input \<and> list_all (\<lambda>c. isConsonant c \<or> isVowel c) (js_lower input)
     \<and> 0 < vowel_groups (js_lower input) \<and> vowel_groups (js_lower input) \<le> 5"
proof (cases "letters_only input")
  case True
  then show ?thesis
    by (auto simp: handsOn_isValid_rules ho_rule_letters_def ho_rule_no_space_def
        ho_rule_no_special_def ho_rule_vowel_groups_def ho_rule_batak_chars letters_only_ascii
        letters_only_no_space letters_only_nonempty Let_def)
next
  case False
  then show ?thesis by (simp add: handsOn_isValid_rules ho_rule_letters_def)
qed

text \<open>C7. Every name the custom-name page accepts passes the landing form too: a
  name's vowel groups are at least one when it has a vowel and never outnumber its vowels.\<close>

theorem custom_valid_handsOn_valid:
  assumes "isNameValid input"
  shows "handsOn_isValid input"
proof -
  have l: "letters_only input" using assms
    by (simp add: isNameValid_rules rule_letters_def split: if_splits)
  let ?v = "length (filter isVowel (js_lower input))"
  from assms l have v: "0 < ?v" "?v \<le> 5"
    and a: "list_all (\<lambda>c. isConsonant c \<or> isVowel c) (js_lower input)"
    by (simp_all add: isNameValid_rules rule_syllables_def length_syllables_letters
        syllables_empty_letters rule_batak_chars letters_only_ascii letters_only_nonempty)
  have "0 < vowel_groups (js_lower input)" using v(1) by (intro vowel_groups_pos) auto
  moreover have "vowel_groups (js_lower input) \<le> 5"
    using v(2) vowel_groups_from_le [of False "js_lower input"] by (simp add: vowel_groups_def)
  ultimately show ?thesis using l a
    by (auto simp: handsOn_isValid_rules ho_rule_letters_def ho_rule_no_space_def
        ho_rule_no_special_def ho_rule_vowel_groups_def ho_rule_batak_chars letters_only_ascii
        letters_only_no_space letters_only_nonempty Let_def)
qed

theorem custom_valid_handsOn_valid_witness:
  "isNameValid ''Ridho'' \<and> handsOn_isValid ''Ridho''"
proof -
  have h: "isNameValid ''Ridho''" by code_simp
  show ?thesis using h custom_valid_handsOn_valid [OF h] by blast
qed

text \<open>C8. The converse fails, and exactly where: the landing form accepts and
  submits a name that the custom-name page then rejects precisely when the name
  is a string of ASCII letters of the Batak alphabet with at most five maximal
  vowel groups but more than five vowels (\<open>Mariaelena\<close>: four groups, six
  vowels).  The redirect then lands on a page that stays at its first step.\<close>

theorem handsOn_accepts_custom_rejects:
  "(handleSubmit (handsOn_nameHandler input) input = Some input \<and> \<not> isNameValid input)
   \<longleftrightarrow> letters_only input \<and> list_all (\<lambda>c. isConsonant c \<or> isVowel c) (js_lower input)
       \<and> vowel_groups (js_lower input) \<le> 5 \<and> 5 < length (filter isVowel (js_lower input))"
proof -
  have submit: "handleSubmit (handsOn_nameHandler input) input = Some input
      \<longleftrightarrow> handsOn_isValid input"
  proof -
    have "handsOn_isValid input \<Longrightarrow> js_trim input \<noteq> []"
      by (simp add: handsOn_isValid_closed_form js_trim_Nil_letters)
    then show ?thesis by (auto simp: handleSubmit_def handsOn_nameHandler_def)
  qed
  have groups: "5 < length (filter isVowel (js_lower input)) \<Longrightarrow> 0 < vowel_groups (js_lower input)"
    by (rule vowel_groups_pos) auto
  show ?thesis
    unfolding submit handsOn_isValid_closed_form isNameValid_closed
    using groups vowel_groups_from_le [of False "js_lower input"]
    by (auto simp: vowel_groups_def)
qed

theorem handsOn_accepts_custom_rejects_witness:
  "handleSubmit (handsOn_nameHandler ''Mariaelena'') ''Mariaelena'' = Some ''Mariaelena''
   \<and> \<not> isNameValid ''Mariaelena''"
proof -
  have "letters_only ''Mariaelena'' \<and> list_all (\<lambda>c. isConsonant c \<or> isVowel c) (js_lower ''Mariaelena'')
       \<and> vowel_groups (js_lower ''Mariaelena'') \<le> 5
       \<and> 5 < length (filter isVowel (js_lower ''Mariaelena''))"
    by code_simp
  then show ?thesis using handsOn_accepts_custom_rejects [of "''Mariaelena''"] by blast
qed

text \<open>C9. The spec's first testable property: a name that passes the custom-name
  checklist yields one to five syllables, each of which converts to a symbol that is
  literally a label of the catalog, so the page finds its reference glyph.\<close>

theorem valid_name_syllables:
  assumes "isNameValid input"
  shows "0 < length (convertToSyllables input) \<and> length (convertToSyllables input) \<le> 5
    \<and> (\<forall>t \<in> set (convertToSyllables input).
          convertSyllableToAksara t \<in> set (map latin characters))"
proof -
  have l: "letters_only input" using assms
    by (simp add: isNameValid_rules rule_letters_def split: if_splits)
  then have "0 < length (convertToSyllables input) \<and> length (convertToSyllables input) \<le> 5"
    using assms by (simp add: isNameValid_rules rule_syllables_def letters_only_nonempty Let_def)
  moreover have "\<forall>t \<in> set (convertToSyllables input).
      convertSyllableToAksara t \<in> set (map latin characters)"
    using l syllables_keys_letters key_symbol_is_label by blast
  ultimately show ?thesis by blast
qed

theorem valid_name_syllables_witness:
  "isNameValid ''Ridho'' \<and> 0 < length (convertToSyllables ''Ridho'')
   \<and> length (convertToSyllables ''Ridho'') \<le> 5
   \<and> list_all (\<lambda>t. convertSyllableToAksara t \<in> set (map latin characters))
        (convertToSyllables ''Ridho'')"
proof -
  have h: "isNameValid ''Ridho''" by code_simp
  show ?thesis using h valid_name_syllables [OF h] by (simp add: list_all_iff)
qed

end
