(* ===== verification/Canvas.thy ===== *)
theory Canvas
  imports Prelude
begin

text \<open>
  The drawing surface \<open>AksaraCanvas\<close>, \<open>src/src/components/CanvasAksara.tsx\<close>.
  The component owns two HTML canvases: the drawing canvas (\<open>canvasRef\<close>) and a
  placeholder canvas (\<open>placeholderCanvasRef\<close>) that is rendered only while the
  \<open>showPlaceholder\<close> prop is true; and one flag, \<open>isDrawingRef\<close>.

  State.  \<open>canvas_state\<close> holds the drawing canvas as a \<open>surface\<close> option (\<open>None\<close>
  when \<open>canvasRef.current\<close> is null), the placeholder canvas as an \<open>overlay\<close>
  option, the flag, and the image loads that \<open>drawPlaceholder\<close> started and that
  have not fired yet.  A surface is its bitmap (RGBA bytes per pixel) and the 2D
  context state the component uses (fill and stroke colour, line width, current
  path).  An overlay records which images were blitted since its last
  \<open>clearRect\<close>, with their opacity and rectangle.

  Operations.  One definition per function of the component: the initialising
  effect (lines 54--79), \<open>drawPlaceholder\<close> and the image's \<open>onload\<close>
  (81--102), the placeholder effect (105--109), \<open>clear\<close> (111--120),
  \<open>getImageData\<close> (122--126), \<open>clearPlaceholder\<close> (128--136), \<open>isEmpty\<close>
  (138--150), \<open>getCoordinates\<close> (160--185), \<open>startDrawing\<close> (187--208),
  \<open>draw\<close> (210--230), \<open>stopDrawing\<close> (232--237), and the event wiring of the
  rendered elements (239--288).  \<open>isEmpty\<close> returns a sum: \<open>getImageData\<close> on a
  region of zero width or height throws \<open>IndexSizeError\<close>.  \<open>canvas_rerender\<close>
  is a re-render with new props: React mounts or drops the placeholder element,
  then runs the initialising effect and the placeholder effect when their
  dependencies changed.  Handlers return the callbacks they fire
  (\<open>onDrawStart\<close>, \<open>onDrawing\<close>, \<open>onDrawEnd\<close>) as a list of notifications.

  Colours are opaque RGB: the component's colour props are six-digit hex strings
  (the defaults; no page passes others).  How the browser turns a path into pixels
  is a parameter \<open>raster\<close> of the stroke operation (line width and subpaths to the
  covered pixels); covered pixels take the stroke colour, anti-aliasing is not
  modelled.  \<open>getContext('2d')\<close> is taken to succeed on a present canvas, as it
  does for a canvas that never had another context type.
\<close>

type_synonym rgb = "8 word \<times> 8 word \<times> 8 word"
type_synonym rgba = "8 word \<times> 8 word \<times> 8 word \<times> 8 word"
type_synonym point = "real \<times> real"

definition opaque :: "rgb \<Rightarrow> rgba" where
  "opaque c = (case c of (r, g, b) \<Rightarrow> (r, g, b, 255))"

text \<open>\<open>'#ffffff'\<close> and \<open>'#1f2937'\<close>, the default background and stroke colours.\<close>

definition white :: rgb where
  "white = (255, 255, 255)"

definition default_stroke :: rgb where
  "default_stroke = (31, 41, 55)"

text \<open>The props of the component that its logic reads, with the defaults of
  lines 33--47 in \<open>default_props\<close>.\<close>

record canvas_props =
  cp_width :: nat
  cp_height :: nat
  strokeWidth :: real
  strokeColor :: rgb
  backgroundColor :: rgb
  showTrashButton :: bool
  showPlaceholder :: bool
  placeholderImage :: "string option"
  placeholderOpacity :: real
  disabled :: bool

definition default_props :: canvas_props where
  "default_props = \<lparr>cp_width = 400, cp_height = 400, strokeWidth = 10,
     strokeColor = default_stroke, backgroundColor = white, showTrashButton = True,
     showPlaceholder = False, placeholderImage = None, placeholderOpacity = 0.3,
     disabled = False\<rparr>"

record surface =
  sw :: nat
  sh :: nat
  pixels :: "nat \<Rightarrow> nat \<Rightarrow> rgba"
  fill_style :: rgb
  stroke_style :: rgb
  line_width :: real
  path :: "point list list"

text \<open>An overlay is one placeholder canvas element: \<open>gen\<close> tells mounted elements
  apart, so that an image load started on an element that has since been unmounted
  draws on that detached element and not on its successor.\<close>

record overlay =
  gen :: nat
  ow :: nat
  oh :: nat
  blits :: "(string \<times> real \<times> real \<times> real \<times> real) list"

text \<open>A pending load is the \<open>img.onload\<close> closure of one \<open>drawPlaceholder\<close> call:
  the element whose context it captured, the image, the opacity and the
  \<open>width\<close>/\<open>height\<close> props it closed over.\<close>

record pending_load =
  pl_gen :: nat
  pl_src :: string
  pl_opacity :: real
  pl_width :: nat
  pl_height :: nat

record canvas_state =
  main :: "surface option"
  placeholder :: "overlay option"
  isDrawing :: bool
  pending_loads :: "pending_load list"
  next_gen :: nat

datatype notification = DrawStart | Drawing | DrawEnd

subsection \<open>The 2D context operations the component calls\<close>

text \<open>Setting \<open>canvas.width\<close>/\<open>height\<close> clears the bitmap to transparent black and
  resets the context state (black fill and stroke, line width 1, empty path).\<close>

definition resize_surface :: "nat \<Rightarrow> nat \<Rightarrow> surface \<Rightarrow> surface" where
  "resize_surface w h s = s\<lparr>sw := w, sh := h, pixels := (\<lambda>x y. (0, 0, 0, 0)),
     fill_style := (0, 0, 0), stroke_style := (0, 0, 0), line_width := 1, path := []\<rparr>"

text \<open>\<open>ctx.fillRect(0, 0, w, h)\<close> with an opaque fill style: the pixels of the
  rectangle that lie on the bitmap take the fill colour.\<close>

definition fill_rect :: "nat \<Rightarrow> nat \<Rightarrow> surface \<Rightarrow> surface" where
  "fill_rect w h s = s\<lparr>pixels := (\<lambda>x y. if x < w \<and> y < h then opaque (fill_style s)
     else pixels s x y)\<rparr>"

definition begin_path :: "surface \<Rightarrow> surface" where
  "begin_path s = s\<lparr>path := []\<rparr>"

definition move_to :: "point \<Rightarrow> surface \<Rightarrow> surface" where
  "move_to p s = s\<lparr>path := path s @ [[p]]\<rparr>"

text \<open>\<open>lineTo\<close> with no current subpath acts as \<open>moveTo\<close>.\<close>

definition line_to :: "point \<Rightarrow> surface \<Rightarrow> surface" where
  "line_to p s = s\<lparr>path := (if path s = [] then [[p]] else butlast (path s) @ [last (path s) @ [p]])\<rparr>"

text \<open>\<open>ctx.stroke()\<close> strokes the whole current path: the covered pixels that lie on
  the bitmap take the stroke colour.\<close>

definition stroke ::
  "(real \<Rightarrow> point list list \<Rightarrow> (nat \<times> nat) list) \<Rightarrow> surface \<Rightarrow> surface" where
  "stroke raster s = s\<lparr>pixels := (\<lambda>x y.
     if (x, y) \<in> set (raster (line_width s) (path s)) \<and> x < sw s \<and> y < sh s
     then opaque (stroke_style s) else pixels s x y)\<rparr>"


subsection \<open>The component's functions\<close>

text \<open>The initialising effect: size both canvases, set up the context, paint the
  background.\<close>

definition init_canvas :: "canvas_props \<Rightarrow> canvas_state \<Rightarrow> canvas_state" where
  "init_canvas props st = st\<lparr>
     main := map_option (\<lambda>s. fill_rect (cp_width props) (cp_height props)
        ((resize_surface (cp_width props) (cp_height props) s)\<lparr>stroke_style := strokeColor props,
           line_width := strokeWidth props, fill_style := backgroundColor props\<rparr>)) (main st),
     placeholder := map_option (\<lambda>ov. ov\<lparr>ow := cp_width props, oh := cp_height props, blits := []\<rparr>)
        (placeholder st)\<rparr>"

text \<open>\<open>drawPlaceholder\<close>: clear the placeholder canvas and start loading the image;
  nothing is drawn until the load fires.\<close>

definition drawPlaceholder :: "canvas_props \<Rightarrow> string \<Rightarrow> real \<Rightarrow> canvas_state \<Rightarrow> canvas_state" where
  "drawPlaceholder props imageSrc opacity st =
     (case placeholder st of
        None \<Rightarrow> st
      | Some ov \<Rightarrow> st\<lparr>placeholder := Some (ov\<lparr>blits := []\<rparr>),
          pending_loads := pending_loads st @ [\<lparr>pl_gen = gen ov, pl_src = imageSrc,
            pl_opacity = opacity, pl_width = cp_width props, pl_height = cp_height props\<rparr>]\<rparr>)"

text \<open>The \<open>img.onload\<close> handler of the \<open>k\<close>-th pending load: the image, scaled
  to half the smaller dimension, is drawn centred with the given opacity on the
  element whose context was captured.\<close>

definition placeholder_rect :: "nat \<Rightarrow> nat \<Rightarrow> real \<times> real \<times> real" where
  "placeholder_rect w h = (let sz = real (min w h) * 0.5
     in ((real w - sz) / 2, (real h - sz) / 2, sz))"

definition image_loaded :: "nat \<Rightarrow> canvas_state \<Rightarrow> canvas_state" where
  "image_loaded k st =
     (if k < length (pending_loads st) then
        let l = pending_loads st ! k;
            st' = st\<lparr>pending_loads := take k (pending_loads st) @ drop (Suc k) (pending_loads st)\<rparr>
        in (case placeholder st of
              Some ov \<Rightarrow> if gen ov = pl_gen l then
                  st'\<lparr>placeholder := Some (ov\<lparr>blits := blits ov @
                     [(case placeholder_rect (pl_width l) (pl_height l) of (x, y, sz) \<Rightarrow>
                        (pl_src l, pl_opacity l, x, y, sz))]\<rparr>)\<rparr>
                else st'
            | None \<Rightarrow> st')
      else st)"

text \<open>The placeholder effect (lines 105--109).\<close>

definition placeholder_effect :: "canvas_props \<Rightarrow> canvas_state \<Rightarrow> canvas_state" where
  "placeholder_effect props st =
     (case (showPlaceholder props, placeholderImage props) of
        (True, Some img) \<Rightarrow> drawPlaceholder props img (placeholderOpacity props) st
      | _ \<Rightarrow> st)"

text \<open>React's commit of \<open>{showPlaceholder && <canvas ref={placeholderCanvasRef}/>}\<close>:
  the element is created (300 by 150, the HTML default size) when the prop turns
  true and dropped when it turns false.\<close>

definition render_placeholder :: "canvas_props \<Rightarrow> canvas_state \<Rightarrow> canvas_state" where
  "render_placeholder props st =
     (if showPlaceholder props then
        (case placeholder st of
           Some ov \<Rightarrow> st
         | None \<Rightarrow> st\<lparr>placeholder := Some \<lparr>gen = next_gen st, ow = 300, oh = 150, blits = []\<rparr>,
                      next_gen := Suc (next_gen st)\<rparr>)
      else st\<lparr>placeholder := None\<rparr>)"

definition clear :: "canvas_props \<Rightarrow> canvas_state \<Rightarrow> canvas_state" where
  "clear props st =
     (case main st of
        None \<Rightarrow> st
      | Some s \<Rightarrow> st\<lparr>main := Some (fill_rect (cp_width props) (cp_height props)
                      (s\<lparr>fill_style := backgroundColor props\<rparr>))\<rparr>)"

text \<open>\<open>getImageData\<close>: the data URL of the drawing canvas.  PNG is lossless, so the
  model returns the bitmap itself, row by row.\<close>

definition export_surface :: "surface \<Rightarrow> rgba list list" where
  "export_surface s = map (\<lambda>y. map (\<lambda>x. pixels s x y) [0..<sw s]) [0..<sh s]"

definition getImageData :: "canvas_state \<Rightarrow> rgba list list option" where
  "getImageData st = map_option export_surface (main st)"

definition clearPlaceholder :: "canvas_state \<Rightarrow> canvas_state" where
  "clearPlaceholder st =
     (case placeholder st of
        None \<Rightarrow> st
      | Some ov \<Rightarrow> st\<lparr>placeholder := Some (ov\<lparr>blits := []\<rparr>)\<rparr>)"

text \<open>The exception a 2D context method throws on bad arguments.\<close>

datatype dom_exception = IndexSizeError

text \<open>\<open>ctx.getImageData(0, 0, width, height)\<close> (line 145) throws an
  \<open>IndexSizeError\<close> when the width or the height is 0, and otherwise reads
  transparent black outside the bitmap; \<open>isEmpty\<close> asks that every red, green and
  blue byte of the region be 255 (the alpha bytes, index \<open>i % 4 === 3\<close>, are
  skipped).  Without a canvas element it returns \<open>true\<close> (line 140).\<close>

definition read_pixel :: "surface \<Rightarrow> nat \<Rightarrow> nat \<Rightarrow> rgba" where
  "read_pixel s x y = (if x < sw s \<and> y < sh s then pixels s x y else (0, 0, 0, 0))"

definition white_rgb :: "rgba \<Rightarrow> bool" where
  "white_rgb p = (case p of (r, g, b, a) \<Rightarrow> r = 255 \<and> g = 255 \<and> b = 255)"

definition isEmpty :: "canvas_props \<Rightarrow> canvas_state \<Rightarrow> dom_exception + bool" where
  "isEmpty props st =
     (case main st of
        None \<Rightarrow> Inr True
      | Some s \<Rightarrow>
          if cp_width props = 0 \<or> cp_height props = 0 then Inl IndexSizeError
          else Inr (list_all (\<lambda>y. list_all (\<lambda>x. white_rgb (read_pixel s x y))
                    [0..<cp_width props]) [0..<cp_height props]))"

subsection \<open>Pointer input\<close>

datatype pointer = Mouse real real | Touch "point list"

text \<open>\<open>canvas.getBoundingClientRect()\<close>: where the element is displayed.\<close>

record client_rect =
  left :: real
  top :: real
  rect_width :: real
  rect_height :: real

definition getCoordinates :: "canvas_state \<Rightarrow> client_rect \<Rightarrow> pointer \<Rightarrow> point" where
  "getCoordinates st r e =
     (case main st of
        None \<Rightarrow> (0, 0)
      | Some s \<Rightarrow>
          (let scaleX = real (sw s) / rect_width r; scaleY = real (sh s) / rect_height r
           in case e of
                Touch [] \<Rightarrow> (0, 0)
              | Touch (t # _) \<Rightarrow> ((fst t - left r) * scaleX, (snd t - top r) * scaleY)
              | Mouse cx cy \<Rightarrow> ((cx - left r) * scaleX, (cy - top r) * scaleY)))"

fun multi_touch :: "pointer \<Rightarrow> bool" where
  "multi_touch (Touch ts) = (length ts \<noteq> 1)"
| "multi_touch (Mouse _ _) = False"

definition startDrawing ::
  "canvas_props \<Rightarrow> client_rect \<Rightarrow> pointer \<Rightarrow> canvas_state \<Rightarrow> canvas_state \<times> notification list" where
  "startDrawing props r e st =
     (if disabled props then (st, [])
      else if multi_touch e then (st, [])
      else let st1 = st\<lparr>isDrawing := True\<rparr>
           in case main st1 of
                None \<Rightarrow> (st1, [])
              | Some s \<Rightarrow> (st1\<lparr>main := Some (move_to (getCoordinates st1 r e) (begin_path s))\<rparr>,
                           [DrawStart]))"

definition draw ::
  "(real \<Rightarrow> point list list \<Rightarrow> (nat \<times> nat) list) \<Rightarrow> canvas_props \<Rightarrow> client_rect \<Rightarrow> pointer \<Rightarrow>
   canvas_state \<Rightarrow> canvas_state \<times> notification list" where
  "draw raster props r e st =
     (if \<not> isDrawing st \<or> disabled props then (st, [])
      else if multi_touch e then (st, [])
      else case main st of
             None \<Rightarrow> (st, [])
           | Some s \<Rightarrow> (st\<lparr>main := Some (stroke raster (line_to (getCoordinates st r e) s))\<rparr>,
                        [Drawing]))"

definition stopDrawing :: "canvas_state \<Rightarrow> canvas_state \<times> notification list" where
  "stopDrawing st = (if \<not> isDrawing st then (st, []) else (st\<lparr>isDrawing := False\<rparr>, [DrawEnd]))"

text \<open>The event wiring of the rendered drawing canvas and of the trash button,
  which is rendered only when \<open>showTrashButton && !disabled\<close>.\<close>

datatype canvas_event =
    MouseDown real real | MouseMove real real | MouseUp | MouseLeave
  | TouchStart "point list" | TouchMove "point list" | TouchEnd | TouchCancel
  | TrashClick

fun canvas_handle ::
  "(real \<Rightarrow> point list list \<Rightarrow> (nat \<times> nat) list) \<Rightarrow> canvas_props \<Rightarrow> client_rect \<Rightarrow>
   canvas_event \<Rightarrow> canvas_state \<Rightarrow> canvas_state \<times> notification list" where
  "canvas_handle raster props r (MouseDown x y) st = startDrawing props r (Mouse x y) st"
| "canvas_handle raster props r (MouseMove x y) st = draw raster props r (Mouse x y) st"
| "canvas_handle raster props r MouseUp st = stopDrawing st"
| "canvas_handle raster props r MouseLeave st = stopDrawing st"
| "canvas_handle raster props r (TouchStart ts) st = startDrawing props r (Touch ts) st"
| "canvas_handle raster props r (TouchMove ts) st = draw raster props r (Touch ts) st"
| "canvas_handle raster props r TouchEnd st = stopDrawing st"
| "canvas_handle raster props r TouchCancel st = stopDrawing st"
| "canvas_handle raster props r TrashClick st =
     (if showTrashButton props \<and> \<not> disabled props then (clear props st, []) else (st, []))"

text \<open>A run of events, with the notifications fired in order.\<close>

fun canvas_run ::
  "(real \<Rightarrow> point list list \<Rightarrow> (nat \<times> nat) list) \<Rightarrow> canvas_props \<Rightarrow> client_rect \<Rightarrow>
   canvas_event list \<Rightarrow> canvas_state \<Rightarrow> canvas_state \<times> notification list" where
  "canvas_run raster props r [] st = (st, [])"
| "canvas_run raster props r (e # es) st =
     (let (st1, ns1) = canvas_handle raster props r e st;
          (st2, ns2) = canvas_run raster props r es st1
      in (st2, ns1 @ ns2))"

text \<open>The component as first mounted: a drawing canvas of the HTML default size,
  the placeholder canvas when \<open>showPlaceholder\<close> holds, not drawing; then the
  initialising effect runs.\<close>

definition blank_surface :: surface where
  "blank_surface = \<lparr>sw = 300, sh = 150, pixels = (\<lambda>x y. (0, 0, 0, 0)), fill_style = (0, 0, 0),
     stroke_style = (0, 0, 0), line_width = 1, path = []\<rparr>"

definition mount_canvas :: "canvas_props \<Rightarrow> canvas_state" where
  "mount_canvas props = placeholder_effect props (init_canvas props
     (render_placeholder props \<lparr>main = Some blank_surface, placeholder = None, isDrawing = False,
        pending_loads = [], next_gen = 0\<rparr>))"


text \<open>A re-render of the mounted component with new props: React's commit
  mounts or drops the placeholder element, then the initialising effect runs
  again when one of its dependencies \<open>[width, height, strokeWidth, strokeColor,
  backgroundColor]\<close> changed, and the placeholder effect when one of
  \<open>[placeholderImage, showPlaceholder, placeholderOpacity, drawPlaceholder]\<close>
  changed (\<open>drawPlaceholder\<close> is a callback on \<open>[width, height]\<close>).\<close>

definition canvas_rerender :: "canvas_props \<Rightarrow> canvas_props \<Rightarrow> canvas_state \<Rightarrow> canvas_state" where
  "canvas_rerender old new st =
     (let st1 = render_placeholder new st;
          st2 = (if (cp_width new, cp_height new, strokeWidth new, strokeColor new, backgroundColor new)
                    \<noteq> (cp_width old, cp_height old, strokeWidth old, strokeColor old, backgroundColor old)
                 then init_canvas new st1 else st1)
      in if (placeholderImage new, showPlaceholder new, placeholderOpacity new, cp_width new, cp_height new)
              \<noteq> (placeholderImage old, showPlaceholder old, placeholderOpacity old, cp_width old, cp_height old)
         then placeholder_effect new st2 else st2)"

subsection \<open>The component driven by its parent\<close>

text \<open>Everything that can happen to a mounted component with fixed props: an event
  on its elements, a call through the handle of \<open>useImperativeHandle\<close>
  (lines 152--158), or the load of a placeholder image.\<close>

datatype canvas_op =
    Event canvas_event
  | ApiClear
  | ApiDrawPlaceholder string real
  | ApiClearPlaceholder
  | ImageLoad nat

fun canvas_step ::
  "(real \<Rightarrow> point list list \<Rightarrow> (nat \<times> nat) list) \<Rightarrow> canvas_props \<Rightarrow> client_rect \<Rightarrow>
   canvas_op \<Rightarrow> canvas_state \<Rightarrow> canvas_state \<times> notification list" where
  "canvas_step raster props r (Event e) st = canvas_handle raster props r e st"
| "canvas_step raster props r ApiClear st = (clear props st, [])"
| "canvas_step raster props r (ApiDrawPlaceholder src a) st = (drawPlaceholder props src a st, [])"
| "canvas_step raster props r ApiClearPlaceholder st = (clearPlaceholder st, [])"
| "canvas_step raster props r (ImageLoad k) st = (image_loaded k st, [])"

inductive canvas_reachable ::
  "(real \<Rightarrow> point list list \<Rightarrow> (nat \<times> nat) list) \<Rightarrow> canvas_props \<Rightarrow> canvas_state \<Rightarrow> bool"
  for raster props where
  mounted: "canvas_reachable raster props (mount_canvas props)"
| step: "canvas_reachable raster props st \<Longrightarrow> canvas_step raster props r op st = (st', ns) \<Longrightarrow>
     canvas_reachable raster props st'"

text \<open>The invariant of a mounted component: the drawing canvas is present, has the
  size of the props and keeps the stroke set-up of the initialising effect.\<close>

definition canvas_inv :: "canvas_props \<Rightarrow> canvas_state \<Rightarrow> bool" where
  "canvas_inv props st =
     (case main st of
        None \<Rightarrow> False
      | Some s \<Rightarrow> sw s = cp_width props \<and> sh s = cp_height props
          \<and> stroke_style s = strokeColor props \<and> line_width s = strokeWidth props)"

text \<open>Test rasterisers and a 2-by-2 canvas displayed at its bitmap size, the
  concrete inputs the witnesses below run on.\<close>

definition no_raster :: "real \<Rightarrow> point list list \<Rightarrow> (nat \<times> nat) list" where
  "no_raster w ps = []"

definition dot_raster :: "real \<Rightarrow> point list list \<Rightarrow> (nat \<times> nat) list" where
  "dot_raster w ps = [(1, 1)]"

definition small_props :: canvas_props where
  "small_props = default_props\<lparr>cp_width := 2, cp_height := 2\<rparr>"

definition unit_rect :: client_rect where
  "unit_rect = \<lparr>left = 0, top = 0, rect_width = 2, rect_height = 2\<rparr>"

text \<open>The operations of the reference-glyph layer: the handle's
  \<open>drawPlaceholder\<close>/\<open>clearPlaceholder\<close>, an image load firing, the placeholder
  effect, and a re-render with new props that mounts or drops the element.\<close>

datatype placeholder_op =
    PhDraw string real | PhClear | PhLoad nat | PhEffect | PhRender canvas_props

fun placeholder_apply :: "canvas_props \<Rightarrow> placeholder_op \<Rightarrow> canvas_state \<Rightarrow> canvas_state" where
  "placeholder_apply props (PhDraw src a) st = drawPlaceholder props src a st"
| "placeholder_apply props PhClear st = clearPlaceholder st"
| "placeholder_apply props (PhLoad k) st = image_loaded k st"
| "placeholder_apply props PhEffect st = placeholder_effect props st"
| "placeholder_apply props (PhRender props') st = render_placeholder props' st"

text \<open>The notifications of a stroke: \<open>onDrawing\<close> and \<open>onDrawEnd\<close> fire only
  inside a stroke opened by \<open>onDrawStart\<close> (the flag says whether one is open).\<close>

fun protocol :: "bool \<Rightarrow> notification list \<Rightarrow> bool" where
  "protocol open_stroke [] = True"
| "protocol open_stroke (DrawStart # ns) = protocol True ns"
| "protocol open_stroke (Drawing # ns) = (open_stroke \<and> protocol True ns)"
| "protocol open_stroke (DrawEnd # ns) = (open_stroke \<and> protocol False ns)"

text \<open>The placeholder layer holds no glyph and none is loading.\<close>

definition placeholder_blank :: "canvas_state \<Rightarrow> bool" where
  "placeholder_blank st \<longleftrightarrow> pending_loads st = []
     \<and> (case placeholder st of None \<Rightarrow> True | Some ov \<Rightarrow> blits ov = [])"

named_theorems canvas_defs \<open>unfolding rules of the canvas operations\<close>

declare init_canvas_def [canvas_defs] drawPlaceholder_def [canvas_defs]
  image_loaded_def [canvas_defs] placeholder_effect_def [canvas_defs]
  render_placeholder_def [canvas_defs] clear_def [canvas_defs] clearPlaceholder_def [canvas_defs]
  startDrawing_def [canvas_defs] draw_def [canvas_defs] stopDrawing_def [canvas_defs]
  resize_surface_def [canvas_defs] fill_rect_def [canvas_defs] begin_path_def [canvas_defs]
  move_to_def [canvas_defs] line_to_def [canvas_defs] stroke_def [canvas_defs]

subsection \<open>The placeholder layer never touches the drawing canvas\<close>

lemma main_drawPlaceholder [simp]: "main (drawPlaceholder props src a st) = main st"
  by (simp add: drawPlaceholder_def split: option.splits)

lemma main_image_loaded [simp]: "main (image_loaded k st) = main st"
  by (simp add: image_loaded_def Let_def split: option.splits)

lemma main_clearPlaceholder [simp]: "main (clearPlaceholder st) = main st"
  by (simp add: clearPlaceholder_def split: option.splits)

lemma main_placeholder_effect [simp]: "main (placeholder_effect props st) = main st"
  by (simp add: placeholder_effect_def split: option.splits bool.splits)

lemma main_render_placeholder [simp]: "main (render_placeholder props st) = main st"
  by (simp add: render_placeholder_def split: option.splits)

text \<open>Strokes and \<open>clear\<close> touch only the drawing canvas.\<close>

lemma layer_canvas_handle [simp]:
  "placeholder (fst (canvas_handle raster props r e st)) = placeholder st"
  "pending_loads (fst (canvas_handle raster props r e st)) = pending_loads st"
  "next_gen (fst (canvas_handle raster props r e st)) = next_gen st"
  by (cases e; simp add: canvas_defs Let_def split: option.splits)+

lemma layer_clear [simp]:
  "placeholder (clear props st) = placeholder st"
  "pending_loads (clear props st) = pending_loads st"
  "next_gen (clear props st) = next_gen st"
  "isDrawing (clear props st) = isDrawing st"
  by (simp_all add: clear_def split: option.splits)

lemma isDrawing_placeholder_ops [simp]:
  "isDrawing (drawPlaceholder props src a st) = isDrawing st"
  "isDrawing (image_loaded k st) = isDrawing st"
  "isDrawing (clearPlaceholder st) = isDrawing st"
  "isDrawing (clear props st) = isDrawing st"
  by (simp_all add: drawPlaceholder_def image_loaded_def clearPlaceholder_def clear_def Let_def
      split: option.splits)

subsection \<open>The invariant\<close>

lemma canvas_inv_mount: "canvas_inv props (mount_canvas props)"
  by (simp add: mount_canvas_def canvas_inv_def canvas_defs split: option.splits bool.splits)

lemma canvas_inv_handle:
  "canvas_inv props st \<Longrightarrow> canvas_inv props (fst (canvas_handle raster props r e st))"
  by (cases e) (auto simp: canvas_inv_def canvas_defs Let_def split: option.splits)

lemma canvas_inv_clear: "canvas_inv props st \<Longrightarrow> canvas_inv props (clear props st)"
  by (auto simp: canvas_inv_def clear_def fill_rect_def split: option.splits)

lemma canvas_inv_step:
  assumes "canvas_inv props st" and "canvas_step raster props r op st = (st', ns)"
  shows "canvas_inv props st'"
proof (cases op)
  case (Event e)
  then show ?thesis using assms canvas_inv_handle [of props st raster r e] by simp
next
  case ApiClear
  then show ?thesis using assms canvas_inv_clear by auto
qed (use assms in \<open>auto simp: canvas_inv_def\<close>)

lemma canvas_reachable_handle:
  assumes "canvas_reachable raster props st"
  shows "canvas_reachable raster props (fst (canvas_handle raster props r e st))"
proof -
  obtain st' ns where h: "canvas_handle raster props r e st = (st', ns)" by fastforce
  then have "canvas_step raster props r (Event e) st = (st', ns)" by simp
  with assms have "canvas_reachable raster props st'" by (rule canvas_reachable.step)
  with h show ?thesis by simp
qed

lemma canvas_reachable_inv: "canvas_reachable raster props st \<Longrightarrow> canvas_inv props st"
  by (induction rule: canvas_reachable.induct) (auto intro: canvas_inv_mount canvas_inv_step)


subsection \<open>Emptiness\<close>

lemma white_rgb_opaque [simp]: "white_rgb (opaque c) \<longleftrightarrow> c = white"
  by (cases c) (auto simp: white_rgb_def opaque_def white_def)

lemma list_all_const: "list_all (\<lambda>_. P) xs \<longleftrightarrow> xs = [] \<or> P"
  by (induction xs) auto

text \<open>A drawing canvas of the props' size whose region is filled with one colour
  throws when the region is empty, and is otherwise empty exactly when that colour
  is white.\<close>

lemma isEmpty_uniform:
  assumes "main st = Some s" "sw s = cp_width props" "sh s = cp_height props"
    and "\<And>x y. x < cp_width props \<Longrightarrow> y < cp_height props \<Longrightarrow> pixels s x y = opaque c"
  shows "isEmpty props st =
    (if cp_width props = 0 \<or> cp_height props = 0 then Inl IndexSizeError else Inr (c = white))"
proof -
  have "list_all (\<lambda>y. list_all (\<lambda>x. white_rgb (read_pixel s x y)) [0..<cp_width props])
      [0..<cp_height props]
    = list_all (\<lambda>y. list_all (\<lambda>x. c = white) [0..<cp_width props]) [0..<cp_height props]"
    using assms(2-4) by (intro list_all_cong refl) (simp add: read_pixel_def)
  with assms(1) show ?thesis by (auto simp: isEmpty_def list_all_const)
qed

text \<open>C10. A freshly mounted canvas of positive size is reported empty exactly
  when its background colour is white: \<open>isEmpty\<close> compares every pixel with
  white, not with the background it was filled with.  On a canvas of width or
  height 0, \<open>isEmpty\<close> throws the \<open>IndexSizeError\<close> of \<open>getImageData\<close>.\<close>

theorem fresh_canvas_empty_iff_white:
  "isEmpty props (mount_canvas props) =
     (if cp_width props = 0 \<or> cp_height props = 0 then Inl IndexSizeError
      else Inr (backgroundColor props = white))"
  by (rule isEmpty_uniform [where s = "fill_rect (cp_width props) (cp_height props)
        ((resize_surface (cp_width props) (cp_height props) blank_surface)\<lparr>stroke_style := strokeColor props,
           line_width := strokeWidth props, fill_style := backgroundColor props\<rparr>)"])
    (simp_all add: mount_canvas_def canvas_defs split: option.splits bool.splits)

text \<open>C11. Whatever was drawn, \<open>clear()\<close> on a mounted canvas with the default
  white background leaves it empty: \<open>isEmpty\<close> then answers \<open>true\<close>, or throws
  when the canvas has width or height 0.\<close>

theorem clear_makes_empty:
  assumes "canvas_reachable raster props st" and "backgroundColor props = white"
  shows "isEmpty props (clear props st) =
    (if cp_width props = 0 \<or> cp_height props = 0 then Inl IndexSizeError else Inr True)"
proof -
  from canvas_reachable_inv [OF assms(1)] obtain s where s: "main st = Some s"
    "sw s = cp_width props" "sh s = cp_height props"
    by (auto simp: canvas_inv_def split: option.splits)
  show ?thesis
    using isEmpty_uniform [where s = "fill_rect (cp_width props) (cp_height props)
          (s\<lparr>fill_style := backgroundColor props\<rparr>)" and c = white and st = "clear props st"]
      s assms(2) by (simp add: clear_def fill_rect_def)
qed

theorem clear_makes_empty_witness:
  "canvas_reachable no_raster default_props (mount_canvas default_props)
   \<and> backgroundColor default_props = white
   \<and> isEmpty default_props (clear default_props (mount_canvas default_props)) = Inr True"
proof -
  have h1: "canvas_reachable no_raster default_props (mount_canvas default_props)"
    by (rule canvas_reachable.mounted)
  have h2: "backgroundColor default_props = white" by (simp add: default_props_def)
  have h3: "cp_width default_props = 400 \<and> cp_height default_props = 400"
    by (simp add: default_props_def)
  show ?thesis using h1 h2 h3 clear_makes_empty [OF h1 h2] by simp
qed


subsection \<open>The placeholder layer and the exported image\<close>

lemma main_placeholder_apply [simp]: "main (placeholder_apply props op st) = main st"
  by (cases op) simp_all

text \<open>C12. Showing, loading or clearing the reference glyph, in any number and
  order, never changes what \<open>getImageData\<close> exports nor what \<open>isEmpty\<close> answers:
  the glyph lives on its own canvas.\<close>

theorem placeholder_noninterference:
  "getImageData (fold (placeholder_apply props) ops st) = getImageData st
   \<and> isEmpty props' (fold (placeholder_apply props) ops st) = isEmpty props' st"
proof -
  have "main (fold (placeholder_apply props) ops st) = main st"
    by (induction ops arbitrary: st) simp_all
  then show ?thesis by (simp add: getImageData_def isEmpty_def)
qed

subsection \<open>Strokes\<close>

lemma draw_paints:
  assumes inv: "canvas_inv props st" and "isDrawing st" and "\<not> disabled props"
    and "\<not> multi_touch e" and s: "main st = Some s"
    and "(x, y) \<in> set (raster (strokeWidth props) (path (line_to (getCoordinates st r e) s)))"
    and "x < cp_width props" and "y < cp_height props"
  shows "\<exists>s'. main (fst (draw raster props r e st)) = Some s' \<and> sw s' = cp_width props
    \<and> sh s' = cp_height props \<and> pixels s' x y = opaque (strokeColor props)"
proof -
  have i: "sw s = cp_width props" "sh s = cp_height props"
      "stroke_style s = strokeColor props" "line_width s = strokeWidth props"
    using inv s by (simp_all add: canvas_inv_def)
  let ?s' = "stroke raster (line_to (getCoordinates st r e) s)"
  have st': "main (fst (draw raster props r e st)) = Some ?s'"
    using assms(2-4) s by (simp add: draw_def)
  have "read_pixel ?s' x y = opaque (strokeColor props)"
    using assms(6-8) i by (simp add: read_pixel_def stroke_def line_to_def)
  moreover have "sw ?s' = cp_width props" "sh ?s' = cp_height props"
    using i by (simp_all add: stroke_def line_to_def)
  ultimately show ?thesis using st' assms(7,8) by (auto simp: read_pixel_def)
qed

lemma draw_marks_canvas:
  assumes inv: "canvas_inv props st" and "isDrawing st" and "\<not> disabled props"
    and "\<not> multi_touch e" and "strokeColor props \<noteq> white" and s: "main st = Some s"
    and "(x, y) \<in> set (raster (strokeWidth props) (path (line_to (getCoordinates st r e) s)))"
    and "x < cp_width props" and "y < cp_height props"
  shows "isEmpty props (fst (draw raster props r e st)) = Inr False"
proof -
  obtain s' where s': "main (fst (draw raster props r e st)) = Some s'" "sw s' = cp_width props"
    "sh s' = cp_height props" "pixels s' x y = opaque (strokeColor props)"
    using draw_paints [where raster = raster and r = r and e = e and x = x and y = y,
        OF inv assms(2-4) s assms(7-9)] by blast
  then have "\<not> white_rgb (read_pixel s' x y)" using assms(5,8,9) by (simp add: read_pixel_def)
  then show ?thesis using s' assms(8,9)
    by (simp add: isEmpty_def list_all_iff) (meson atLeastLessThan_iff zero_le gr_implies_not0)
qed

lemma isDrawing_draw [simp]: "isDrawing (fst (draw raster props r e st)) = isDrawing st"
  by (simp add: draw_def split: option.splits)

text \<open>On a mounted canvas in the middle of a stroke, a pointer move that the
  guards let through and whose stroked path covers a pixel of the canvas makes the
  canvas non-empty, unless the stroke colour is white.\<close>

theorem stroke_marks_canvas:
  assumes "canvas_reachable raster props st" and "isDrawing st" and "\<not> disabled props"
    and "\<not> multi_touch e" and "strokeColor props \<noteq> white" and "main st = Some s"
    and "(x, y) \<in> set (raster (strokeWidth props) (path (line_to (getCoordinates st r e) s)))"
    and "x < cp_width props" and "y < cp_height props"
  shows "isEmpty props (fst (draw raster props r e st)) = Inr False"
  by (rule draw_marks_canvas [where raster = raster and r = r and e = e and x = x and y = y])
    (use canvas_reachable_inv [OF assms(1)] assms(2-9) in simp_all)

lemma small_start_reachable:
  "canvas_reachable dot_raster small_props
     (fst (startDrawing small_props unit_rect (Mouse 0 0) (mount_canvas small_props)))"
  using canvas_reachable_handle [OF canvas_reachable.mounted [of dot_raster small_props],
      of unit_rect "MouseDown 0 0"]
  by (simp only: canvas_handle.simps)

theorem stroke_marks_canvas_witness:
  "isEmpty small_props (fst (draw dot_raster small_props unit_rect (Mouse 1 1)
       (fst (startDrawing small_props unit_rect (Mouse 0 0) (mount_canvas small_props))))) = Inr False"
proof -
  let ?st = "fst (startDrawing small_props unit_rect (Mouse 0 0) (mount_canvas small_props))"
  obtain s where s: "main ?st = Some s"
    using canvas_reachable_inv [OF small_start_reachable]
    by (auto simp: canvas_inv_def split: option.splits)
  have d: "isDrawing ?st"
    by (simp add: startDrawing_def small_props_def default_props_def mount_canvas_def canvas_defs
        split: option.splits bool.splits)
  show ?thesis
    by (rule stroke_marks_canvas [OF small_start_reachable d _ _ _ s])
      (auto simp: small_props_def default_props_def white_def default_stroke_def dot_raster_def)
qed

subsection \<open>The callback protocol\<close>

lemma canvas_handle_protocol:
  assumes "main st \<noteq> None" and "canvas_handle raster props r e st = (st', ns)"
    and "protocol (isDrawing st') rest"
  shows "protocol (isDrawing st) (ns @ rest) \<and> main st' \<noteq> None"
  using assms
  by (cases e) (auto simp: startDrawing_def draw_def stopDrawing_def clear_def Let_def
      split: if_splits option.splits)

lemma canvas_run_protocol:
  "main st \<noteq> None \<Longrightarrow> protocol (isDrawing st) (snd (canvas_run raster props r es st))"
proof (induction es arbitrary: st)
  case Nil
  then show ?case by simp
next
  case (Cons e es)
  obtain st1 ns1 where h: "canvas_handle raster props r e st = (st1, ns1)" by fastforce
  have "main st1 \<noteq> None" using canvas_handle_protocol [OF Cons.prems h, of "[]"]
    by (cases "isDrawing st1") auto
  then have "protocol (isDrawing st1) (snd (canvas_run raster props r es st1))" by (rule Cons.IH)
  then have "protocol (isDrawing st) (ns1 @ snd (canvas_run raster props r es st1))"
    using canvas_handle_protocol [OF Cons.prems h] by blast
  with h show ?case by (simp add: split_beta)
qed

text \<open>C13. From any state of a mounted canvas, whatever events arrive, the callbacks
  follow the stroke protocol: \<open>onDrawing\<close> and \<open>onDrawEnd\<close> only inside a
  stroke that \<open>onDrawStart\<close> opened.  This is what the explore page's
  inactivity timer relies on.\<close>

theorem canvas_callbacks_protocol:
  assumes "canvas_reachable raster props st"
  shows "protocol (isDrawing st) (snd (canvas_run raster props r es st))"
proof -
  have "main st \<noteq> None"
    using canvas_reachable_inv [OF assms] by (auto simp: canvas_inv_def split: option.splits)
  then show ?thesis by (rule canvas_run_protocol)
qed

theorem canvas_callbacks_protocol_witness:
  "protocol False (snd (canvas_run no_raster default_props unit_rect
     [MouseDown 0 0, MouseMove 1 1, MouseUp, MouseMove 1 1] (mount_canvas default_props)))"
proof -
  have h: "canvas_reachable no_raster default_props (mount_canvas default_props)"
    by (rule canvas_reachable.mounted)
  have "isDrawing (mount_canvas default_props) = False"
    by (simp add: mount_canvas_def canvas_defs split: option.splits bool.splits)
  with canvas_callbacks_protocol [OF h, of unit_rect "[MouseDown 0 0, MouseMove 1 1, MouseUp, MouseMove 1 1]"]
  show ?thesis by simp
qed

subsection \<open>Guards\<close>

text \<open>C14. A disabled canvas (a completed syllable of the custom-name page) can be
  neither drawn on nor cleared through its own elements: no event changes its
  bitmap or fires \<open>onDrawStart\<close> or \<open>onDrawing\<close>.\<close>

theorem disabled_canvas_inert:
  assumes "disabled props" and "canvas_handle raster props r e st = (st', ns)"
  shows "main st' = main st \<and> DrawStart \<notin> set ns \<and> Drawing \<notin> set ns"
  using assms
  by (cases e) (auto simp: startDrawing_def draw_def stopDrawing_def split: if_splits)

theorem disabled_canvas_inert_witness:
  "main (fst (canvas_handle dot_raster (small_props\<lparr>disabled := True\<rparr>) unit_rect TrashClick
       (mount_canvas small_props))) = main (mount_canvas small_props)"
proof -
  have d: "disabled (small_props\<lparr>disabled := True\<rparr>)" by simp
  show ?thesis
    using disabled_canvas_inert [OF d, of dot_raster unit_rect TrashClick "mount_canvas small_props"]
    by (metis prod.collapse)
qed

text \<open>With a positive display size, a pointer inside the displayed element maps
  to a point of the bitmap: \<open>getCoordinates\<close> scales by bitmap size over display size.\<close>

theorem coordinates_in_bitmap:
  assumes "main st = Some s" and "0 < rect_width r" and "0 < rect_height r"
    and "left r \<le> cx" and "cx \<le> left r + rect_width r"
    and "top r \<le> cy" and "cy \<le> top r + rect_height r"
  shows "0 \<le> fst (getCoordinates st r (Mouse cx cy)) \<and> fst (getCoordinates st r (Mouse cx cy)) \<le> real (sw s)
    \<and> 0 \<le> snd (getCoordinates st r (Mouse cx cy)) \<and> snd (getCoordinates st r (Mouse cx cy)) \<le> real (sh s)"
proof -
  have x: "(cx - left r) * (real (sw s) / rect_width r) \<le> real (sw s)"
  proof -
    have "(cx - left r) * (real (sw s) / rect_width r) \<le> rect_width r * (real (sw s) / rect_width r)"
      using assms(2,4,5) by (intro mult_right_mono) auto
    also have "\<dots> = real (sw s)" using assms(2) by simp
    finally show ?thesis .
  qed
  have y: "(cy - top r) * (real (sh s) / rect_height r) \<le> real (sh s)"
  proof -
    have "(cy - top r) * (real (sh s) / rect_height r) \<le> rect_height r * (real (sh s) / rect_height r)"
      using assms(3,6,7) by (intro mult_right_mono) auto
    also have "\<dots> = real (sh s)" using assms(3) by simp
    finally show ?thesis .
  qed
  show ?thesis using assms x y by (simp add: getCoordinates_def Let_def)
qed

theorem coordinates_in_bitmap_witness:
  "0 \<le> fst (getCoordinates (mount_canvas small_props) unit_rect (Mouse 1 2))
   \<and> fst (getCoordinates (mount_canvas small_props) unit_rect (Mouse 1 2)) \<le> 2"
proof -
  have s: "main (mount_canvas small_props) = Some (the (main (mount_canvas small_props)))"
    by (simp add: mount_canvas_def canvas_defs split: option.splits bool.splits)
  have w: "sw (the (main (mount_canvas small_props))) = 2"
    by (simp add: mount_canvas_def small_props_def default_props_def canvas_defs
        split: option.splits bool.splits)
  show ?thesis
    using coordinates_in_bitmap [OF s, of unit_rect 1 2] w by (simp add: unit_rect_def)
qed

end
