(* ===== verification/JsValue.thy ===== *)
theory JsValue
  imports Prelude
begin

text \<open>
  JavaScript values as the pages meet them in the classifier's answer: what
  \<open>response.json()\<close> returns, property reads on it, truthiness, and the
  conversion to number that \<open>x > 0\<close> and \<open>x * 100\<close> perform.

  \<^item> \<open>jsval\<close> is a JSON value (\<open>JSON.parse\<close> never yields \<open>undefined\<close>) or
    \<open>undefined\<close>, the result of reading an absent property.
  \<^item> \<open>jsnum\<close> is a JavaScript number: a finite value, as a real, or one of
    \<open>Infinity\<close>, \<open>-Infinity\<close>, \<open>NaN\<close>.  Finite values are exact reals: double
    rounding and overflow are not modelled.
  \<^item> \<open>js_get\<close> reads an own property: an object's key (the last one wins, as in
    \<open>JSON.parse\<close>), an array's or a string's \<open>length\<close> and indices.  Reading a
    property of \<open>null\<close> or \<open>undefined\<close> throws a \<open>TypeError\<close> (\<open>None\<close>).
    Properties inherited from a prototype are not modelled; none of the keys
    the pages read (\<open>outputs\<close>, \<open>length\<close>, \<open>0\<close>, \<open>model_predictions\<close>,
    \<open>top\<close>, \<open>confidence\<close>) is inherited.
  \<^item> \<open>to_number\<close> is \<open>ToNumber\<close>, with \<open>ToPrimitive\<close> for arrays (their
    \<open>join(',')\<close>) and objects (\<open>[object Object]\<close>); \<open>string_to_number\<close> reads
    the \<open>StringNumericLiteral\<close> grammar: optional white space, then nothing,
    a signed decimal (with fraction and exponent) or \<open>Infinity\<close>, or an unsigned
    \<open>0x\<close>/\<open>0o\<close>/\<open>0b\<close> literal.
\<close>

datatype jsval =
    JUndefined
  | JNull
  | JBool bool
  | JNum real
  | JStr string
  | JArr "jsval list"
  | JObj "(string \<times> jsval) list"

datatype jsnum = Fin real | PosInf | NegInf | NaN

subsection \<open>Numbers\<close>

definition jsnum_sign :: "jsnum \<Rightarrow> real" where
  "jsnum_sign x = (case x of Fin a \<Rightarrow> sgn a | PosInf \<Rightarrow> 1 | NegInf \<Rightarrow> -1 | NaN \<Rightarrow> 0)"

text \<open>\<open>x * y\<close>: an infinite factor gives an infinity of the product's sign, or
  \<open>NaN\<close> against 0.\<close>

fun js_mul :: "jsnum \<Rightarrow> jsnum \<Rightarrow> jsnum" where
  "js_mul (Fin a) (Fin b) = Fin (a * b)"
| "js_mul NaN y = NaN"
| "js_mul x NaN = NaN"
| "js_mul x y =
     (if jsnum_sign x * jsnum_sign y > 0 then PosInf
      else if jsnum_sign x * jsnum_sign y < 0 then NegInf else NaN)"

text \<open>\<open>x + y\<close>.\<close>

fun js_add :: "jsnum \<Rightarrow> jsnum \<Rightarrow> jsnum" where
  "js_add (Fin a) (Fin b) = Fin (a + b)"
| "js_add NaN y = NaN"
| "js_add x NaN = NaN"
| "js_add PosInf NegInf = NaN"
| "js_add NegInf PosInf = NaN"
| "js_add PosInf y = PosInf"
| "js_add NegInf y = NegInf"
| "js_add x PosInf = PosInf"
| "js_add x NegInf = NegInf"

text \<open>\<open>x / n\<close> for a count \<open>n\<close> (a non-negative integer, \<open>+0\<close> when zero).\<close>

definition js_div_count :: "jsnum \<Rightarrow> nat \<Rightarrow> jsnum" where
  "js_div_count x n =
     (case x of
        Fin a \<Rightarrow> if n = 0 then (if a = 0 then NaN else if a > 0 then PosInf else NegInf)
                 else Fin (a / real n)
      | NaN \<Rightarrow> NaN
      | PosInf \<Rightarrow> PosInf
      | NegInf \<Rightarrow> NegInf)"

text \<open>\<open>Math.round\<close>.\<close>

definition js_math_round :: "jsnum \<Rightarrow> jsnum" where
  "js_math_round x = (case x of Fin a \<Rightarrow> Fin (of_int (js_round a)) | _ \<Rightarrow> x)"

text \<open>\<open>x >= c\<close> and \<open>x > c\<close> against a finite constant.\<close>

definition js_ge :: "jsnum \<Rightarrow> real \<Rightarrow> bool" where
  "js_ge x c = (case x of Fin a \<Rightarrow> c \<le> a | PosInf \<Rightarrow> True | _ \<Rightarrow> False)"

definition js_gt :: "jsnum \<Rightarrow> real \<Rightarrow> bool" where
  "js_gt x c = (case x of Fin a \<Rightarrow> c < a | PosInf \<Rightarrow> True | _ \<Rightarrow> False)"

text \<open>A number's truthiness: \<open>0\<close> and \<open>NaN\<close> are falsy; \<open>x || 0\<close>.\<close>

definition num_truthy :: "jsnum \<Rightarrow> bool" where
  "num_truthy x = (case x of Fin a \<Rightarrow> a \<noteq> 0 | NaN \<Rightarrow> False | _ \<Rightarrow> True)"

definition js_or_zero :: "jsnum \<Rightarrow> jsnum" where
  "js_or_zero x = (if num_truthy x then x else Fin 0)"

text \<open>\<open>String(x)\<close> for a number that is an integer or not finite (the only
  numbers the pages print are results of \<open>Math.round\<close>).\<close>

definition js_int_num_str :: "jsnum \<Rightarrow> string" where
  "js_int_num_str x =
     (case x of Fin a \<Rightarrow> js_int_str \<lfloor>a\<rfloor> | PosInf \<Rightarrow> ''Infinity'' | NegInf \<Rightarrow> ''-Infinity''
      | NaN \<Rightarrow> ''NaN'')"

subsection \<open>From strings to numbers\<close>

definition is_str_space :: "char \<Rightarrow> bool" where
  "is_str_space c = is_js_space c"

definition is_digit :: "char \<Rightarrow> bool" where
  "is_digit c \<longleftrightarrow> digit_val c \<noteq> None"

text \<open>The value of a digit string in a base up to 16 (hexadecimal letters in
  either case).\<close>

definition hex_val :: "char \<Rightarrow> nat option" where
  "hex_val c =
     (let k = (of_char c :: nat) in
      if 48 \<le> k \<and> k \<le> 57 then Some (k - 48)
      else if 97 \<le> k \<and> k \<le> 102 then Some (k - 87)
      else if 65 \<le> k \<and> k \<le> 70 then Some (k - 55) else None)"

fun read_base :: "nat \<Rightarrow> nat \<Rightarrow> string \<Rightarrow> nat option" where
  "read_base b acc [] = Some acc"
| "read_base b acc (c # cs) =
     (case hex_val c of
        Some d \<Rightarrow> if d < b then read_base b (b * acc + d) cs else None
      | None \<Rightarrow> None)"

definition digits_value :: "string \<Rightarrow> nat" where
  "digits_value ds = (case read_base 10 0 ds of Some n \<Rightarrow> n | None \<Rightarrow> 0)"

text \<open>\<open>StrUnsignedDecimalLiteral\<close>: \<open>Infinity\<close>, or digits with an optional
  fraction and exponent, at least one digit before the exponent.\<close>

definition read_exponent :: "string \<Rightarrow> int option" where
  "read_exponent s =
     (case s of
        [] \<Rightarrow> Some 0
      | c # r \<Rightarrow>
          if c = CHR ''e'' \<or> c = CHR ''E'' then
            (let (sg, ds) = (case r of
                                d # r' \<Rightarrow> if d = CHR ''+'' then (1, r') else if d = CHR ''-'' then (-1, r')
                                          else (1, r)
                              | [] \<Rightarrow> (1, r))
             in if ds \<noteq> [] \<and> list_all is_digit ds then Some (sg * int (digits_value ds)) else None)
          else None)"

definition read_unsigned_decimal :: "string \<Rightarrow> jsnum option" where
  "read_unsigned_decimal s =
     (if s = ''Infinity'' then Some PosInf
      else
        let ip = takeWhile is_digit s; r1 = dropWhile is_digit s;
            (fp, r2) = (case r1 of
                          c # r \<Rightarrow> if c = CHR ''.'' then (takeWhile is_digit r, dropWhile is_digit r)
                                   else ([], r1)
                        | [] \<Rightarrow> ([], r1))
        in if ip = [] \<and> fp = [] then None
           else case read_exponent r2 of
                  None \<Rightarrow> None
                | Some e \<Rightarrow>
                    let m = real (digits_value (ip @ fp)); k = e - int (length fp)
                    in Some (Fin (if 0 \<le> k then m * 10 ^ nat k else m / 10 ^ nat (- k))))"

definition negate_num :: "jsnum \<Rightarrow> jsnum" where
  "negate_num x = (case x of Fin a \<Rightarrow> Fin (- a) | PosInf \<Rightarrow> NegInf | NegInf \<Rightarrow> PosInf | NaN \<Rightarrow> NaN)"

definition read_decimal :: "string \<Rightarrow> jsnum option" where
  "read_decimal s =
     (case s of
        c # r \<Rightarrow> if c = CHR ''+'' then read_unsigned_decimal r
                 else if c = CHR ''-'' then map_option negate_num (read_unsigned_decimal r)
                 else read_unsigned_decimal s
      | [] \<Rightarrow> None)"

definition read_non_decimal :: "string \<Rightarrow> jsnum option" where
  "read_non_decimal s =
     (case s of
        z # x # ds \<Rightarrow>
          if z = CHR ''0'' \<and> ds \<noteq> [] then
            (let b = (if x = CHR ''x'' \<or> x = CHR ''X'' then 16
                      else if x = CHR ''o'' \<or> x = CHR ''O'' then 8
                      else if x = CHR ''b'' \<or> x = CHR ''B'' then 2 else 0)
             in if b = 0 then None else map_option (\<lambda>n. Fin (real n)) (read_base b 0 ds))
          else None
      | _ \<Rightarrow> None)"

definition string_to_number :: "string \<Rightarrow> jsnum" where
  "string_to_number s =
     (let t = rev (dropWhile is_str_space (rev (dropWhile is_str_space s)))
      in if t = [] then Fin 0
         else case read_non_decimal t of
                Some n \<Rightarrow> n
              | None \<Rightarrow> (case read_decimal t of Some n \<Rightarrow> n | None \<Rightarrow> NaN))"

subsection \<open>\<open>ToNumber\<close> and property reads\<close>

text \<open>An array converts through its \<open>join(',')\<close>: the empty array gives
  \<open>''\<close>, hence 0; two or more elements give a string with a comma, hence
  \<open>NaN\<close>; one element gives that element's string, where \<open>null\<close> is \<open>''\<close>,
  a boolean is \<open>'true'\<close>/\<open>'false'\<close>, a number prints and reads back to itself.\<close>

fun to_number :: "jsval \<Rightarrow> jsnum" where
  "to_number JUndefined = NaN"
| "to_number JNull = Fin 0"
| "to_number (JBool b) = Fin (if b then 1 else 0)"
| "to_number (JNum r) = Fin r"
| "to_number (JStr s) = string_to_number s"
| "to_number (JArr []) = Fin 0"
| "to_number (JArr [JNull]) = Fin 0"
| "to_number (JArr [JUndefined]) = Fin 0"
| "to_number (JArr [JBool b]) = NaN"
| "to_number (JArr [x]) = to_number x"
| "to_number (JArr (x # y # zs)) = NaN"
| "to_number (JObj kvs) = NaN"

definition truthy :: "jsval \<Rightarrow> bool" where
  "truthy v =
     (case v of
        JUndefined \<Rightarrow> False | JNull \<Rightarrow> False | JBool b \<Rightarrow> b | JNum r \<Rightarrow> r \<noteq> 0
      | JStr s \<Rightarrow> s \<noteq> [] | JArr xs \<Rightarrow> True | JObj kvs \<Rightarrow> True)"

text \<open>A canonical array index: the decimal form of a number, without leading
  zeros.\<close>

definition array_index :: "string \<Rightarrow> nat option" where
  "array_index k = (case read_nat k of Some i \<Rightarrow> if js_nat_str i = k then Some i else None | None \<Rightarrow> None)"

definition js_get :: "jsval \<Rightarrow> string \<Rightarrow> jsval option" where
  "js_get v k =
     (case v of
        JUndefined \<Rightarrow> None
      | JNull \<Rightarrow> None
      | JObj kvs \<Rightarrow> Some (case map_of (rev kvs) k of Some x \<Rightarrow> x | None \<Rightarrow> JUndefined)
      | JArr xs \<Rightarrow>
          Some (if k = ''length'' then JNum (real (length xs))
                else case array_index k of
                       Some i \<Rightarrow> if i < length xs then xs ! i else JUndefined
                     | None \<Rightarrow> JUndefined)
      | JStr s \<Rightarrow>
          Some (if k = ''length'' then JNum (real (length s))
                else case array_index k of
                       Some i \<Rightarrow> if i < length s then JStr [s ! i] else JUndefined
                     | None \<Rightarrow> JUndefined)
      | _ \<Rightarrow> Some JUndefined)"

subsection \<open>\<open>decodeURIComponent\<close>\<close>

text \<open>\<open>decodeURIComponent\<close> (ECMAScript's \<open>Decode\<close> with an empty reserved set):
  every \<open>%XX\<close> escape is a byte; a byte below 128 is that character; a byte
  starting a UTF-8 sequence must be followed by its continuation escapes and
  encode a valid code point.  A malformed escape or sequence throws a
  \<open>URIError\<close> (\<open>None\<close>).  Code points up to U+00FF are one code unit of the
  model; a code point above U+00FF is not representable in 8 bits and is
  written as the unit U+0080 (twice for code points above U+FFFF, which take two
  UTF-16 units); U+0080 is no letter, like every such code point below U+10000
  that a validation rule could meet.\<close>

definition pct_byte :: "string \<Rightarrow> (nat \<times> string) option" where
  "pct_byte s =
     (case s of
        h1 # h2 # r \<Rightarrow> (case (hex_val h1, hex_val h2) of (Some a, Some b) \<Rightarrow> Some (16 * a + b, r) | _ \<Rightarrow> None)
      | _ \<Rightarrow> None)"

fun utf8_cont :: "nat \<Rightarrow> nat \<Rightarrow> string \<Rightarrow> (nat \<times> string) option" where
  "utf8_cont 0 acc s = Some (acc, s)"
| "utf8_cont (Suc k) acc s =
     (case s of
        c # r \<Rightarrow>
          if c = CHR ''%'' then
            (case pct_byte r of
               Some (b, r') \<Rightarrow> if 128 \<le> b \<and> b \<le> 191 then utf8_cont k (64 * acc + (b - 128)) r' else None
             | None \<Rightarrow> None)
          else None
      | [] \<Rightarrow> None)"

definition utf8_sequence :: "nat \<Rightarrow> string \<Rightarrow> (nat \<times> string) option" where
  "utf8_sequence b s =
     (if 192 \<le> b \<and> b \<le> 223 then
        (case utf8_cont 1 (b - 192) s of
           Some (cp, r) \<Rightarrow> if 128 \<le> cp then Some (cp, r) else None | None \<Rightarrow> None)
      else if 224 \<le> b \<and> b \<le> 239 then
        (case utf8_cont 2 (b - 224) s of
           Some (cp, r) \<Rightarrow> if 2048 \<le> cp \<and> \<not> (55296 \<le> cp \<and> cp \<le> 57343) then Some (cp, r) else None
         | None \<Rightarrow> None)
      else if 240 \<le> b \<and> b \<le> 247 then
        (case utf8_cont 3 (b - 240) s of
           Some (cp, r) \<Rightarrow> if 65536 \<le> cp \<and> cp \<le> 1114111 then Some (cp, r) else None | None \<Rightarrow> None)
      else None)"

definition code_units :: "nat \<Rightarrow> string" where
  "code_units cp =
     (if cp < 256 then [char_of cp] else if cp < 65536 then [char_of (128 :: nat)]
      else [char_of (128 :: nat), char_of (128 :: nat)])"

lemma pct_byte_length: "pct_byte s = Some (b, r) \<Longrightarrow> length r < length s"
  by (auto simp: pct_byte_def split: list.splits option.splits prod.splits)

lemma utf8_cont_length: "utf8_cont k acc s = Some (cp, r) \<Longrightarrow> length r \<le> length s"
proof (induction k arbitrary: acc s)
  case (Suc k)
  then obtain c r0 b r' where s: "s = c # r0" "pct_byte r0 = Some (b, r')"
    and rec: "utf8_cont k (64 * acc + (b - 128)) r' = Some (cp, r)"
    by (auto split: list.splits if_splits option.splits prod.splits)
  have "length r \<le> length r'" by (rule Suc.IH [OF rec])
  then show ?case using s pct_byte_length [OF s(2)] by simp
qed simp

lemma utf8_sequence_length: "utf8_sequence b s = Some (cp, r) \<Longrightarrow> length r \<le> length s"
  unfolding utf8_sequence_def
  by (auto split: if_splits option.splits prod.splits dest!: utf8_cont_length simp del: utf8_cont.simps)

function decodeURIComponent :: "string \<Rightarrow> string option" where
  "decodeURIComponent [] = Some []"
| "decodeURIComponent (c # s) =
     (if c \<noteq> CHR ''%'' then map_option (Cons c) (decodeURIComponent s)
      else case pct_byte s of
             None \<Rightarrow> None
           | Some (b, r) \<Rightarrow>
               if b < 128 then map_option (Cons (char_of b)) (decodeURIComponent r)
               else case utf8_sequence b r of
                      None \<Rightarrow> None
                    | Some (cp, r') \<Rightarrow> map_option (append (code_units cp)) (decodeURIComponent r'))"
  by pat_completeness auto
termination
  by (relation "measure length") (auto dest!: pct_byte_length utf8_sequence_length)

subsection \<open>Lemmas\<close>

lemma js_math_round_Fin [simp]: "js_math_round (Fin a) = Fin (of_int (js_round a))"
  by (simp add: js_math_round_def)

lemma js_get_obj [simp]:
  "js_get (JObj kvs) k = Some (case map_of (rev kvs) k of Some x \<Rightarrow> x | None \<Rightarrow> JUndefined)"
  by (simp add: js_get_def)

lemma js_get_arr_0 [simp]: "js_get (JArr (x # xs)) ''0'' = Some x"
proof -
  have "array_index ''0'' = Some 0" by code_simp
  then show ?thesis by (simp add: js_get_def)
qed

lemma js_get_arr_length [simp]: "js_get (JArr xs) ''length'' = Some (JNum (real (length xs)))"
  by (simp add: js_get_def)

lemma decodeURIComponent_plain:
  "CHR ''%'' \<notin> set s \<Longrightarrow> decodeURIComponent s = Some s"
  by (induction s) auto

lemma js_get_none_iff: "js_get v k = None \<longleftrightarrow> v = JUndefined \<or> v = JNull"
  by (cases v) (simp_all add: js_get_def)

end
