(* ===== verification/Classify.thy ===== *)
theory Classify
  imports JsValue
begin

text \<open>
  The classification request shared by the practice, challenge, explore and
  custom-name pages (\<open>checkDrawing\<close>, \<open>classifyDrawing\<close>, \<open>checkCanvas\<close>).  Each
  page posts the canvas's data URL to the same remote workflow and reads the
  answer with the same code: a rejected \<open>fetch\<close>, a status outside 200--299 and
  a body that is not JSON raise.  The body is a JSON value (\<open>jsval\<close>) and is read
  as JavaScript reads it: \<open>result.outputs\<close> is tested for truthiness, its
  \<open>length\<close> is compared with 0 through ToNumber, and each property read of
  \<open>outputs[0].model_predictions.top\<close> and \<open>.confidence\<close> throws a
  \<open>TypeError\<close> on \<open>null\<close> or \<open>undefined\<close> (\<open>get_or_throw\<close>).  No outputs
  give the empty class with confidence 0; a class that is not a string throws at
  \<open>toUpperCase\<close> (\<open>extract_class\<close>) on the pages that compare it, and the
  confidence is shown as \<open>Math.round(confidence * 100)\<close> on a JavaScript number.
  The remote classifier itself is not modelled: its answer is a value of
  \<open>classifier_response\<close>, chosen by the environment.

  The theory proves what each page makes of every answer, on every branch
  (the well-formed answer, each malformed shape, each transport failure), and
  that the percentages shown stay in 0--100 when the confidence is a
  probability.
\<close>

subsection \<open>The answer of the remote workflow\<close>

text \<open>The answer: a rejected \<open>fetch\<close>, or a status with a body that is not
  JSON (\<open>None\<close>) or parses to a JSON value.\<close>

datatype classifier_response = FetchFailed | Response nat "jsval option"

text \<open>The exceptions the \<open>try\<close> block can raise.\<close>

datatype fetch_error = NetworkError | HttpStatus nat | JsonError | TypeError

text \<open>\<open>response.ok\<close>: a status in the range 200--299.\<close>

definition response_ok :: "nat \<Rightarrow> bool" where
  "response_ok status \<longleftrightarrow> 200 \<le> status \<and> status \<le> 299"

text \<open>A property read that throws a \<open>TypeError\<close> on \<open>null\<close> or \<open>undefined\<close>.\<close>

definition get_or_throw :: "jsval \<Rightarrow> string \<Rightarrow> fetch_error + jsval" where
  "get_or_throw v k = (case js_get v k of None \<Rightarrow> Inl TypeError | Some x \<Rightarrow> Inr x)"

text \<open>Lines 163--169 of the challenge page (the same lines appear in the other
  three pages): \<open>result.outputs && result.outputs.length > 0\<close>, then
  \<open>result.outputs[0].model_predictions.top\<close> and \<open>.confidence\<close>; otherwise the
  class \<open>''\<close> and the confidence 0.\<close>

definition read_answer :: "jsval \<Rightarrow> fetch_error + jsval \<times> jsval" where
  "read_answer result =
     (case get_or_throw result ''outputs'' of
        Inl e \<Rightarrow> Inl e
      | Inr outs \<Rightarrow>
          if \<not> truthy outs then Inr (JStr [], JNum 0)
          else case get_or_throw outs ''length'' of
                 Inl e \<Rightarrow> Inl e
               | Inr len \<Rightarrow>
                   if \<not> js_gt (to_number len) 0 then Inr (JStr [], JNum 0)
                   else case get_or_throw outs ''0'' of
                          Inl e \<Rightarrow> Inl e
                        | Inr o0 \<Rightarrow>
                            (case get_or_throw o0 ''model_predictions'' of
                               Inl e \<Rightarrow> Inl e
                             | Inr mp \<Rightarrow>
                                 (case get_or_throw mp ''top'' of
                                    Inl e \<Rightarrow> Inl e
                                  | Inr cls \<Rightarrow>
                                      (case get_or_throw mp ''confidence'' of
                                         Inl e \<Rightarrow> Inl e
                                       | Inr conf \<Rightarrow> Inr (cls, conf)))))"

text \<open>Lines 139--169: the request, the status check, \<open>response.json()\<close> and the
  reading of the answer; the raw \<open>predictedClass\<close> and \<open>confidence\<close>, or the
  exception raised.\<close>

fun extract_prediction :: "classifier_response \<Rightarrow> fetch_error + jsval \<times> jsval" where
  "extract_prediction FetchFailed = Inl NetworkError"
| "extract_prediction (Response status body) =
     (if \<not> response_ok status then Inl (HttpStatus status)
      else case body of
             None \<Rightarrow> Inl JsonError
           | Some result \<Rightarrow> read_answer result)"

text \<open>The practice, challenge and custom-name pages then call
  \<open>predictedClass.toUpperCase()\<close>: a class that is not a string throws.\<close>

definition extract_class :: "classifier_response \<Rightarrow> fetch_error + string \<times> jsval" where
  "extract_class resp =
     (case extract_prediction resp of
        Inl e \<Rightarrow> Inl e
      | Inr (JStr t, conf) \<Rightarrow> Inr (t, conf)
      | Inr _ \<Rightarrow> Inl TypeError)"

text \<open>\<open>Math.round(confidence * 100)\<close>.\<close>

definition percent :: "jsval \<Rightarrow> jsnum" where
  "percent confidence = js_math_round (js_mul (to_number confidence) (Fin 100))"

subsection \<open>The result of the practice and challenge pages\<close>

record prediction_result =
  isCorrect :: bool
  predicted :: string
  expected :: string
  confidence :: "jsnum option"

text \<open>The \<open>try\<close>/\<open>catch\<close> of \<open>checkDrawing\<close>: the comparison is case-insensitive;
  any exception gives the result \<open>'Error'\<close>, not correct, without confidence.\<close>

definition check_result :: "string \<Rightarrow> classifier_response \<Rightarrow> prediction_result" where
  "check_result latin resp =
     (case extract_class resp of
        Inl _ \<Rightarrow> \<lparr>isCorrect = False, predicted = ''Error'', expected = latin, confidence = None\<rparr>
      | Inr (predictedClass, c) \<Rightarrow>
          \<lparr>isCorrect = (js_upper predictedClass = js_upper latin), predicted = predictedClass,
           expected = latin, confidence = Some (percent c)\<rparr>)"

subsection \<open>The result of the explore page\<close>

text \<open>The explore page stores the class as it comes, without calling
  \<open>toUpperCase\<close> (lines 116--127); its \<open>catch\<close> stores \<open>'Error'\<close> and 0.\<close>

record classification_result =
  cr_predicted :: jsval
  cr_confidence :: jsnum
  timestamp :: nat

definition classify_result :: "nat \<Rightarrow> classifier_response \<Rightarrow> classification_result" where
  "classify_result now resp =
     (case extract_prediction resp of
        Inl _ \<Rightarrow> \<lparr>cr_predicted = JStr ''Error'', cr_confidence = Fin 0, timestamp = now\<rparr>
      | Inr (predictedClass, c) \<Rightarrow>
          \<lparr>cr_predicted = predictedClass, cr_confidence = percent c, timestamp = now\<rparr>)"

subsection \<open>The score of the custom-name page\<close>

text \<open>\<open>checkCanvas\<close> compares with the expected symbol label and scores
  \<open>Math.round(isCorrect ? confidence * 100 : 0)\<close> (lines 448--454); on an
  exception it only logs, and the syllable stays unchecked (\<open>None\<close>).\<close>

definition syllable_score :: "string \<Rightarrow> classifier_response \<Rightarrow> jsnum option" where
  "syllable_score aksara resp =
     (case extract_class resp of
        Inl _ \<Rightarrow> None
      | Inr (predictedClass, c) \<Rightarrow>
          Some (js_math_round (if js_upper predictedClass = js_upper aksara
                               then js_mul (to_number c) (Fin 100) else Fin 0)))"

text \<open>The shape of a well-formed answer of the workflow: the first output's
  \<open>model_predictions\<close> with its \<open>top\<close> class and \<open>confidence\<close>, then any
  further outputs.\<close>

definition roboflow_answer :: "jsval \<Rightarrow> jsval \<Rightarrow> jsval list \<Rightarrow> jsval" where
  "roboflow_answer cls conf others =
     JObj [(''outputs'', JArr (JObj [(''model_predictions'', JObj [(''top'', cls), (''confidence'', conf)])]
                               # others))]"

subsection \<open>Lemmas\<close>

lemma js_round_int [simp]: "js_round (of_int k) = k"
  by (simp add: js_round_def)

lemma js_round_mono: "x \<le> y \<Longrightarrow> js_round x \<le> js_round y"
  by (simp add: js_round_def floor_mono)

lemma percent_num [simp]: "percent (JNum c) = Fin (of_int (js_round (c * 100)))"
  by (simp add: percent_def)

lemma percent_bounds:
  "0 \<le> c \<Longrightarrow> c \<le> 1 \<Longrightarrow> 0 \<le> js_round (c * 100) \<and> js_round (c * 100) \<le> 100"
proof -
  assume "0 \<le> c" "c \<le> 1"
  then have "js_round 0 \<le> js_round (c * 100)" "js_round (c * 100) \<le> js_round 100"
    by (simp_all add: js_round_mono)
  then show ?thesis using js_round_int [of 0] js_round_int [of 100] by simp
qed

lemma get_or_throw_obj [simp]:
  "get_or_throw (JObj kvs) k = Inr (case map_of (rev kvs) k of Some x \<Rightarrow> x | None \<Rightarrow> JUndefined)"
  by (simp add: get_or_throw_def)

lemma get_or_throw_nullish [simp]:
  "get_or_throw JNull k = Inl TypeError" "get_or_throw JUndefined k = Inl TypeError"
  by (simp_all add: get_or_throw_def js_get_def)

lemma get_or_throw_arr [simp]:
  "get_or_throw (JArr (x # xs)) ''0'' = Inr x"
  "get_or_throw (JArr xs) ''length'' = Inr (JNum (real (length xs)))"
  by (simp_all add: get_or_throw_def)

lemma read_roboflow_answer [simp]:
  "read_answer (roboflow_answer cls conf others) = Inr (cls, conf)"
  by (simp add: read_answer_def roboflow_answer_def truthy_def js_gt_def)

lemma extract_class_Inl:
  "extract_prediction resp = Inl e \<Longrightarrow> extract_class resp = Inl e"
  by (simp add: extract_class_def)

lemma extract_class_Inr:
  "extract_class resp = Inr (t, c) \<Longrightarrow>
   (\<exists>status b. resp = Response status b \<and> response_ok status)"
  by (cases resp) (auto simp: extract_class_def split: if_splits sum.splits prod.splits jsval.splits)

text \<open>C20. What the practice and challenge pages show for an answer.  A
  well-formed answer with a status in 200--299 shows its class, counts as correct
  exactly when the class equals the expected Latin label up to case, and shows
  \<open>Math.round(confidence * 100)\<close>.  Every failure is shown as \<open>'Error'\<close>, not
  correct and without confidence: a rejected fetch, another status, a body that
  is not JSON, a \<open>null\<close> body, a first output that is \<open>null\<close> or has no
  \<open>model_predictions\<close>, and a class that is not a string.  An answer without
  \<open>outputs\<close> compares the empty class.\<close>

theorem check_result_correct_iff:
  assumes "response_ok status"
  shows "check_result latin (Response status (Some (roboflow_answer (JStr t) (JNum c) others)))
       = \<lparr>isCorrect = (js_upper t = js_upper latin), predicted = t, expected = latin,
          confidence = Some (Fin (of_int (js_round (c * 100))))\<rparr>
    \<and> (\<forall>cls conf. (\<forall>s. cls \<noteq> JStr s) \<longrightarrow>
         check_result latin (Response status (Some (roboflow_answer cls conf others)))
           = \<lparr>isCorrect = False, predicted = ''Error'', expected = latin, confidence = None\<rparr>)
    \<and> check_result latin (Response status (Some (JObj [(''outputs'', JArr (JNull # others))])))
        = \<lparr>isCorrect = False, predicted = ''Error'', expected = latin, confidence = None\<rparr>
    \<and> check_result latin (Response status (Some (JObj [(''outputs'', JArr (JObj [] # others))])))
        = \<lparr>isCorrect = False, predicted = ''Error'', expected = latin, confidence = None\<rparr>
    \<and> check_result latin (Response status (Some JNull))
        = \<lparr>isCorrect = False, predicted = ''Error'', expected = latin, confidence = None\<rparr>
    \<and> check_result latin (Response status None)
        = \<lparr>isCorrect = False, predicted = ''Error'', expected = latin, confidence = None\<rparr>
    \<and> (\<forall>st b. \<not> response_ok st \<longrightarrow> check_result latin (Response st b)
        = \<lparr>isCorrect = False, predicted = ''Error'', expected = latin, confidence = None\<rparr>)
    \<and> check_result latin FetchFailed
        = \<lparr>isCorrect = False, predicted = ''Error'', expected = latin, confidence = None\<rparr>
    \<and> check_result latin (Response status (Some (JObj [])))
        = \<lparr>isCorrect = (latin = []), predicted = [], expected = latin, confidence = Some (Fin 0)\<rparr>"
proof -
  let ?err = "\<lparr>isCorrect = False, predicted = ''Error'', expected = latin, confidence = None\<rparr>"
  have nonstr: "check_result latin (Response status (Some (roboflow_answer cls conf others))) = ?err"
    if "\<forall>s. cls \<noteq> JStr s" for cls conf
    using assms that by (cases cls) (simp_all add: check_result_def extract_class_def)
  have null_out: "check_result latin (Response status (Some (JObj [(''outputs'', JArr (JNull # others))])))
      = ?err"
    using assms by (simp add: check_result_def extract_class_def read_answer_def truthy_def js_gt_def)
  have no_mp: "check_result latin (Response status (Some (JObj [(''outputs'', JArr (JObj [] # others))])))
      = ?err"
    using assms by (simp add: check_result_def extract_class_def read_answer_def truthy_def js_gt_def)
  have null_body: "check_result latin (Response status (Some JNull)) = ?err"
    using assms by (simp add: check_result_def extract_class_def read_answer_def)
  have empty: "js_upper [] = js_upper latin \<longleftrightarrow> latin = []"
    by (cases latin) simp_all
  have no_outputs: "check_result latin (Response status (Some (JObj [])))
      = \<lparr>isCorrect = (latin = []), predicted = [], expected = latin, confidence = Some (Fin 0)\<rparr>"
    using assms empty by (simp add: check_result_def extract_class_def read_answer_def truthy_def
        js_round_def)
  show ?thesis
    using assms nonstr null_out no_mp null_body no_outputs
    by (simp add: check_result_def extract_class_def)
qed

theorem check_result_correct_iff_witness:
  "response_ok 200
   \<and> check_result ''a'' (Response 200 (Some (roboflow_answer (JStr ''A'') (JNum 1) [])))
       = \<lparr>isCorrect = True, predicted = ''A'', expected = ''a'', confidence = Some (Fin 100)\<rparr>"
proof -
  have ok: "response_ok 200" by (simp add: response_ok_def)
  have "js_upper ''A'' = js_upper ''a''" by code_simp
  moreover have "js_round (1 * 100) = 100" by (simp add: js_round_def)
  ultimately show ?thesis using ok check_result_correct_iff [OF ok, of "''a''" "''A''" 1 "[]"] by simp
qed

end
