(* ===== verification/Challenge.thy ===== *)
theory Challenge
  imports Canvas Classify Aksara
begin

text \<open>
  The challenge page (\<open>src/src/app/tryon/challenge/page.tsx\<close>): a 60-second
  quiz.  The page's \<open>useState\<close> hooks are the fields of \<open>challenge_state\<close>; the
  mounted \<open>AksaraCanvas\<close> is the component state of theory \<open>Canvas\<close>, kept
  with the \<open>showPlaceholder\<close> prop it was last rendered with.  The asynchronous
  parts are explicit: the one-second interval, the 5-second hint timeout (with
  the character its closure captured) and the pending classification request
  (with the character captured by \<open>checkDrawing\<close>) are fields, and their
  completions are events.  Each event is a handler of the page followed by
  React's commit: the canvas is mounted, re-rendered or dropped to match the
  render, then the page's effects run.  An event whose element is not rendered,
  is disabled or lies under a modal overlay is not enabled (\<open>None\<close>).
\<close>

subsection \<open>State\<close>

text \<open>The page's own copy of the 19 base characters (lines 50--70).\<close>

definition challenge_characters :: "character list" where
  "challenge_characters = take 19 characters"

record quiz_stats =
  correct :: nat
  total :: nat
  timeElapsed :: nat

record challenge_state =
  currentCharacter :: "character option"
  isChecking :: bool
  showResult :: bool
  predictionResult :: "prediction_result option"
  showHint :: bool
  gameStarted :: bool
  showStartModal :: bool
  timeLeft :: int
  stats :: quiz_stats
  gameEnded :: bool
  hint_timer :: "character option"
  pending_check :: "character option"
  canvas :: "(canvas_state \<times> bool) option"

definition challenge_init :: challenge_state where
  "challenge_init = \<lparr>currentCharacter = None, isChecking = False, showResult = False,
     predictionResult = None, showHint = False, gameStarted = False, showStartModal = True,
     timeLeft = 60, stats = \<lparr>correct = 0, total = 0, timeElapsed = 0\<rparr>, gameEnded = False,
     hint_timer = None, pending_check = None, canvas = None\<rparr>"

text \<open>The props of the page's canvas (lines 499--511): 400 by 400, the placeholder
  layer shown with the hint, and no \<open>placeholderImage\<close>.\<close>

definition challenge_canvas_props :: "bool \<Rightarrow> canvas_props" where
  "challenge_canvas_props hint =
     default_props\<lparr>cp_width := 400, cp_height := 400, showPlaceholder := hint\<rparr>"

subsection \<open>Rendering\<close>

text \<open>The game view (line 465) and the three modal overlays, in document order:
  start (line 286), end of game (line 326), result (line 379).  A later overlay
  lies above an earlier one; all lie above the game view.\<close>

definition game_view :: "challenge_state \<Rightarrow> bool" where
  "game_view st \<longleftrightarrow> gameStarted st \<and> \<not> gameEnded st \<and> currentCharacter st \<noteq> None"

definition result_modal :: "challenge_state \<Rightarrow> bool" where
  "result_modal st \<longleftrightarrow> showResult st \<and> predictionResult st \<noteq> None \<and> \<not> gameEnded st"

definition any_modal :: "challenge_state \<Rightarrow> bool" where
  "any_modal st \<longleftrightarrow> showStartModal st \<or> gameEnded st \<or> result_modal st"

text \<open>The interval of the timer effect (lines 73--88) runs while this holds.\<close>

definition timer_running :: "challenge_state \<Rightarrow> bool" where
  "timer_running st \<longleftrightarrow> gameStarted st \<and> 0 < timeLeft st \<and> \<not> gameEnded st"

text \<open>The commit of the canvas: mounted when the game view appears (its effects
  run on mount), dropped when it disappears, and re-rendered with the placeholder
  effect when \<open>showPlaceholder\<close> changes.\<close>

definition sync_canvas :: "challenge_state \<Rightarrow> challenge_state" where
  "sync_canvas st =
     (if game_view st then
        (case canvas st of
           None \<Rightarrow> st\<lparr>canvas := Some (mount_canvas (challenge_canvas_props (showHint st)), showHint st)\<rparr>
         | Some (c, h) \<Rightarrow>
             if h = showHint st then st
             else st\<lparr>canvas := Some (canvas_rerender (challenge_canvas_props h)
                      (challenge_canvas_props (showHint st)) c, showHint st)\<rparr>)
      else st\<lparr>canvas := None\<rparr>)"

text \<open>The hint effect (lines 91--104), run when \<open>currentCharacter\<close> changes:
  hide the hint, clear the placeholder layer, and replace the pending timeout.\<close>

definition hint_effect :: "challenge_state \<Rightarrow> challenge_state" where
  "hint_effect st =
     (case currentCharacter st of
        None \<Rightarrow> st
      | Some ch \<Rightarrow> st\<lparr>showHint := False,
          canvas := map_option (\<lambda>(c, h). (clearPlaceholder c, h)) (canvas st),
          hint_timer := Some ch\<rparr>)"

text \<open>React's commit after a handler; \<open>changed\<close> says whether the handler set a
  new \<open>currentCharacter\<close> (each pick is a new object of the re-created array).
  The effect's \<open>setShowHint\<close> causes a second render.\<close>

definition commit :: "bool \<Rightarrow> challenge_state \<Rightarrow> challenge_state" where
  "commit changed st =
     (let st1 = sync_canvas st in if changed then sync_canvas (hint_effect st1) else st1)"

subsection \<open>Handlers\<close>

text \<open>\<open>canvasRef.current?.clear()\<close>: on the canvas of the last commit, if any.\<close>

definition clear_canvas :: "challenge_state \<Rightarrow> challenge_state" where
  "clear_canvas st =
     st\<lparr>canvas := map_option (\<lambda>(c, h). (clear (challenge_canvas_props h) c, h)) (canvas st)\<rparr>"

text \<open>\<open>startGame\<close> (lines 111--119), with the index drawn by
  \<open>getRandomCharacter\<close>.\<close>

definition startGame :: "nat \<Rightarrow> challenge_state \<Rightarrow> challenge_state" where
  "startGame i st = clear_canvas (st\<lparr>showStartModal := False, gameStarted := True,
     currentCharacter := Some (challenge_characters ! i), timeLeft := 60,
     stats := \<lparr>correct = 0, total = 0, timeElapsed = 0\<rparr>, gameEnded := False\<rparr>)"

text \<open>\<open>nextQuestion\<close> (lines 121--127).\<close>

definition nextQuestion :: "nat \<Rightarrow> challenge_state \<Rightarrow> challenge_state" where
  "nextQuestion i st = (clear_canvas (st\<lparr>currentCharacter := Some (challenge_characters ! i)\<rparr>))
     \<lparr>showResult := False, predictionResult := None, showHint := False\<rparr>"

text \<open>One tick of the interval (lines 77--84).\<close>

definition tick :: "challenge_state \<Rightarrow> challenge_state" where
  "tick st =
     (if timeLeft st \<le> 1
      then st\<lparr>gameEnded := True, stats := (stats st)\<lparr>timeElapsed := 60\<rparr>, timeLeft := 0\<rparr>
      else st\<lparr>timeLeft := timeLeft st - 1\<rparr>)"

text \<open>The hint timeout (lines 97--100): show the hint and ask the canvas of the
  current commit to draw the captured character's glyph.\<close>

definition hint_timeout :: "character \<Rightarrow> challenge_state \<Rightarrow> challenge_state" where
  "hint_timeout ch st = st\<lparr>showHint := True, hint_timer := None,
     canvas := map_option (\<lambda>(c, h). (drawPlaceholder (challenge_canvas_props h) (svgPath ch) 0.3 c, h))
                 (canvas st)\<rparr>"

text \<open>The synchronous part of \<open>checkDrawing\<close> (lines 129--154): the guards, the
  export, and the request sent.  A missing export returns inside the \<open>try\<close>,
  so the \<open>finally\<close> resets \<open>isChecking\<close> at once.\<close>

definition checkDrawing :: "challenge_state \<Rightarrow> challenge_state" where
  "checkDrawing st =
     (case (currentCharacter st, canvas st) of
        (Some ch, Some (c, h)) \<Rightarrow>
          (case getImageData c of
             None \<Rightarrow> st\<lparr>isChecking := False\<rparr>
           | Some img \<Rightarrow> st\<lparr>isChecking := True, pending_check := Some ch\<rparr>)
      | _ \<Rightarrow> st)"

text \<open>The rest of \<open>checkDrawing\<close> once the response arrives (lines 156--198),
  for the character captured at the click: the stats count only answers read
  without exception.\<close>

definition check_response :: "character \<Rightarrow> classifier_response \<Rightarrow> challenge_state \<Rightarrow> challenge_state" where
  "check_response ch resp st =
     (let res = check_result (latin ch) resp;
          st1 = (case extract_class resp of
                   Inl _ \<Rightarrow> st
                 | Inr _ \<Rightarrow> st\<lparr>stats := (stats st)\<lparr>total := total (stats st) + 1,
                     correct := (if isCorrect res then correct (stats st) + 1 else correct (stats st))\<rparr>\<rparr>)
      in st1\<lparr>predictionResult := Some res, showResult := True, isChecking := False,
             pending_check := None\<rparr>)"

text \<open>The "play again" button of the end modal (lines 358--361).\<close>

definition playAgain :: "challenge_state \<Rightarrow> challenge_state" where
  "playAgain st = st\<lparr>gameEnded := False, showStartModal := True\<rparr>"

subsection \<open>Events\<close>

datatype challenge_event =
    StartGame nat
  | NextQuestion nat
  | Tick
  | HintTimeout
  | CheckClick
  | CheckResponse classifier_response
  | PlayAgain
  | CanvasInput client_rect canvas_event
  | CanvasImageLoad nat

text \<open>The page's step: the guard says the event can happen (the element is
  rendered, enabled and not covered, the timer or request is pending), then the
  handler and the commit.\<close>

fun challenge_step ::
  "(real \<Rightarrow> point list list \<Rightarrow> (nat \<times> nat) list) \<Rightarrow> challenge_event \<Rightarrow> challenge_state \<Rightarrow>
   challenge_state option" where
  "challenge_step raster (StartGame i) st =
     (if showStartModal st \<and> \<not> gameEnded st \<and> \<not> result_modal st \<and> i < length challenge_characters
      then Some (commit True (startGame i st)) else None)"
| "challenge_step raster (NextQuestion i) st =
     (if result_modal st \<and> i < length challenge_characters
      then Some (commit True (nextQuestion i st)) else None)"
| "challenge_step raster Tick st =
     (if timer_running st then Some (commit False (tick st)) else None)"
| "challenge_step raster HintTimeout st =
     (case hint_timer st of None \<Rightarrow> None | Some ch \<Rightarrow> Some (commit False (hint_timeout ch st)))"
| "challenge_step raster CheckClick st =
     (if game_view st \<and> \<not> any_modal st \<and> \<not> isChecking st
      then Some (commit False (checkDrawing st)) else None)"
| "challenge_step raster (CheckResponse resp) st =
     (case pending_check st of None \<Rightarrow> None
      | Some ch \<Rightarrow> Some (commit False (check_response ch resp st)))"
| "challenge_step raster PlayAgain st =
     (if gameEnded st then Some (commit False (playAgain st)) else None)"
| "challenge_step raster (CanvasInput r e) st =
     (case canvas st of
        Some (c, h) \<Rightarrow> if any_modal st then None
          else Some (commit False (st\<lparr>canvas := Some (fst (canvas_handle raster
                 (challenge_canvas_props h) r e c), h)\<rparr>))
      | None \<Rightarrow> None)"
| "challenge_step raster (CanvasImageLoad k) st =
     (case canvas st of
        Some (c, h) \<Rightarrow> Some (commit False (st\<lparr>canvas := Some (image_loaded k c, h)\<rparr>))
      | None \<Rightarrow> None)"

inductive challenge_reachable ::
  "(real \<Rightarrow> point list list \<Rightarrow> (nat \<times> nat) list) \<Rightarrow> challenge_state \<Rightarrow> bool"
  for raster where
  init: "challenge_reachable raster challenge_init"
| step: "challenge_reachable raster st \<Longrightarrow> challenge_step raster e st = Some st' \<Longrightarrow>
     challenge_reachable raster st'"

text \<open>The score shown at the end (lines 227, 276 and 342) and its message.\<close>

definition score_percentage :: "quiz_stats \<Rightarrow> int" where
  "score_percentage s =
     (if 0 < total s then js_round (real (correct s) / real (total s) * 100) else 0)"

definition getScoreMessage :: "quiz_stats \<Rightarrow> string" where
  "getScoreMessage s =
     (let percentage = score_percentage s
      in if 90 \<le> percentage then ''Luar biasa! Kamu ahli Aksara Batak!''
         else if 70 \<le> percentage then ''Bagus sekali! Terus berlatih!''
         else if 50 \<le> percentage then ''Tidak buruk! Masih bisa ditingkatkan!''
         else ''Jangan menyerah! Terus berlatih ya!'')"

text \<open>The invariant of the page.  \<open>challenge_core\<close>: the counters and flags;
  \<open>canvas_ok\<close>: the mounted canvas has the page's size and set-up, its
  placeholder element exists exactly when it was rendered with the hint, and
  that layer is blank.\<close>

definition challenge_core :: "challenge_state \<Rightarrow> bool" where
  "challenge_core st \<longleftrightarrow>
     correct (stats st) \<le> total (stats st) \<and> 0 \<le> timeLeft st \<and> timeLeft st \<le> 60
     \<and> (gameEnded st \<longrightarrow> timeLeft st = 0)
     \<and> (isChecking st \<longleftrightarrow> pending_check st \<noteq> None)
     \<and> (hint_timer st = None \<or> \<not> showHint st)"

definition canvas_ok :: "challenge_state \<Rightarrow> bool" where
  "canvas_ok st \<longleftrightarrow>
     (case canvas st of
        None \<Rightarrow> True
      | Some (c, h) \<Rightarrow> canvas_inv (challenge_canvas_props h) c \<and> placeholder_blank c
          \<and> (placeholder c \<noteq> None \<longleftrightarrow> h))"

text \<open>A successful answer without outputs (class \<open>''\<close>, confidence 0), the
  classifier answer the scenarios below use.\<close>

definition empty_answer :: classifier_response where
  "empty_answer = Response 200 (Some (JObj []))"


subsection \<open>Lemmas: the commit, the timer and the invariant\<close>

lemma challenge_rerender [simp]:
  "h \<noteq> h' \<Longrightarrow> canvas_rerender (challenge_canvas_props h) (challenge_canvas_props h') c
     = placeholder_effect (challenge_canvas_props h') (render_placeholder (challenge_canvas_props h') c)"
  by (simp add: canvas_rerender_def challenge_canvas_props_def Let_def)

lemma empty_answer_class: "extract_class empty_answer = Inr ([], JNum 0)"
  by (simp add: empty_answer_def response_ok_def extract_class_def read_answer_def truthy_def)


lemma game_view_canvas [simp]: "game_view (st\<lparr>canvas := x\<rparr>) = game_view st"
  by (simp add: game_view_def)

lemma sync_canvas_idem [simp]: "sync_canvas (sync_canvas st) = sync_canvas st"
  by (simp add: sync_canvas_def split: option.splits prod.splits)

lemma sync_commit [simp]: "sync_canvas (commit b st) = commit b st"
  by (simp add: commit_def Let_def)

lemma challenge_step_sync:
  "challenge_step raster e st = Some st' \<Longrightarrow> sync_canvas st' = st'"
  by (cases e) (auto split: if_splits option.splits prod.splits)

lemma challenge_reachable_sync:
  "challenge_reachable raster st \<Longrightarrow> sync_canvas st = st"
  by (induction rule: challenge_reachable.induct)
    (auto simp: challenge_init_def sync_canvas_def game_view_def dest: challenge_step_sync)

lemma sync_canvas_timeLeft:
  "sync_canvas (st\<lparr>timeLeft := t\<rparr>) = (sync_canvas st)\<lparr>timeLeft := t\<rparr>"
  by (simp add: sync_canvas_def game_view_def split: option.splits prod.splits)

lemma ticks_partial:
  assumes "sync_canvas st = st" "gameStarted st" "\<not> gameEnded st" "int k < timeLeft st"
  shows "run_opt (challenge_step raster) (replicate k Tick) st = Some (st\<lparr>timeLeft := timeLeft st - int k\<rparr>)"
  using assms
proof (induction k arbitrary: st)
  case 0
  then show ?case by simp
next
  case (Suc k)
  let ?st1 = "st\<lparr>timeLeft := timeLeft st - 1\<rparr>"
  have step: "challenge_step raster Tick st = Some ?st1"
    using Suc.prems sync_canvas_timeLeft [where st = st and t = "timeLeft st - 1"]
    by (simp add: timer_running_def tick_def commit_def)
  have "run_opt (challenge_step raster) (replicate k Tick) ?st1 = Some (?st1\<lparr>timeLeft := timeLeft ?st1 - int k\<rparr>)"
    using Suc.prems sync_canvas_timeLeft [where st = st and t = "timeLeft st - 1"] by (intro Suc.IH) simp_all
  then show ?case using step by (simp add: algebra_simps)
qed

lemma ticks_run:
  assumes "sync_canvas st = st" "gameStarted st" "\<not> gameEnded st" "timeLeft st = int (Suc n)"
  shows "run_opt (challenge_step raster) (replicate (Suc n) Tick) st =
    Some (st\<lparr>timeLeft := 0, gameEnded := True, stats := (stats st)\<lparr>timeElapsed := 60\<rparr>, canvas := None\<rparr>)"
proof -
  let ?st1 = "st\<lparr>timeLeft := 1\<rparr>"
  have pre: "run_opt (challenge_step raster) (replicate n Tick) st = Some ?st1"
    using ticks_partial [OF assms(1-3), of n raster] assms(4) by simp
  have last: "challenge_step raster Tick ?st1 =
      Some (st\<lparr>timeLeft := 0, gameEnded := True, stats := (stats st)\<lparr>timeElapsed := 60\<rparr>, canvas := None\<rparr>)"
    using assms by (simp add: timer_running_def tick_def commit_def sync_canvas_def game_view_def)
  have "replicate (Suc n) Tick = replicate n Tick @ [Tick]" by (simp add: replicate_append_same)
  then show ?thesis using pre last by (simp add: run_opt_append)
qed

lemma canvas_inv_challenge_props:
  "canvas_inv (challenge_canvas_props h) c = canvas_inv (challenge_canvas_props h') c"
  by (simp add: canvas_inv_def challenge_canvas_props_def default_props_def split: option.splits)

lemma placeholder_blank_mount:
  "placeholderImage props = None \<Longrightarrow> placeholder_blank (mount_canvas props)
     \<and> (placeholder (mount_canvas props) \<noteq> None \<longleftrightarrow> showPlaceholder props)"
  by (simp add: placeholder_blank_def mount_canvas_def canvas_defs split: option.splits)

lemma placeholder_blank_rerender:
  "placeholderImage props = None \<Longrightarrow> placeholder_blank c \<Longrightarrow>
   placeholder_blank (placeholder_effect props (render_placeholder props c))
   \<and> (placeholder (placeholder_effect props (render_placeholder props c)) \<noteq> None \<longleftrightarrow> showPlaceholder props)"
  by (auto simp: placeholder_blank_def canvas_defs split: option.splits)

lemma challenge_props_simps [simp]: "placeholderImage (challenge_canvas_props h) = None"
  "showPlaceholder (challenge_canvas_props h) = h"
  "cp_width (challenge_canvas_props h) = 400" "cp_height (challenge_canvas_props h) = 400"
  "strokeColor (challenge_canvas_props h) = default_stroke"
  "strokeWidth (challenge_canvas_props h) = 10"
  "backgroundColor (challenge_canvas_props h) = white"
  "disabled (challenge_canvas_props h) = False"
  "showTrashButton (challenge_canvas_props h) = True"
  by (simp_all add: challenge_canvas_props_def default_props_def)

lemma canvas_ok_sync: "canvas_ok st \<Longrightarrow> canvas_ok (sync_canvas st)"
  using placeholder_blank_mount [of "challenge_canvas_props (showHint st)"]
    canvas_inv_mount [of "challenge_canvas_props (showHint st)"]
    placeholder_blank_rerender [of "challenge_canvas_props (showHint st)"]
  by (auto simp: canvas_ok_def sync_canvas_def canvas_inv_def
      split: option.splits prod.splits)


lemma core_sync [simp]: "challenge_core (sync_canvas st) = challenge_core st"
  by (simp add: challenge_core_def sync_canvas_def split: option.splits prod.splits)

lemma sync_fixed_canvas:
  "sync_canvas st = st \<Longrightarrow> canvas st = Some (c, h) \<Longrightarrow> game_view st \<and> h = showHint st"
  by (auto simp: sync_canvas_def split: if_splits dest: arg_cong [where f = canvas])

lemma core_hint_effect: "challenge_core st \<Longrightarrow> challenge_core (hint_effect st)"
  by (simp add: challenge_core_def hint_effect_def split: option.splits)

lemma canvas_ok_hint_effect: "canvas_ok st \<Longrightarrow> canvas_ok (hint_effect st)"
  by (auto simp: canvas_ok_def hint_effect_def canvas_inv_def placeholder_blank_def
      clearPlaceholder_def split: option.splits prod.splits)

lemma commit_inv:
  "challenge_core st \<Longrightarrow> canvas_ok st \<Longrightarrow> challenge_core (commit b st) \<and> canvas_ok (commit b st)"
  by (simp add: commit_def Let_def core_hint_effect canvas_ok_hint_effect canvas_ok_sync)

lemma canvas_ok_clear_canvas: "canvas_ok st \<Longrightarrow> canvas_ok (clear_canvas st)"
  by (auto simp: canvas_ok_def clear_canvas_def placeholder_blank_def canvas_inv_clear
      split: option.splits prod.splits)

lemma drawPlaceholder_no_element: "placeholder c = None \<Longrightarrow> drawPlaceholder props src a c = c"
  by (simp add: drawPlaceholder_def)

lemma image_loaded_idle: "pending_loads c = [] \<Longrightarrow> image_loaded k c = c"
  by (simp add: image_loaded_def)

lemma inv_tick:
  "challenge_core st \<Longrightarrow> canvas_ok st \<Longrightarrow> timer_running st \<Longrightarrow>
   challenge_core (tick st) \<and> canvas_ok (tick st)"
  by (auto simp: challenge_core_def canvas_ok_def tick_def timer_running_def)

lemma inv_startGame:
  "challenge_core st \<Longrightarrow> canvas_ok st \<Longrightarrow>
   challenge_core (startGame i st) \<and> canvas_ok (startGame i st)"
  using canvas_ok_clear_canvas
  by (simp add: startGame_def challenge_core_def canvas_ok_def clear_canvas_def)

lemma inv_nextQuestion:
  "challenge_core st \<Longrightarrow> canvas_ok st \<Longrightarrow>
   challenge_core (nextQuestion i st) \<and> canvas_ok (nextQuestion i st)"
  using canvas_ok_clear_canvas
  by (simp add: nextQuestion_def challenge_core_def canvas_ok_def clear_canvas_def)

lemma inv_hint_timeout:
  assumes "challenge_core st" "canvas_ok st" "sync_canvas st = st" "hint_timer st = Some ch"
  shows "challenge_core (hint_timeout ch st) \<and> canvas_ok (hint_timeout ch st)"
proof -
  have "\<not> showHint st" using assms(1,4) by (simp add: challenge_core_def)
  then have "canvas st = Some (c, h) \<Longrightarrow> placeholder c = None" for c h
    using assms(2) sync_fixed_canvas [OF assms(3)] by (auto simp: canvas_ok_def)
  then show ?thesis
    using assms(1,2) by (auto simp: challenge_core_def canvas_ok_def hint_timeout_def
        drawPlaceholder_no_element split: option.splits)
qed

lemma inv_checkDrawing:
  "challenge_core st \<Longrightarrow> canvas_ok st \<Longrightarrow> \<not> isChecking st \<Longrightarrow>
   challenge_core (checkDrawing st) \<and> canvas_ok (checkDrawing st)"
  by (auto simp: challenge_core_def canvas_ok_def checkDrawing_def split: option.splits prod.splits)

lemma inv_check_response:
  "challenge_core st \<Longrightarrow> canvas_ok st \<Longrightarrow>
   challenge_core (check_response ch resp st) \<and> canvas_ok (check_response ch resp st)"
  by (auto simp: challenge_core_def canvas_ok_def check_response_def Let_def split: sum.splits)

lemma inv_playAgain:
  "challenge_core st \<Longrightarrow> canvas_ok st \<Longrightarrow> challenge_core (playAgain st) \<and> canvas_ok (playAgain st)"
  by (simp add: challenge_core_def canvas_ok_def playAgain_def)

lemma inv_canvas_input:
  "challenge_core st \<Longrightarrow> canvas_ok st \<Longrightarrow> canvas st = Some (c, h) \<Longrightarrow>
   challenge_core (st\<lparr>canvas := Some (fst (canvas_handle raster (challenge_canvas_props h) r e c), h)\<rparr>)
   \<and> canvas_ok (st\<lparr>canvas := Some (fst (canvas_handle raster (challenge_canvas_props h) r e c), h)\<rparr>)"
  by (simp add: challenge_core_def canvas_ok_def canvas_inv_handle placeholder_blank_def)

lemma inv_image_load:
  "canvas_ok st \<Longrightarrow> canvas st = Some (c, h) \<Longrightarrow> st\<lparr>canvas := Some (image_loaded k c, h)\<rparr> = st"
  by (simp add: canvas_ok_def placeholder_blank_def image_loaded_idle)

lemma challenge_step_inv:
  assumes "challenge_core st" "canvas_ok st" "sync_canvas st = st"
    and "challenge_step raster e st = Some st'"
  shows "challenge_core st' \<and> canvas_ok st'"
proof (cases e)
  case (StartGame i)
  then show ?thesis using assms inv_startGame commit_inv by (auto split: if_splits)
next
  case (NextQuestion i)
  then show ?thesis using assms inv_nextQuestion commit_inv by (auto split: if_splits)
next
  case Tick
  then show ?thesis using assms inv_tick commit_inv by (auto split: if_splits)
next
  case HintTimeout
  then show ?thesis using assms inv_hint_timeout commit_inv by (auto split: option.splits)
next
  case CheckClick
  then show ?thesis using assms inv_checkDrawing commit_inv by (auto split: if_splits)
next
  case (CheckResponse resp)
  then show ?thesis using assms inv_check_response commit_inv by (auto split: option.splits)
next
  case PlayAgain
  then show ?thesis using assms inv_playAgain commit_inv by (auto split: if_splits)
next
  case (CanvasInput r ev)
  then show ?thesis using assms inv_canvas_input commit_inv
    by (auto split: option.splits prod.splits if_splits)
next
  case (CanvasImageLoad k)
  then show ?thesis using assms inv_image_load commit_inv by (auto split: option.splits prod.splits)
qed

lemma challenge_reachable_inv:
  "challenge_reachable raster st \<Longrightarrow> challenge_core st \<and> canvas_ok st \<and> sync_canvas st = st"
proof (induction rule: challenge_reachable.induct)
  case init
  then show ?case
    by (simp add: challenge_init_def challenge_core_def canvas_ok_def sync_canvas_def game_view_def)
next
  case (step st e st')
  then show ?case using challenge_step_inv challenge_step_sync by blast
qed


lemma commit_fields [simp]:
  "currentCharacter (commit b st) = currentCharacter st"
  "isChecking (commit b st) = isChecking st"
  "showResult (commit b st) = showResult st"
  "predictionResult (commit b st) = predictionResult st"
  "gameStarted (commit b st) = gameStarted st"
  "showStartModal (commit b st) = showStartModal st"
  "timeLeft (commit b st) = timeLeft st"
  "stats (commit b st) = stats st"
  "gameEnded (commit b st) = gameEnded st"
  "pending_check (commit b st) = pending_check st"
  by (simp_all add: commit_def Let_def sync_canvas_def hint_effect_def
      split: option.splits prod.splits)

lemma sync_fixed_mounted:
  "sync_canvas st = st \<Longrightarrow> canvas st \<noteq> None \<longleftrightarrow> game_view st"
  by (auto simp: sync_canvas_def split: if_splits option.splits dest: arg_cong [where f = canvas])

lemma challenge_reachable_main:
  assumes "challenge_reachable raster st" "canvas st = Some (c, h)"
  shows "\<exists>s. main c = Some s"
  using challenge_reachable_inv [OF assms(1)] assms(2)
  by (auto simp: canvas_ok_def canvas_inv_def split: option.splits)

lemma checkClick_step:
  assumes "challenge_reachable raster st" "game_view st" "\<not> any_modal st" "\<not> isChecking st"
  shows "challenge_step raster CheckClick st =
    Some (commit False (st\<lparr>isChecking := True, pending_check := currentCharacter st\<rparr>))"
proof -
  obtain c h where ch: "canvas st = Some (c, h)"
    using challenge_reachable_inv [OF assms(1)] sync_fixed_mounted assms(2) by fastforce
  obtain s where s: "main c = Some s" using challenge_reachable_main [OF assms(1) ch] by blast
  obtain x where x: "currentCharacter st = Some x" using assms(2) by (auto simp: game_view_def)
  show ?thesis using assms ch s x by (simp add: checkDrawing_def getImageData_def)
qed

lemma run_opt_reachable:
  "run_opt (challenge_step raster) es st = Some st' \<Longrightarrow> challenge_reachable raster st \<Longrightarrow>
   challenge_reachable raster st'"
  by (induction es arbitrary: st)
    (auto split: option.splits intro: challenge_reachable.step)

lemma reachable_started:
  "challenge_reachable raster (commit True (startGame 0 challenge_init))"
  by (rule challenge_reachable.step [OF challenge_reachable.init, of raster "StartGame 0"])
    (simp add: challenge_init_def result_modal_def challenge_characters_def characters_def)

lemma started_fields:
  "game_view (commit True (startGame 0 challenge_init))
   \<and> \<not> any_modal (commit True (startGame 0 challenge_init))
   \<and> \<not> isChecking (commit True (startGame 0 challenge_init))
   \<and> timeLeft (commit True (startGame 0 challenge_init)) = 60"
  by (simp add: startGame_def clear_canvas_def challenge_init_def game_view_def any_modal_def
      result_modal_def)

lemma nat_Suc_eq: "t = int (Suc n) \<Longrightarrow> nat t = Suc n"
  by simp

lemma js_round_percent_range:
  "0 \<le> x \<Longrightarrow> x \<le> 100 \<Longrightarrow> 0 \<le> js_round x \<and> js_round x \<le> 100"
  using js_round_mono [of 0 x] js_round_mono [of x 100] js_round_int [of 0] js_round_int [of 100]
  by simp

lemma score_percentage_bounds:
  "correct s \<le> total s \<Longrightarrow> 0 \<le> score_percentage s \<and> score_percentage s \<le> 100"
proof (cases "0 < total s")
  case True
  assume le: "correct s \<le> total s"
  have "real (correct s) / real (total s) * 100 \<le> 100" using le True by (simp add: field_simps)
  then show ?thesis using True js_round_percent_range by (simp add: score_percentage_def)
next
  case False
  then show ?thesis by (simp add: score_percentage_def)
qed


subsection \<open>Properties of the page\<close>

text \<open>C15. In every reachable state of the page: at most as many correct answers as
  answers, a time left between 0 and 60 that is 0 once the game has ended, the
  check button disabled exactly while a request is in flight (so at most one is),
  and the canvas mounted exactly while the game view is rendered.\<close>

theorem challenge_invariant:
  assumes "challenge_reachable raster st"
  shows "correct (stats st) \<le> total (stats st) \<and> 0 \<le> timeLeft st \<and> timeLeft st \<le> 60
    \<and> (gameEnded st \<longrightarrow> timeLeft st = 0)
    \<and> (isChecking st \<longleftrightarrow> pending_check st \<noteq> None)
    \<and> (canvas st \<noteq> None \<longleftrightarrow> game_view st)"
  using challenge_reachable_inv [OF assms] sync_fixed_mounted
  by (auto simp: challenge_core_def)

theorem challenge_invariant_witness:
  "challenge_reachable no_raster challenge_init
   \<and> correct (stats challenge_init) \<le> total (stats challenge_init)
   \<and> (canvas challenge_init \<noteq> None \<longleftrightarrow> game_view challenge_init)"
  using challenge_invariant [OF challenge_reachable.init [of no_raster]] challenge_reachable.init
  by blast

text \<open>C16. The hint never reaches the canvas: in every reachable state the
  placeholder layer of the page's canvas holds no glyph and has no image loading,
  also once the hint is shown.  The timeout calls \<open>drawPlaceholder\<close> before the
  re-render that creates the placeholder element, and the page passes no
  \<open>placeholderImage\<close> for the placeholder effect to draw.\<close>

theorem challenge_hint_never_drawn:
  assumes "challenge_reachable raster st"
  shows "case canvas st of None \<Rightarrow> True | Some (c, h) \<Rightarrow> placeholder_blank c \<and> h = showHint st"
  using challenge_reachable_inv [OF assms] sync_fixed_canvas
  by (auto simp: canvas_ok_def split: option.splits)

theorem challenge_hint_never_drawn_witness:
  "challenge_reachable no_raster (commit False (hint_timeout (challenge_characters ! 0)
      (commit True (startGame 0 challenge_init))))
   \<and> showHint (commit False (hint_timeout (challenge_characters ! 0)
      (commit True (startGame 0 challenge_init))))
   \<and> (case canvas (commit False (hint_timeout (challenge_characters ! 0)
      (commit True (startGame 0 challenge_init)))) of None \<Rightarrow> True
      | Some (c, h) \<Rightarrow> placeholder_blank c \<and> h = True)"
proof -
  let ?S = "commit False (hint_timeout (challenge_characters ! 0) (commit True (startGame 0 challenge_init)))"
  have h: "hint_timer (commit True (startGame 0 challenge_init)) = Some (challenge_characters ! 0)"
    by (simp add: commit_def Let_def hint_effect_def sync_canvas_def startGame_def clear_canvas_def
        challenge_init_def split: option.splits prod.splits)
  have r: "challenge_reachable no_raster ?S"
    using challenge_reachable.step [OF reachable_started, of no_raster HintTimeout] h by simp
  have sh: "showHint ?S"
    by (simp add: commit_def sync_canvas_def hint_timeout_def split: option.splits prod.splits)
  show ?thesis using challenge_hint_never_drawn [OF r] r sh by (auto split: option.splits)
qed

text \<open>C17. The quiz ends: from any reachable state where the timer runs, exactly
  \<open>timeLeft\<close> ticks end the game, with the time left 0, the elapsed time 60
  and the canvas unmounted; no fewer ticks end it.\<close>

theorem challenge_game_ends:
  assumes "challenge_reachable raster st" "timer_running st"
  shows "run_opt (challenge_step raster) (replicate (nat (timeLeft st)) Tick) st =
      Some (st\<lparr>timeLeft := 0, gameEnded := True, stats := (stats st)\<lparr>timeElapsed := 60\<rparr>, canvas := None\<rparr>)
    \<and> (\<forall>k < nat (timeLeft st). \<exists>st'. run_opt (challenge_step raster) (replicate k Tick) st = Some st'
         \<and> \<not> gameEnded st')"
proof -
  have s: "sync_canvas st = st" using challenge_reachable_inv [OF assms(1)] by blast
  have g: "gameStarted st" "\<not> gameEnded st" using assms(2) by (auto simp: timer_running_def)
  define n where "n = nat (timeLeft st) - 1"
  have n: "timeLeft st = int (Suc n)" using assms(2) by (simp add: timer_running_def n_def)
  have full: "run_opt (challenge_step raster) (replicate (nat (timeLeft st)) Tick) st =
      Some (st\<lparr>timeLeft := 0, gameEnded := True, stats := (stats st)\<lparr>timeElapsed := 60\<rparr>, canvas := None\<rparr>)"
    unfolding nat_Suc_eq [OF n] by (rule ticks_run [OF s g n])
  have part: "\<exists>st'. run_opt (challenge_step raster) (replicate k Tick) st = Some st' \<and> \<not> gameEnded st'"
    if "k < nat (timeLeft st)" for k
  proof -
    have "int k < timeLeft st" using that by linarith
    then show ?thesis using ticks_partial [OF s g, of k raster] g(2) by simp
  qed
  show ?thesis using full part by blast
qed

theorem challenge_game_ends_witness:
  "challenge_reachable no_raster (commit True (startGame 0 challenge_init))
   \<and> timer_running (commit True (startGame 0 challenge_init))
   \<and> (\<exists>st'. run_opt (challenge_step no_raster) (replicate 60 Tick)
         (commit True (startGame 0 challenge_init)) = Some st' \<and> gameEnded st')"
proof -
  have r: "challenge_reachable no_raster (commit True (startGame 0 challenge_init))"
    by (rule reachable_started)
  have t: "timer_running (commit True (startGame 0 challenge_init))"
    by (simp add: timer_running_def startGame_def clear_canvas_def challenge_init_def)
  have l: "nat (timeLeft (commit True (startGame 0 challenge_init))) = 60"
    using started_fields by simp
  show ?thesis using challenge_game_ends [OF r t] r t unfolding l by simp
qed

text \<open>C18. After "play again" the last result of the previous game comes back:
  a reachable state shows the start modal with the result modal above it.
  Neither "play again" nor \<open>startGame\<close> resets \<open>showResult\<close> or
  \<open>predictionResult\<close>, and the result modal is hidden only while
  \<open>gameEnded\<close> holds.\<close>

theorem challenge_stale_result_modal:
  "\<exists>st. challenge_reachable raster st \<and> showStartModal st \<and> result_modal st"
proof -
  let ?S1 = "commit True (startGame 0 challenge_init)"
  let ?S2 = "commit False (?S1\<lparr>isChecking := True, pending_check := currentCharacter ?S1\<rparr>)"
  let ?ch = "challenge_characters ! 0"
  let ?S3 = "commit False (check_response ?ch empty_answer ?S2)"
  have r2: "challenge_reachable raster ?S2"
    using challenge_reachable.step [OF reachable_started checkClick_step [OF reachable_started]]
      started_fields by blast
  have p2: "pending_check ?S2 = Some ?ch" by (simp add: startGame_def clear_canvas_def)
  have r3: "challenge_reachable raster ?S3"
    using challenge_reachable.step [OF r2, of "CheckResponse empty_answer"] p2 by simp
  have f3: "gameStarted ?S3 \<and> \<not> gameEnded ?S3 \<and> timeLeft ?S3 = int (Suc 59)
      \<and> showResult ?S3 \<and> predictionResult ?S3 \<noteq> None"
    by (simp add: check_response_def startGame_def clear_canvas_def challenge_init_def Let_def
        split: sum.splits)
  let ?S4 = "?S3\<lparr>timeLeft := 0, gameEnded := True, stats := (stats ?S3)\<lparr>timeElapsed := 60\<rparr>, canvas := None\<rparr>"
  have "run_opt (challenge_step raster) (replicate (Suc 59) Tick) ?S3 = Some ?S4"
    using ticks_run [of ?S3] challenge_reachable_inv [OF r3] f3 by blast
  then have r4: "challenge_reachable raster ?S4" using r3 run_opt_reachable by blast
  let ?S5 = "commit False (playAgain ?S4)"
  have r5: "challenge_reachable raster ?S5"
    using challenge_reachable.step [OF r4, of PlayAgain] by simp
  have "showStartModal ?S5 \<and> result_modal ?S5"
    using f3 by (simp add: playAgain_def result_modal_def)
  then show ?thesis using r5 by blast
qed


text \<open>C19. A check still in flight when the time runs out is counted after the end
  of the game: the final score shown in the end modal changes.\<close>

theorem challenge_late_response_counts:
  "\<exists>st st'. challenge_reachable raster st \<and> gameEnded st
     \<and> challenge_step raster (CheckResponse empty_answer) st = Some st'
     \<and> gameEnded st' \<and> total (stats st') = total (stats st) + 1"
proof -
  let ?S1 = "commit True (startGame 0 challenge_init)"
  let ?S2 = "commit False (?S1\<lparr>isChecking := True, pending_check := currentCharacter ?S1\<rparr>)"
  let ?ch = "challenge_characters ! 0"
  have r2: "challenge_reachable raster ?S2"
    using challenge_reachable.step [OF reachable_started checkClick_step [OF reachable_started]]
      started_fields by blast
  have f2: "gameStarted ?S2 \<and> \<not> gameEnded ?S2 \<and> timeLeft ?S2 = int (Suc 59)
      \<and> pending_check ?S2 = Some ?ch"
    by (simp add: startGame_def clear_canvas_def challenge_init_def)
  let ?S4 = "?S2\<lparr>timeLeft := 0, gameEnded := True, stats := (stats ?S2)\<lparr>timeElapsed := 60\<rparr>, canvas := None\<rparr>"
  have "run_opt (challenge_step raster) (replicate (Suc 59) Tick) ?S2 = Some ?S4"
    using ticks_run [of ?S2] challenge_reachable_inv [OF r2] f2 by blast
  then have r4: "challenge_reachable raster ?S4" using r2 run_opt_reachable by blast
  let ?S5 = "commit False (check_response ?ch empty_answer ?S4)"
  have s5: "challenge_step raster (CheckResponse empty_answer) ?S4 = Some ?S5" using f2 by simp
  have f5: "gameEnded ?S5 \<and> total (stats ?S5) = total (stats ?S4) + 1"
    by (simp add: check_response_def empty_answer_class Let_def)
  have e4: "gameEnded ?S4" by simp
  show ?thesis
    by (rule exI [of _ ?S4], rule exI [of _ ?S5], intro conjI)
      (rule r4, rule e4, rule s5, rule f5 [THEN conjunct1], rule f5 [THEN conjunct2])
qed

text \<open>The percentage shown at the end of the game lies in 0--100 in every
  reachable state.\<close>

theorem challenge_score_bounds:
  assumes "challenge_reachable raster st"
  shows "0 \<le> score_percentage (stats st) \<and> score_percentage (stats st) \<le> 100"
  using challenge_reachable_inv [OF assms] score_percentage_bounds
  by (simp add: challenge_core_def)

theorem challenge_score_bounds_witness:
  "challenge_reachable no_raster challenge_init
   \<and> score_percentage (stats challenge_init) = 0"
  using challenge_score_bounds [OF challenge_reachable.init [of no_raster]] challenge_reachable.init
  by (simp add: challenge_init_def score_percentage_def)

end
