(* ===== verification/CustomName.thy ===== *)
theory CustomName
  imports Validation Canvas Classify
begin

text \<open>
  The flow of the "write your name" page (\<open>src/src/app/tryon/custom-name/page.tsx\<close>,
  \<open>CustomNameContent\<close>): step 1 takes a name and validates it (theory
  \<open>Validation\<close>), step 2 shows one syllable at a time on a single drawing canvas
  and checks each drawing with the remote classifier, step 3 shows the final
  result.  The page's \<open>useState\<close> hooks are the fields of \<open>custom_state\<close>.  The
  one \<open>AksaraCanvas\<close> element of step 2 is the state of theory \<open>Canvas\<close>: React
  keeps the same element when the syllable index changes (only its \<open>ref\<close>,
  \<open>disabled\<close> and \<open>showTrashButton\<close> props change), so its drawing survives
  until the 100 ms clearing timeout fires.  Each \<open>React.createRef\<close> batch is
  identified by a generation number, so a timeout knows whether the ref it
  captured is still the rendered one.  Pending timeouts and the request in
  flight (with the index, the array and the name its closure captured, and the
  image it sent) are fields; their completions are events.
\<close>

subsection \<open>State\<close>

type_synonym image = "rgba list list"

text \<open>\<open>SyllableCanvas\<close> (lines 25--32); the \<open>canvasRef\<close> is the generation of
  the batch it was created in, held once for the whole array.\<close>

record syllable_canvas =
  syllable :: string
  aksara :: string
  isCompleted :: bool
  score :: "jsnum option"
  canvasImage :: "image option"

text \<open>\<open>FinalResult\<close> (lines 39--45); a missing image (\<open>''\<close> in the source) is \<open>None\<close>.\<close>

record final_result =
  fr_name :: string
  fr_syllables :: "string list"
  scores :: "jsnum list"
  averageScore :: jsnum
  canvasImages :: "image option list"

text \<open>A request in flight: the index, the \<open>syllableCanvases\<close> and \<open>inputValue\<close> of
  the render whose \<open>checkCanvas\<close> closure was called, and the image sent.\<close>

record pending_request =
  req_index :: nat
  req_canvases :: "syllable_canvas list"
  req_name :: string
  req_image :: image

record custom_state =
  currentStep :: nat
  inputValue :: string
  nameValid :: bool
  syllables :: "string list"
  syllableCanvases :: "syllable_canvas list"
  currentCanvasIndex :: nat
  isChecking :: bool
  finalResult :: "final_result option"
  showResult :: bool
  refs_gen :: nat
  clear_timers :: "(nat \<times> nat) list"
  request :: "pending_request option"
  name_canvas :: "canvas_state option"

text \<open>The props of the step-2 canvas (lines 879--887): default size, no trash
  button and disabled once the syllable is checked.\<close>

definition name_canvas_props :: "bool \<Rightarrow> canvas_props" where
  "name_canvas_props completed =
     default_props\<lparr>showTrashButton := \<not> completed, disabled := completed\<rparr>"

text \<open>The state of the page's first render (lines 48--56).\<close>

definition custom_init :: custom_state where
  "custom_init = \<lparr>currentStep = 1, inputValue = [], nameValid = False, syllables = [],
     syllableCanvases = [], currentCanvasIndex = 0, isChecking = False, finalResult = None,
     showResult = False, refs_gen = 0, clear_timers = [], request = None, name_canvas = None\<rparr>"

subsection \<open>Rendering\<close>

text \<open>The step-2 canvas is rendered when \<open>currentStep === 2\<close> and there are
  syllables (lines 817 and 848); the result modal (line 626) covers the page.\<close>

definition canvas_shown :: "custom_state \<Rightarrow> bool" where
  "canvas_shown st \<longleftrightarrow> currentStep st = 2 \<and> syllableCanvases st \<noteq> []"

definition result_shown :: "custom_state \<Rightarrow> bool" where
  "result_shown st \<longleftrightarrow> showResult st \<and> finalResult st \<noteq> None"

definition current_completed :: "custom_state \<Rightarrow> bool" where
  "current_completed st \<longleftrightarrow> isCompleted (syllableCanvases st ! currentCanvasIndex st)"

text \<open>React's commit: mount the canvas when it appears (with its effects), drop
  it when it disappears; a change of index or of \<open>disabled\<close> keeps it.\<close>

definition sync_name_canvas :: "custom_state \<Rightarrow> custom_state" where
  "sync_name_canvas st =
     (if canvas_shown st then
        (case name_canvas st of
           None \<Rightarrow> st\<lparr>name_canvas := Some (mount_canvas (name_canvas_props (current_completed st)))\<rparr>
         | Some c \<Rightarrow> st)
      else st\<lparr>name_canvas := None\<rparr>)"

text \<open>\<open>syllableCanvases[k].canvasRef.current\<close> for a ref of generation \<open>g\<close>: the
  mounted canvas when that ref is the rendered one.\<close>

definition ref_current :: "custom_state \<Rightarrow> nat \<Rightarrow> nat \<Rightarrow> canvas_state option" where
  "ref_current st g k =
     (if g = refs_gen st \<and> k = currentCanvasIndex st then name_canvas st else None)"

subsection \<open>Handlers\<close>

text \<open>The canvases built from a name (lines 73--81 and 384--392).\<close>

definition make_canvases :: "string list \<Rightarrow> syllable_canvas list" where
  "make_canvases nameSyllables = map (\<lambda>s. \<lparr>syllable = s, aksara = convertSyllableToAksara s,
     isCompleted = False, score = None, canvasImage = None\<rparr>) nameSyllables"

text \<open>The mount effect reading the \<open>name\<close> parameter (lines 61--88), from the
  decoded name on (lines 65--87); the reading and decoding are \<open>custom_open\<close>.\<close>

definition name_param_effect :: "string option \<Rightarrow> custom_state \<Rightarrow> custom_state" where
  "name_param_effect param st =
     (case param of
        None \<Rightarrow> st
      | Some decodedName \<Rightarrow>
          let isValid = isNameValid decodedName;
                   st1 = st\<lparr>inputValue := decodedName, nameValid := isValid\<rparr>
               in if isValid then
                    let nameSyllables = convertToSyllables decodedName
                    in st1\<lparr>syllables := nameSyllables, syllableCanvases := make_canvases nameSyllables,
                           refs_gen := Suc (refs_gen st1), currentStep := 2, currentCanvasIndex := 0\<rparr>
                  else st1)"

text \<open>The input's \<open>onChange\<close> (lines 368--379, the verdict in theory \<open>Validation\<close>).\<close>

definition name_input :: "string \<Rightarrow> custom_state \<Rightarrow> custom_state" where
  "name_input v st = st\<lparr>inputValue := v, nameValid := nameHandler v\<rparr>"

text \<open>\<open>proceedToStep2\<close> (lines 381--405): the canvases, step 2, and a timeout
  clearing the first canvas of the new batch.\<close>

definition proceedToStep2 :: "custom_state \<Rightarrow> custom_state" where
  "proceedToStep2 st =
     (if \<not> nameValid st then st
      else let nameSyllables = convertToSyllables (inputValue st)
           in st\<lparr>syllables := nameSyllables, syllableCanvases := make_canvases nameSyllables,
                 refs_gen := Suc (refs_gen st), currentStep := 2, currentCanvasIndex := 0,
                 clear_timers := clear_timers st @ [(Suc (refs_gen st), 0)]\<rparr>)"

text \<open>The synchronous part of \<open>checkCanvas index\<close> (lines 407--431).\<close>

definition checkCanvas :: "nat \<Rightarrow> custom_state \<Rightarrow> custom_state" where
  "checkCanvas index st =
     (case ref_current st (refs_gen st) index of
        None \<Rightarrow> st
      | Some c \<Rightarrow>
          (case getImageData c of
             None \<Rightarrow> st\<lparr>isChecking := False\<rparr>
           | Some imageDataURL \<Rightarrow> st\<lparr>isChecking := True,
               request := Some \<lparr>req_index = index, req_canvases = syllableCanvases st,
                 req_name = inputValue st, req_image = imageDataURL\<rparr>\<rparr>))"

text \<open>\<open>calculateFinalResult\<close> (lines 471--487): \<open>c.score || 0\<close> (a missing or
  \<open>NaN\<close> score counts 0), the sum by \<open>reduce\<close> from 0, the division by the
  number of canvases and \<open>Math.round\<close>.\<close>

definition final_result_of :: "string \<Rightarrow> syllable_canvas list \<Rightarrow> final_result" where
  "final_result_of name canvases =
     (let scs = map (\<lambda>c. case score c of None \<Rightarrow> Fin 0 | Some s \<Rightarrow> js_or_zero s) canvases;
          average = js_div_count (foldl js_add (Fin 0) scs) (length scs)
      in \<lparr>fr_name = name, fr_syllables = map syllable canvases, scores = scs,
          averageScore = js_math_round average, canvasImages = map canvasImage canvases\<rparr>)"

definition calculateFinalResult :: "string \<Rightarrow> syllable_canvas list \<Rightarrow> custom_state \<Rightarrow> custom_state" where
  "calculateFinalResult name canvases st =
     st\<lparr>finalResult := Some (final_result_of name canvases), currentStep := 3, showResult := True\<rparr>"

text \<open>The rest of \<open>checkCanvas\<close> when the answer arrives (lines 433--469): on
  success the captured array is updated at the index and, at the last index, the
  final result computed; on an exception only the \<open>finally\<close> runs.\<close>

definition check_answer :: "pending_request \<Rightarrow> classifier_response \<Rightarrow> custom_state \<Rightarrow> custom_state" where
  "check_answer req resp st =
     (let st0 = st\<lparr>isChecking := False, request := None\<rparr>
      in case syllable_score (aksara (req_canvases req ! req_index req)) resp of
           None \<Rightarrow> st0
         | Some sc \<Rightarrow>
             let cs = req_canvases req;
                 updated = cs[req_index req := (cs ! req_index req)\<lparr>isCompleted := True,
                   score := Some sc, canvasImage := Some (req_image req)\<rparr>];
                 st1 = st0\<lparr>syllableCanvases := updated\<rparr>
             in if req_index req = length cs - 1 then calculateFinalResult (req_name req) updated st1
                else st1)"

text \<open>The "next syllable" button (lines 917--926).\<close>

definition nextSyllable :: "custom_state \<Rightarrow> custom_state" where
  "nextSyllable st =
     (let nextIndex = currentCanvasIndex st + 1
      in st\<lparr>currentCanvasIndex := nextIndex,
            clear_timers := clear_timers st @ [(refs_gen st, nextIndex)]\<rparr>)"

text \<open>The oldest 100 ms timeout firing (timeouts of equal delay fire in the order
  they were set): \<open>canvasRef.current?.clear()\<close> on the ref it captured.\<close>

definition clear_timeout :: "custom_state \<Rightarrow> custom_state" where
  "clear_timeout st =
     (case clear_timers st of
        [] \<Rightarrow> st
      | (g, k) # rest \<Rightarrow>
          (case ref_current st g k of
             None \<Rightarrow> st\<lparr>clear_timers := rest\<rparr>
           | Some c \<Rightarrow> st\<lparr>clear_timers := rest,
               name_canvas := Some (clear (name_canvas_props (current_completed st)) c)\<rparr>))"

text \<open>\<open>resetGame\<close> (lines 597--614): clear every canvas whose ref is mounted, then
  back to step 1.\<close>

definition resetGame :: "custom_state \<Rightarrow> custom_state" where
  "resetGame st =
     (let st1 = (case ref_current st (refs_gen st) (currentCanvasIndex st) of
                   None \<Rightarrow> st
                 | Some c \<Rightarrow> st\<lparr>name_canvas := Some (clear (name_canvas_props (current_completed st)) c)\<rparr>)
      in st1\<lparr>currentStep := 1, inputValue := [], nameValid := False, syllables := [],
             syllableCanvases := [], refs_gen := Suc (refs_gen st1), currentCanvasIndex := 0,
             finalResult := None, showResult := False\<rparr>)"

subsection \<open>Events\<close>

datatype custom_event =
    NameInput string
  | Proceed
  | CheckClick
  | CheckAnswer classifier_response
  | NextSyllable
  | ClearTimeout
  | CanvasInput client_rect canvas_event
  | Reset

fun custom_step ::
  "(real \<Rightarrow> point list list \<Rightarrow> (nat \<times> nat) list) \<Rightarrow> custom_event \<Rightarrow> custom_state \<Rightarrow>
   custom_state option" where
  "custom_step raster (NameInput v) st =
     (if currentStep st = 1 \<and> \<not> result_shown st then Some (sync_name_canvas (name_input v st)) else None)"
| "custom_step raster Proceed st =
     (if currentStep st = 1 \<and> \<not> result_shown st \<and> nameValid st
      then Some (sync_name_canvas (proceedToStep2 st)) else None)"
| "custom_step raster CheckClick st =
     (if canvas_shown st \<and> \<not> result_shown st \<and> \<not> current_completed st \<and> \<not> isChecking st
      then Some (sync_name_canvas (checkCanvas (currentCanvasIndex st) st)) else None)"
| "custom_step raster (CheckAnswer resp) st =
     (case request st of None \<Rightarrow> None | Some req \<Rightarrow> Some (sync_name_canvas (check_answer req resp st)))"
| "custom_step raster NextSyllable st =
     (if canvas_shown st \<and> \<not> result_shown st \<and> current_completed st
         \<and> currentCanvasIndex st < length (syllableCanvases st) - 1
      then Some (sync_name_canvas (nextSyllable st)) else None)"
| "custom_step raster ClearTimeout st =
     (if clear_timers st \<noteq> [] then Some (sync_name_canvas (clear_timeout st)) else None)"
| "custom_step raster (CanvasInput r e) st =
     (case name_canvas st of
        Some c \<Rightarrow> if result_shown st then None
          else Some (sync_name_canvas (st\<lparr>name_canvas := Some (fst (canvas_handle raster
                 (name_canvas_props (current_completed st)) r e c))\<rparr>))
      | None \<Rightarrow> None)"
| "custom_step raster Reset st =
     (if result_shown st then Some (sync_name_canvas (resetGame st)) else None)"

text \<open>The page as mounted, with the \<open>name\<close> parameter of the URL, and everything
  that can follow.\<close>

definition custom_mount :: "string option \<Rightarrow> custom_state" where
  "custom_mount param = sync_name_canvas (name_param_effect param custom_init)"

text \<open>Opening the page with the value of \<open>searchParams.get('name')\<close> (lines
  62--64): no parameter or an empty one leaves the first render; otherwise the
  value is decoded once more by \<open>decodeURIComponent\<close>, whose \<open>URIError\<close>
  escapes the effect and takes the page down (\<open>None\<close>).\<close>

definition custom_open :: "string option \<Rightarrow> custom_state option" where
  "custom_open nameParam =
     (case nameParam of
        None \<Rightarrow> Some (custom_mount None)
      | Some p \<Rightarrow>
          if p = [] then Some (custom_mount None)
          else map_option (\<lambda>decodedName. custom_mount (Some decodedName)) (decodeURIComponent p))"

inductive custom_reachable ::
  "(real \<Rightarrow> point list list \<Rightarrow> (nat \<times> nat) list) \<Rightarrow> custom_state \<Rightarrow> bool"
  for raster where
  mount: "custom_open param = Some st \<Longrightarrow> custom_reachable raster st"
| step: "custom_reachable raster st \<Longrightarrow> custom_step raster e st = Some st' \<Longrightarrow>
     custom_reachable raster st'"

text \<open>The invariant of the flow.  \<open>flow_ok\<close>: the step, the validity flag,
  the syllables and their canvases, the completed prefix, the final result and
  the request in flight agree; \<open>name_canvas_ok\<close>: the mounted canvas keeps its
  size and set-up.\<close>

definition flow_ok :: "custom_state \<Rightarrow> bool" where
  "flow_ok st \<longleftrightarrow>
     currentStep st \<in> {1, 2, 3}
     \<and> nameValid st = isNameValid (inputValue st)
     \<and> (isChecking st \<longleftrightarrow> request st \<noteq> None)
     \<and> (currentStep st = 1 \<longrightarrow> syllableCanvases st = [] \<and> finalResult st = None
          \<and> \<not> showResult st \<and> request st = None)
     \<and> (2 \<le> currentStep st \<longrightarrow> isNameValid (inputValue st)
          \<and> syllables st = convertToSyllables (inputValue st)
          \<and> map syllable (syllableCanvases st) = syllables st
          \<and> map aksara (syllableCanvases st) = map convertSyllableToAksara (syllables st)
          \<and> currentCanvasIndex st < length (syllableCanvases st)
          \<and> (\<forall>j < currentCanvasIndex st. isCompleted (syllableCanvases st ! j)))
     \<and> (currentStep st = 2 \<longrightarrow> finalResult st = None \<and> \<not> showResult st)
     \<and> (currentStep st = 3 \<longrightarrow> list_all isCompleted (syllableCanvases st) \<and> showResult st
          \<and> request st = None
          \<and> finalResult st = Some (final_result_of (inputValue st) (syllableCanvases st)))
     \<and> pred_option (\<lambda>req. currentStep st = 2 \<and> req_index req = currentCanvasIndex st
            \<and> req_canvases req = syllableCanvases st \<and> req_name req = inputValue st
            \<and> \<not> current_completed st) (request st)"

definition name_canvas_ok :: "custom_state \<Rightarrow> bool" where
  "name_canvas_ok st \<longleftrightarrow>
     (case name_canvas st of None \<Rightarrow> True | Some c \<Rightarrow> canvas_inv default_props c)"

text \<open>A successful answer without outputs (class \<open>''\<close>, confidence 0), used by
  the scenarios below.\<close>

definition success_answer :: classifier_response where
  "success_answer = Response 200 (Some (JObj []))"

text \<open>A one-syllable name checked once: the request its check sends and the state
  once the answer has arrived.\<close>

definition one_syllable_request :: pending_request where
  "one_syllable_request = \<lparr>req_index = 0, req_canvases = syllableCanvases (custom_mount (Some ''A'')),
     req_name = ''A'', req_image = the (getImageData (the (name_canvas (custom_mount (Some ''A'')))))\<rparr>"

definition one_syllable_done :: custom_state where
  "one_syllable_done = sync_name_canvas (check_answer one_syllable_request success_answer
     ((custom_mount (Some ''A''))\<lparr>isChecking := True, request := Some one_syllable_request\<rparr>))"

subsection \<open>Lemmas: the commit and the invariant of the flow\<close>


lemma isNameValid_letters: "isNameValid v \<Longrightarrow> letters_only v"
  by (simp add: isNameValid_rules rule_letters_def split: if_splits)

lemma nameHandler_isNameValid: "nameHandler v = isNameValid v"
  using isNameValid_letters js_trim_Nil_letters by (auto simp: nameHandler_def)

lemma isNameValid_syllables: "isNameValid v \<Longrightarrow> convertToSyllables v \<noteq> []"
  by (auto simp: isNameValid_rules rule_syllables_def Let_def split: if_splits)

lemma isNameValid_Nil [simp]: "\<not> isNameValid []"
  by (simp add: isNameValid_rules rule_letters_def)

lemma map_make_canvases [simp]:
  "map syllable (make_canvases xs) = xs"
  "map aksara (make_canvases xs) = map convertSyllableToAksara xs"
  "length (make_canvases xs) = length xs"
  "make_canvases xs = [] \<longleftrightarrow> xs = []"
  by (induction xs) (simp_all add: make_canvases_def)

lemma flow_ok_canvas [simp]: "flow_ok (st\<lparr>name_canvas := x\<rparr>) = flow_ok st"
  by (simp add: flow_ok_def current_completed_def)

lemma flow_ok_sync [simp]: "flow_ok (sync_name_canvas st) = flow_ok st"
  by (simp add: sync_name_canvas_def split: option.splits)

lemma canvas_inv_name_props: "canvas_inv (name_canvas_props b) c = canvas_inv default_props c"
  by (simp add: canvas_inv_def name_canvas_props_def split: option.splits)

lemma name_canvas_ok_sync: "name_canvas_ok st \<Longrightarrow> name_canvas_ok (sync_name_canvas st)"
  using canvas_inv_mount [of "name_canvas_props (current_completed st)"]
  by (simp add: name_canvas_ok_def sync_name_canvas_def canvas_inv_name_props split: option.splits)

lemma flow_name_input:
  "flow_ok st \<Longrightarrow> currentStep st = 1 \<Longrightarrow> flow_ok (name_input v st)"
  by (simp add: flow_ok_def name_input_def nameHandler_isNameValid)

lemma flow_proceed:
  "flow_ok st \<Longrightarrow> currentStep st = 1 \<Longrightarrow> flow_ok (proceedToStep2 st)"
  using isNameValid_syllables [of "inputValue st"]
  by (auto simp: flow_ok_def proceedToStep2_def Let_def current_completed_def)

lemma flow_checkCanvas:
  "flow_ok st \<Longrightarrow> canvas_shown st \<Longrightarrow> \<not> current_completed st \<Longrightarrow> \<not> isChecking st \<Longrightarrow>
   flow_ok (checkCanvas (currentCanvasIndex st) st)"
  by (auto simp: flow_ok_def checkCanvas_def ref_current_def canvas_shown_def current_completed_def
      split: option.splits)


lemma map_update_fields [simp]:
  "map syllable (cs[i := (cs ! i)\<lparr>isCompleted := b, score := x, canvasImage := y\<rparr>]) = map syllable cs"
  "map aksara (cs[i := (cs ! i)\<lparr>isCompleted := b, score := x, canvasImage := y\<rparr>]) = map aksara cs"
  by (induction cs arbitrary: i) (auto split: nat.split)

lemma completed_update:
  "i < length cs \<Longrightarrow> (\<forall>j<i. isCompleted (cs ! j)) \<Longrightarrow>
   (\<forall>j<i. isCompleted ((cs[i := (cs ! i)\<lparr>isCompleted := True, score := x, canvasImage := y\<rparr>]) ! j))
   \<and> (i = length cs - 1 \<longrightarrow> list_all isCompleted (cs[i := (cs ! i)\<lparr>isCompleted := True, score := x, canvasImage := y\<rparr>]))"
  by (auto simp: list_all_length nth_list_update less_Suc_eq)

lemma flow_release:
  "flow_ok st \<Longrightarrow> flow_ok (st\<lparr>isChecking := False, request := None\<rparr>)"
  by (simp add: flow_ok_def current_completed_def)

lemma flow_complete:
  fixes sc :: jsnum and img :: image
  assumes "flow_ok st" "currentStep st = 2"
  defines "u \<equiv> (syllableCanvases st)[currentCanvasIndex st := (syllableCanvases st ! currentCanvasIndex st)
      \<lparr>isCompleted := True, score := Some sc, canvasImage := Some img\<rparr>]"
  shows "currentCanvasIndex st \<noteq> length (syllableCanvases st) - 1 \<Longrightarrow>
      flow_ok (st\<lparr>isChecking := False, request := None, syllableCanvases := u\<rparr>)"
    and "currentCanvasIndex st = length (syllableCanvases st) - 1 \<Longrightarrow>
      flow_ok (calculateFinalResult (inputValue st) u (st\<lparr>isChecking := False, request := None,
        syllableCanvases := u\<rparr>))"
proof -
  have f: "currentCanvasIndex st < length (syllableCanvases st)"
    "\<forall>j<currentCanvasIndex st. isCompleted (syllableCanvases st ! j)"
    "map syllable (syllableCanvases st) = syllables st"
    "map aksara (syllableCanvases st) = map convertSyllableToAksara (syllables st)"
    "finalResult st = None" "\<not> showResult st"
    using assms(1,2) by (simp_all add: flow_ok_def)
  note c = completed_update [OF f(1,2), where x = "Some sc" and y = "Some img"]
  show "currentCanvasIndex st \<noteq> length (syllableCanvases st) - 1 \<Longrightarrow>
      flow_ok (st\<lparr>isChecking := False, request := None, syllableCanvases := u\<rparr>)"
    using assms(1,2) f c unfolding u_def by (simp add: flow_ok_def)
  show "currentCanvasIndex st = length (syllableCanvases st) - 1 \<Longrightarrow>
      flow_ok (calculateFinalResult (inputValue st) u (st\<lparr>isChecking := False, request := None,
        syllableCanvases := u\<rparr>))"
    using assms(1,2) f c unfolding u_def by (simp add: flow_ok_def calculateFinalResult_def)
qed

lemma flow_check_answer:
  assumes "flow_ok st" "request st = Some req"
  shows "flow_ok (check_answer req resp st)"
proof -
  have r: "currentStep st = 2" "req_index req = currentCanvasIndex st"
    "req_canvases req = syllableCanvases st" "req_name req = inputValue st"
    using assms by (simp_all add: flow_ok_def)
  show ?thesis
  proof (cases "syllable_score (aksara (syllableCanvases st ! currentCanvasIndex st)) resp")
    case None
    then show ?thesis using flow_release [OF assms(1)] r by (simp add: check_answer_def)
  next
    case (Some sc)
    then show ?thesis using flow_complete [OF assms(1) r(1), where sc = sc and img = "req_image req"] r
      by (simp add: check_answer_def Let_def)
  qed
qed

lemma flow_nextSyllable:
  assumes "flow_ok st" "canvas_shown st" "current_completed st"
    "currentCanvasIndex st < length (syllableCanvases st) - 1"
  shows "flow_ok (nextSyllable st)"
proof -
  have s2: "currentStep st = 2" using assms(2) by (simp add: canvas_shown_def)
  have r: "request st = None" using assms(1,3) by (cases "request st") (simp_all add: flow_ok_def)
  have c: "\<forall>j < Suc (currentCanvasIndex st). isCompleted (syllableCanvases st ! j)"
    using assms(1,3) s2 by (auto simp: flow_ok_def current_completed_def less_Suc_eq)
  show ?thesis using assms(1,4) s2 r c by (simp add: flow_ok_def nextSyllable_def)
qed

lemma flow_clear_timeout: "flow_ok st \<Longrightarrow> flow_ok (clear_timeout st)"
  by (simp add: flow_ok_def clear_timeout_def current_completed_def split: option.splits list.splits prod.splits)

lemma flow_reset: "flow_ok st \<Longrightarrow> result_shown st \<Longrightarrow> flow_ok (resetGame st)"
  by (auto simp: flow_ok_def resetGame_def result_shown_def current_completed_def split: option.splits)

lemma flow_mount: "flow_ok (custom_mount param)"
  unfolding custom_mount_def flow_ok_sync using isNameValid_syllables
  by (auto simp: name_param_effect_def custom_init_def flow_ok_def Let_def
      current_completed_def split: option.splits)

lemma name_canvas_ok_update:
  "name_canvas_ok st \<Longrightarrow> name_canvas st = Some c \<Longrightarrow> canvas_inv default_props c' \<Longrightarrow>
   name_canvas_ok (st\<lparr>name_canvas := Some c'\<rparr>)"
  by (simp add: name_canvas_ok_def)

lemma name_canvas_handlers [simp]:
  "name_canvas (name_input v st) = name_canvas st"
  "name_canvas (proceedToStep2 st) = name_canvas st"
  "name_canvas (checkCanvas i st) = name_canvas st"
  "name_canvas (check_answer req resp st) = name_canvas st"
  "name_canvas (nextSyllable st) = name_canvas st"
  by (simp_all add: name_input_def proceedToStep2_def checkCanvas_def check_answer_def
      calculateFinalResult_def nextSyllable_def Let_def split: option.splits)

lemma canvas_inv_name_ops:
  "canvas_inv default_props c \<Longrightarrow> canvas_inv default_props (clear (name_canvas_props b) c)"
  "canvas_inv default_props c \<Longrightarrow>
   canvas_inv default_props (fst (canvas_handle raster (name_canvas_props b) r e c))"
  using canvas_inv_clear canvas_inv_handle canvas_inv_name_props by metis+

lemma name_canvas_ok_clear_timeout: "name_canvas_ok st \<Longrightarrow> name_canvas_ok (clear_timeout st)"
  by (auto simp: clear_timeout_def name_canvas_ok_def canvas_inv_name_ops
      ref_current_def split: option.splits list.splits prod.splits)

lemma name_canvas_ok_reset: "name_canvas_ok st \<Longrightarrow> name_canvas_ok (resetGame st)"
  by (auto simp: resetGame_def name_canvas_ok_def canvas_inv_name_ops
      ref_current_def Let_def split: option.splits)

lemma custom_step_inv:
  assumes "flow_ok st" "name_canvas_ok st" "custom_step raster e st = Some st'"
  shows "flow_ok st' \<and> name_canvas_ok st'"
proof (cases e)
  case (NameInput v)
  then show ?thesis using assms flow_name_input name_canvas_ok_sync
    by (auto simp: name_canvas_ok_def split: if_splits)
next
  case Proceed
  then show ?thesis using assms flow_proceed name_canvas_ok_sync
    by (auto simp: name_canvas_ok_def split: if_splits)
next
  case CheckClick
  then show ?thesis using assms flow_checkCanvas name_canvas_ok_sync
    by (auto simp: name_canvas_ok_def split: if_splits)
next
  case (CheckAnswer resp)
  then obtain req where q: "request st = Some req" "st' = sync_name_canvas (check_answer req resp st)"
    using assms(3) by (auto split: option.splits)
  have "name_canvas_ok (check_answer req resp st)"
    using assms(2) by (simp add: name_canvas_ok_def)
  then show ?thesis using q flow_check_answer [OF assms(1) q(1)] name_canvas_ok_sync by simp
next
  case NextSyllable
  then show ?thesis using assms flow_nextSyllable name_canvas_ok_sync
    by (auto simp: name_canvas_ok_def split: if_splits)
next
  case ClearTimeout
  then show ?thesis using assms flow_clear_timeout name_canvas_ok_clear_timeout name_canvas_ok_sync
    by (auto split: if_splits)
next
  case (CanvasInput r ev)
  then obtain c where c: "name_canvas st = Some c" "\<not> result_shown st"
    "st' = sync_name_canvas (st\<lparr>name_canvas := Some (fst (canvas_handle raster
       (name_canvas_props (current_completed st)) r ev c))\<rparr>)"
    using assms(3) by (auto split: option.splits if_splits)
  have "name_canvas_ok (st\<lparr>name_canvas := Some (fst (canvas_handle raster
       (name_canvas_props (current_completed st)) r ev c))\<rparr>)"
    using assms(2) c(1) by (simp add: name_canvas_ok_def canvas_inv_name_ops)
  then show ?thesis using assms(1) c(3) name_canvas_ok_sync by simp
next
  case Reset
  then show ?thesis using assms flow_reset name_canvas_ok_reset name_canvas_ok_sync
    by (auto split: if_splits)
qed

lemma custom_open_mount:
  assumes "custom_open param = Some st"
  obtains d where "st = custom_mount d"
  using assms by (auto simp: custom_open_def split: option.splits if_splits)

lemma custom_reachable_plain:
  "p \<noteq> [] \<Longrightarrow> CHR ''%'' \<notin> set p \<Longrightarrow> custom_reachable raster (custom_mount (Some p))"
  by (rule custom_reachable.mount [of "Some p"]) (simp add: custom_open_def decodeURIComponent_plain)

text \<open>A name parameter with a \<open>%\<close> that starts no escape, as in
  \<open>?name=100%25\<close> (which \<open>searchParams.get\<close> turns into \<open>100%\<close>), makes the
  second \<open>decodeURIComponent\<close> throw and takes the page down.\<close>

lemma custom_open_percent: "custom_open (Some ''100%'') = None"
  by (simp add: custom_open_def pct_byte_def)

lemma custom_reachable_inv:
  "custom_reachable raster st \<Longrightarrow> flow_ok st \<and> name_canvas_ok st"
proof (induction rule: custom_reachable.induct)
  case (mount param st)
  then obtain d where st: "st = custom_mount d" by (rule custom_open_mount)
  have "name_canvas_ok (name_param_effect d custom_init)"
    by (simp add: name_param_effect_def custom_init_def name_canvas_ok_def Let_def split: option.splits)
  then show ?case using flow_mount name_canvas_ok_sync by (simp add: custom_mount_def st)
next
  case (step st e st')
  then show ?case using custom_step_inv by blast
qed

lemma sync_name_idem [simp]: "sync_name_canvas (sync_name_canvas st) = sync_name_canvas st"
  by (simp add: sync_name_canvas_def canvas_shown_def current_completed_def split: option.splits)

lemma custom_step_sync: "custom_step raster e st = Some st' \<Longrightarrow> sync_name_canvas st' = st'"
  by (cases e) (auto split: if_splits option.splits)

lemma custom_reachable_sync: "custom_reachable raster st \<Longrightarrow> sync_name_canvas st = st"
  by (induction rule: custom_reachable.induct)
    (auto simp: custom_mount_def dest: custom_step_sync elim: custom_open_mount)

lemma sync_name_mounted:
  "sync_name_canvas st = st \<Longrightarrow> canvas_shown st \<Longrightarrow> \<exists>c. name_canvas st = Some c"
  by (auto simp: sync_name_canvas_def split: option.splits dest: arg_cong [where f = name_canvas])

lemma custom_check_click:
  assumes "custom_reachable raster st" "canvas_shown st" "\<not> result_shown st"
    "\<not> current_completed st" "\<not> isChecking st"
  obtains c img where "name_canvas st = Some c" "getImageData c = Some img"
    "custom_step raster CheckClick st = Some (st\<lparr>isChecking := True,
       request := Some \<lparr>req_index = currentCanvasIndex st, req_canvases = syllableCanvases st,
         req_name = inputValue st, req_image = img\<rparr>\<rparr>)"
proof -
  have s: "sync_name_canvas st = st" by (rule custom_reachable_sync [OF assms(1)])
  obtain c where c: "name_canvas st = Some c" using sync_name_mounted [OF s assms(2)] by blast
  obtain m where m: "main c = Some m"
    using custom_reachable_inv [OF assms(1)] c
    by (auto simp: name_canvas_ok_def canvas_inv_def split: option.splits)
  let ?st1 = "st\<lparr>isChecking := True, request := Some \<lparr>req_index = currentCanvasIndex st,
      req_canvases = syllableCanvases st, req_name = inputValue st, req_image = export_surface m\<rparr>\<rparr>"
  have "sync_name_canvas ?st1 = ?st1"
    using c assms(2) by (simp add: sync_name_canvas_def canvas_shown_def current_completed_def)
  then have "custom_step raster CheckClick st = Some ?st1"
    using assms(2-5) c m by (simp add: checkCanvas_def ref_current_def getImageData_def)
  then show ?thesis using that c m by (simp add: getImageData_def)
qed

lemma sync_name_fields [simp]:
  "currentStep (sync_name_canvas st) = currentStep st"
  "inputValue (sync_name_canvas st) = inputValue st"
  "syllableCanvases (sync_name_canvas st) = syllableCanvases st"
  "currentCanvasIndex (sync_name_canvas st) = currentCanvasIndex st"
  "isChecking (sync_name_canvas st) = isChecking st"
  "finalResult (sync_name_canvas st) = finalResult st"
  "showResult (sync_name_canvas st) = showResult st"
  "request (sync_name_canvas st) = request st"
  by (simp_all add: sync_name_canvas_def split: option.splits)

lemma sync_name_keep:
  "canvas_shown st \<Longrightarrow> name_canvas st = Some c \<Longrightarrow> sync_name_canvas st = st"
  by (simp add: sync_name_canvas_def)

lemma ana_valid: "isNameValid ''Ana''" by code_simp

lemma ana_syllables: "convertToSyllables ''Ana'' = [''a'', ''na'']" by code_simp

lemma success_score: "syllable_score a success_answer = Some (Fin 0)"
  by (simp add: syllable_score_def success_answer_def response_ok_def js_round_def extract_class_def
      read_answer_def truthy_def)

lemma ana_mount:
  "currentStep (custom_mount (Some ''Ana'')) = 2
   \<and> syllableCanvases (custom_mount (Some ''Ana'')) = make_canvases [''a'', ''na'']
   \<and> currentCanvasIndex (custom_mount (Some ''Ana'')) = 0
   \<and> \<not> isChecking (custom_mount (Some ''Ana'')) \<and> \<not> showResult (custom_mount (Some ''Ana''))
   \<and> finalResult (custom_mount (Some ''Ana'')) = None"
  by (simp add: custom_mount_def name_param_effect_def custom_init_def ana_valid ana_syllables Let_def)

lemma syllable_score_error: "extract_class resp = Inl err \<Longrightarrow> syllable_score a resp = None"
  by (simp add: syllable_score_def)

lemma ana_mount_guards:
  "custom_reachable raster (custom_mount (Some ''Ana'')) \<and> canvas_shown (custom_mount (Some ''Ana''))
   \<and> \<not> result_shown (custom_mount (Some ''Ana'')) \<and> \<not> current_completed (custom_mount (Some ''Ana''))
   \<and> \<not> isChecking (custom_mount (Some ''Ana''))"
  using ana_mount custom_reachable_plain [of "''Ana''" raster]
  by (simp add: canvas_shown_def result_shown_def current_completed_def make_canvases_def)

lemma a_valid: "isNameValid ''A''" by code_simp

lemma a_syllables: "convertToSyllables ''A'' = [''a'']" by code_simp

lemma one_syllable_reachable:
  "custom_reachable raster one_syllable_done \<and> currentStep one_syllable_done = 3"
proof -
  let ?M = "custom_mount (Some ''A'')"
  have m: "currentStep ?M = 2" "syllableCanvases ?M = make_canvases [''a'']"
    "currentCanvasIndex ?M = 0" "\<not> isChecking ?M" "\<not> showResult ?M" "finalResult ?M = None"
    "inputValue ?M = ''A''"
    by (simp_all add: custom_mount_def name_param_effect_def custom_init_def a_valid a_syllables Let_def)
  have rM: "custom_reachable raster ?M" by (rule custom_reachable_plain) simp_all
  have gM: "canvas_shown ?M" "\<not> result_shown ?M" "\<not> current_completed ?M" "\<not> isChecking ?M"
    using m by (simp_all add: canvas_shown_def result_shown_def current_completed_def make_canvases_def)
  obtain c img where c: "name_canvas ?M = Some c" "getImageData c = Some img"
    and s1: "custom_step raster CheckClick ?M = Some (?M\<lparr>isChecking := True,
       request := Some \<lparr>req_index = currentCanvasIndex ?M, req_canvases = syllableCanvases ?M,
         req_name = inputValue ?M, req_image = img\<rparr>\<rparr>)"
    by (rule custom_check_click [OF rM gM])
  have q: "\<lparr>req_index = currentCanvasIndex ?M, req_canvases = syllableCanvases ?M,
         req_name = inputValue ?M, req_image = img\<rparr> = one_syllable_request"
    using m c by (simp add: one_syllable_request_def)
  have r1: "custom_reachable raster (?M\<lparr>isChecking := True, request := Some one_syllable_request\<rparr>)"
    using custom_reachable.step [OF rM s1] q by simp
  have r2: "custom_reachable raster one_syllable_done"
    using custom_reachable.step [OF r1, of "CheckAnswer success_answer"]
    by (simp add: one_syllable_done_def)
  have "currentStep one_syllable_done = 3"
    using m by (simp add: one_syllable_done_def check_answer_def one_syllable_request_def
        success_score calculateFinalResult_def make_canvases_def Let_def)
  then show ?thesis using r2 by simp
qed

subsection \<open>Properties of the page\<close>

lemma isNameValid_syllables_le: "isNameValid v \<Longrightarrow> length (convertToSyllables v) \<le> 5"
  by (auto simp: isNameValid_rules rule_syllables_def Let_def split: if_splits)

text \<open>C21. In every reachable state past step 1 the name is valid, the canvases are
  exactly its syllables (one to five of them) with their script symbols, the
  index points at one of them and every earlier syllable has been checked.\<close>

theorem custom_flow_invariant:
  assumes "custom_reachable raster st" "2 \<le> currentStep st"
  shows "isNameValid (inputValue st)
    \<and> map syllable (syllableCanvases st) = convertToSyllables (inputValue st)
    \<and> map aksara (syllableCanvases st) = map convertSyllableToAksara (convertToSyllables (inputValue st))
    \<and> 0 < length (syllableCanvases st) \<and> length (syllableCanvases st) \<le> 5
    \<and> currentCanvasIndex st < length (syllableCanvases st)
    \<and> (\<forall>j < currentCanvasIndex st. isCompleted (syllableCanvases st ! j))"
proof -
  have f: "isNameValid (inputValue st)" "syllables st = convertToSyllables (inputValue st)"
    "map syllable (syllableCanvases st) = syllables st"
    "map aksara (syllableCanvases st) = map convertSyllableToAksara (syllables st)"
    "currentCanvasIndex st < length (syllableCanvases st)"
    "\<forall>j < currentCanvasIndex st. isCompleted (syllableCanvases st ! j)"
    using custom_reachable_inv [OF assms(1)] assms(2) by (simp_all add: flow_ok_def)
  have "length (syllableCanvases st) = length (convertToSyllables (inputValue st))"
    using f(2,3) by (metis length_map)
  then show ?thesis using f isNameValid_syllables_le [OF f(1)] isNameValid_syllables [OF f(1)] by simp
qed

theorem custom_flow_invariant_witness:
  "custom_reachable no_raster (custom_mount (Some ''Ana''))
   \<and> 2 \<le> currentStep (custom_mount (Some ''Ana''))
   \<and> map syllable (syllableCanvases (custom_mount (Some ''Ana''))) = [''a'', ''na'']"
  using custom_flow_invariant [of no_raster "custom_mount (Some ''Ana'')"] ana_mount_guards [of no_raster]
    ana_mount ana_syllables by simp

text \<open>C22. The final result: in every reachable state at step 3 all syllables have
  been checked and the result names the input, lists its syllables, holds each
  syllable's score (0 when none) and their rounded average over one to five
  syllables.\<close>

theorem custom_final_result:
  assumes "custom_reachable raster st" "currentStep st = 3"
  shows "list_all isCompleted (syllableCanvases st)
    \<and> (\<exists>fr. finalResult st = Some fr \<and> fr_name fr = inputValue st
         \<and> fr_syllables fr = convertToSyllables (inputValue st)
         \<and> scores fr = map (\<lambda>c. case score c of None \<Rightarrow> Fin 0 | Some s \<Rightarrow> js_or_zero s) (syllableCanvases st)
         \<and> averageScore fr = js_math_round (js_div_count (foldl js_add (Fin 0) (scores fr)) (length (scores fr)))
         \<and> 0 < length (scores fr) \<and> length (scores fr) \<le> 5)"
proof -
  have f: "list_all isCompleted (syllableCanvases st)"
    "finalResult st = Some (final_result_of (inputValue st) (syllableCanvases st))"
    "isNameValid (inputValue st)" "syllables st = convertToSyllables (inputValue st)"
    "map syllable (syllableCanvases st) = syllables st"
    "currentCanvasIndex st < length (syllableCanvases st)"
    using custom_reachable_inv [OF assms(1)] assms(2) by (simp_all add: flow_ok_def)
  have l: "length (syllableCanvases st) = length (convertToSyllables (inputValue st))"
    using f(4,5) by (metis length_map)
  show ?thesis
    using f l isNameValid_syllables_le [OF f(3)] isNameValid_syllables [OF f(3)]
    by (auto simp: final_result_of_def Let_def)
qed

theorem custom_final_result_witness:
  "custom_reachable no_raster one_syllable_done \<and> currentStep one_syllable_done = 3
   \<and> list_all isCompleted (syllableCanvases one_syllable_done)"
  using custom_final_result [of no_raster one_syllable_done] one_syllable_reachable [of no_raster]
  by simp

text \<open>C23. A failed check changes nothing: from a reachable state where the
  check button is enabled, clicking it and receiving an answer that raises (a
  rejected fetch, a bad status, a bad body) returns to exactly the same state;
  the syllable stays unchecked and no error is shown.\<close>

theorem custom_failed_check_roundtrip:
  assumes "custom_reachable raster st" "canvas_shown st" "\<not> result_shown st"
    "\<not> current_completed st" "\<not> isChecking st" "extract_class resp = Inl err"
  shows "run_opt (custom_step raster) [CheckClick, CheckAnswer resp] st = Some st"
proof -
  have q: "request st = None" using custom_reachable_inv [OF assms(1)] assms(5) by (simp add: flow_ok_def)
  have s: "sync_name_canvas st = st" by (rule custom_reachable_sync [OF assms(1)])
  obtain c img where step: "custom_step raster CheckClick st = Some (st\<lparr>isChecking := True,
       request := Some \<lparr>req_index = currentCanvasIndex st, req_canvases = syllableCanvases st,
         req_name = inputValue st, req_image = img\<rparr>\<rparr>)"
    using custom_check_click [OF assms(1-5)] by metis
  have "st\<lparr>isChecking := False, request := None\<rparr> = st" using assms(5) q by simp
  then show ?thesis using step s assms(6)
    by (simp add: check_answer_def syllable_score_error Let_def)
qed

theorem custom_failed_check_roundtrip_witness:
  "custom_reachable no_raster (custom_mount (Some ''Ana''))
   \<and> extract_class FetchFailed = Inl NetworkError
   \<and> run_opt (custom_step no_raster) [CheckClick, CheckAnswer FetchFailed] (custom_mount (Some ''Ana''))
       = Some (custom_mount (Some ''Ana''))"
proof -
  have e: "extract_class FetchFailed = Inl NetworkError" by (simp add: extract_class_def)
  show ?thesis
    using custom_failed_check_roundtrip [of no_raster "custom_mount (Some ''Ana'')" FetchFailed NetworkError]
      ana_mount_guards [of no_raster] e by blast
qed

lemma name_props_open: "name_canvas_props False = default_props"
  by (simp add: name_canvas_props_def default_props_def)

lemma name_stroke_canvas:
  "\<exists>s. main (fst (canvas_handle dot_raster default_props unit_rect (MouseMove 1 1)
          (fst (canvas_handle dot_raster default_props unit_rect (MouseDown 0 0)
            (mount_canvas default_props))))) = Some s
     \<and> sw s = 400 \<and> sh s = 400 \<and> pixels s 1 1 = opaque (strokeColor default_props)"
proof -
  let ?cm = "mount_canvas default_props"
  let ?cd = "fst (canvas_handle dot_raster default_props unit_rect (MouseDown 0 0) ?cm)"
  have inv0: "canvas_inv default_props ?cm" by (rule canvas_inv_mount)
  have inv1: "canvas_inv default_props ?cd"
    by (rule canvas_inv_handle [OF inv0, of dot_raster unit_rect, simplified])
  have d1: "isDrawing ?cd"
    by (simp add: default_props_def startDrawing_def mount_canvas_def canvas_defs multi_touch.simps)
  obtain s where s: "main ?cd = Some s"
    using inv1 by (auto simp: canvas_inv_def split: option.splits)
  have pr: "\<not> disabled default_props" "cp_width default_props = 400" "cp_height default_props = 400"
    by (simp_all add: default_props_def)
  show ?thesis
    using draw_paints [OF inv1 d1 pr(1) _ s, of "Mouse 1 1" 1 1 dot_raster unit_rect] pr
    by (simp add: dot_raster_def)
qed

lemma ana_name_canvas: "name_canvas (custom_mount (Some ''Ana'')) = Some (mount_canvas default_props)"
  using ana_mount
  by (simp add: custom_mount_def sync_name_canvas_def canvas_shown_def current_completed_def
      name_param_effect_def custom_init_def ana_valid ana_syllables Let_def make_canvases_def name_props_open)

lemma ana_canvas_input:
  assumes "name_canvas st = Some c" "st = (custom_mount (Some ''Ana''))\<lparr>name_canvas := Some c\<rparr>"
  shows "custom_step raster (CanvasInput r e) st
    = Some ((custom_mount (Some ''Ana''))\<lparr>name_canvas := Some (fst (canvas_handle raster default_props r e c))\<rparr>)"
proof -
  have g: "canvas_shown st" "\<not> result_shown st" "\<not> current_completed st"
    using ana_mount_guards [of raster] assms(2)
    by (simp_all add: canvas_shown_def result_shown_def current_completed_def)
  then show ?thesis using assms
    by (simp add: sync_name_canvas_def canvas_shown_def name_props_open del: canvas_handle.simps)
qed

lemma custom_run_reachable:
  "custom_reachable raster st \<Longrightarrow> run_opt (custom_step raster) es st = Some st' \<Longrightarrow>
   custom_reachable raster st'"
proof (induction es arbitrary: st)
  case (Cons e es)
  then show ?case by (auto split: option.splits intro: custom_reachable.step)
qed simp

text \<open>C24. A quick click after "next syllable" grades the previous drawing: on
  the page opened with the name \<open>Ana\<close>, a stroke on the first syllable's canvas,
  a check, its answer, "next syllable" and at once a second check put in flight a
  request for the second syllable whose image is exactly the image stored for the
  first, with the stroke's ink at pixel (1, 1).  The shared canvas is cleared only
  by a 100 ms timeout, which has not fired yet; a canvas cleared at once would
  send a white image.\<close>

theorem custom_stale_drawing_checked:
  "\<exists>st req. run_opt (custom_step dot_raster)
       [CanvasInput unit_rect (MouseDown 0 0), CanvasInput unit_rect (MouseMove 1 1),
        CheckClick, CheckAnswer success_answer, NextSyllable, CheckClick] (custom_mount (Some ''Ana'')) = Some st
     \<and> request st = Some req \<and> req_index req = 1 \<and> isCompleted (req_canvases req ! 0)
     \<and> canvasImage (req_canvases req ! 0) = Some (req_image req)
     \<and> \<not> white_rgb (req_image req ! 1 ! 1)"
proof -
  let ?M = "custom_mount (Some ''Ana'')"
  let ?cm = "mount_canvas default_props"
  let ?cd = "fst (canvas_handle dot_raster default_props unit_rect (MouseDown 0 0) ?cm)"
  let ?c = "fst (canvas_handle dot_raster default_props unit_rect (MouseMove 1 1) ?cd)"
  have e0: "?M = ?M\<lparr>name_canvas := Some ?cm\<rparr>" using ana_name_canvas by simp
  have s1: "custom_step dot_raster (CanvasInput unit_rect (MouseDown 0 0)) ?M = Some (?M\<lparr>name_canvas := Some ?cd\<rparr>)"
    by (rule ana_canvas_input [OF ana_name_canvas e0])
  have s2: "custom_step dot_raster (CanvasInput unit_rect (MouseMove 1 1)) (?M\<lparr>name_canvas := Some ?cd\<rparr>)
      = Some (?M\<lparr>name_canvas := Some ?c\<rparr>)"
    by (rule ana_canvas_input) simp_all
  let ?M2 = "?M\<lparr>name_canvas := Some ?c\<rparr>"
  have run2: "run_opt (custom_step dot_raster) [CanvasInput unit_rect (MouseDown 0 0),
      CanvasInput unit_rect (MouseMove 1 1)] ?M = Some ?M2"
    using s1 s2 by (simp del: canvas_handle.simps)
  have rM: "custom_reachable dot_raster ?M2"
    by (rule custom_run_reachable [OF custom_reachable_plain run2]) simp_all
  obtain s where s: "main ?c = Some s" "sw s = 400" "sh s = 400"
    "pixels s 1 1 = opaque (strokeColor default_props)"
    using name_stroke_canvas by blast
  let ?img = "export_surface s"
  have gM: "canvas_shown ?M2" "\<not> result_shown ?M2" "\<not> current_completed ?M2" "\<not> isChecking ?M2"
    using ana_mount by (simp_all add: canvas_shown_def result_shown_def current_completed_def
        make_canvases_def)
  obtain c img where c: "name_canvas ?M2 = Some c" "getImageData c = Some img"
    and s3: "custom_step dot_raster CheckClick ?M2 = Some (?M2\<lparr>isChecking := True,
       request := Some \<lparr>req_index = currentCanvasIndex ?M2, req_canvases = syllableCanvases ?M2,
         req_name = inputValue ?M2, req_image = img\<rparr>\<rparr>)"
    by (rule custom_check_click [OF rM gM])
  have cc: "c = ?c" "img = ?img" using c s(1) by (simp_all add: getImageData_def)
  let ?S1 = "?M2\<lparr>isChecking := True, request := Some \<lparr>req_index = currentCanvasIndex ?M2,
         req_canvases = syllableCanvases ?M2, req_name = inputValue ?M2, req_image = img\<rparr>\<rparr>"
  let ?u = "(syllableCanvases ?M2)[0 := (syllableCanvases ?M2 ! 0)\<lparr>isCompleted := True, score := Some (Fin 0),
      canvasImage := Some img\<rparr>]"
  let ?S2 = "?S1\<lparr>isChecking := False, request := None, syllableCanvases := ?u\<rparr>"
  have k2: "sync_name_canvas ?S2 = ?S2"
    by (rule sync_name_keep [of _ c]) (use c ana_mount in \<open>simp_all add: canvas_shown_def make_canvases_def\<close>)
  have s4: "custom_step dot_raster (CheckAnswer success_answer) ?S1 = Some ?S2"
    using k2 ana_mount by (simp add: check_answer_def success_score Let_def make_canvases_def del: canvas_handle.simps)
  let ?S3 = "nextSyllable ?S2"
  have k3: "sync_name_canvas ?S3 = ?S3"
    by (rule sync_name_keep [of _ c])
      (use c ana_mount in \<open>simp_all add: canvas_shown_def make_canvases_def nextSyllable_def Let_def\<close>)
  have g2: "canvas_shown ?S2" "\<not> result_shown ?S2" "current_completed ?S2"
    "currentCanvasIndex ?S2 < length (syllableCanvases ?S2) - 1"
    using ana_mount by (simp_all add: canvas_shown_def result_shown_def current_completed_def
        make_canvases_def)
  have s5: "custom_step dot_raster NextSyllable ?S2 = Some ?S3" using g2 k3 by simp
  have r3: "custom_reachable dot_raster ?S3"
    by (rule custom_run_reachable [OF rM, of "[CheckClick, CheckAnswer success_answer, NextSyllable]"])
      (use s3 s4 s5 in \<open>simp del: canvas_handle.simps\<close>)
  have g3: "canvas_shown ?S3" "\<not> result_shown ?S3" "\<not> current_completed ?S3" "\<not> isChecking ?S3"
    using ana_mount by (simp_all add: canvas_shown_def result_shown_def current_completed_def
        make_canvases_def nextSyllable_def Let_def)
  have n3: "name_canvas ?S3 = Some c" using c by (simp add: nextSyllable_def Let_def)
  obtain c' img' where c': "name_canvas ?S3 = Some c'" "getImageData c' = Some img'"
    and s6: "custom_step dot_raster CheckClick ?S3 = Some (?S3\<lparr>isChecking := True,
       request := Some \<lparr>req_index = currentCanvasIndex ?S3, req_canvases = syllableCanvases ?S3,
         req_name = inputValue ?S3, req_image = img'\<rparr>\<rparr>)"
    by (rule custom_check_click [OF r3 g3])
  have e0: "img' = img" using c c' n3 by simp
  have e1: "currentCanvasIndex ?S3 = 1" "syllableCanvases ?S3 = ?u"
    using ana_mount by (simp_all add: nextSyllable_def Let_def)
  have e2: "isCompleted (?u ! 0) \<and> canvasImage (?u ! 0) = Some img"
    using ana_mount by (simp add: make_canvases_def)
  let ?req = "\<lparr>req_index = currentCanvasIndex ?S3, req_canvases = syllableCanvases ?S3,
         req_name = inputValue ?S3, req_image = img'\<rparr>"
  let ?S4 = "?S3\<lparr>isChecking := True, request := Some ?req\<rparr>"
  have run4: "run_opt (custom_step dot_raster) [CheckClick, CheckAnswer success_answer, NextSyllable, CheckClick]
      ?M2 = Some ?S4"
    using s3 s4 s5 s6 by (simp del: canvas_handle.simps)
  have run: "run_opt (custom_step dot_raster)
       ([CanvasInput unit_rect (MouseDown 0 0), CanvasInput unit_rect (MouseMove 1 1)]
        @ [CheckClick, CheckAnswer success_answer, NextSyllable, CheckClick]) ?M = Some ?S4"
    by (simp only: run_opt_append run2 run4 option.case)
  have ink: "\<not> white_rgb (img ! 1 ! 1)"
    using cc s by (simp add: export_surface_def default_props_def default_stroke_def white_def
        white_rgb_def opaque_def)
  show ?thesis
  proof (rule exI [of _ ?S4], rule exI [of _ ?req], intro conjI)
    show "run_opt (custom_step dot_raster)
       [CanvasInput unit_rect (MouseDown 0 0), CanvasInput unit_rect (MouseMove 1 1),
        CheckClick, CheckAnswer success_answer, NextSyllable, CheckClick] ?M = Some ?S4"
      using run by simp
    show "request ?S4 = Some ?req" by simp
    show "req_index ?req = 1" using e1 by simp
    show "isCompleted (req_canvases ?req ! 0)" using e1 e2 by simp
    show "canvasImage (req_canvases ?req ! 0) = Some (req_image ?req)" using e0 e1 e2 by simp
    show "\<not> white_rgb (req_image ?req ! 1 ! 1)" using e0 ink by simp
  qed
qed

end
