(* ===== verification/ScoreViews.thy ===== *)
theory ScoreViews
  imports Challenge CustomName
begin

text \<open>
  What the challenge and custom-name pages show and share once a score exists
  (\<open>src/src/app/tryon/challenge/page.tsx\<close> and
  \<open>src/src/app/tryon/custom-name/page.tsx\<close>):
  \<^item> the challenge timer (\<open>formatTime\<close>) and the score image of
    \<open>generateScoreImage\<close>, shared by \<open>shareScore\<close>;
  \<^item> the custom-name page's step-2 canvas block, its result modal, and its
    score image (\<open>generateScoreImage\<close>, shared by \<open>shareResult\<close>).

  A score image is the list of the 2D-context calls the function makes
  (\<open>draw_cmd\<close>), in order, with the canvas size.  The browser's answers are
  parameters:
  \<^item> whether \<open>getContext('2d')\<close> gives a context;
  \<^item> which user drawings load as images (a failed load is caught and skipped);
  \<^item> whether \<open>navigator.share\<close> can share files;
  \<^item> whether sharing succeeds.
  Array reads use \<open>js_at\<close>, so a read out of range is \<open>undefined\<close>.  A view
  whose code would dereference \<open>undefined\<close> is a \<open>TypeError\<close>.
\<close>

subsection \<open>Drawing commands and sharing\<close>

datatype draw_cmd =
    SetFillGradient string string real real
  | SetFillStyle string
  | SetFont string
  | SetTextAlign string
  | FillRect real real real real
  | FillText string real real
  | DrawImage image real real real real

record score_image =
  si_width :: nat
  si_height :: nat
  si_cmds :: "draw_cmd list"

text \<open>The outcome of a share button: nothing (no image), the native share sheet
  (title, text, file name), a rejected share (caught and logged), or the
  download fallback (file name).\<close>

datatype share_outcome =
    NotShared
  | SharedFiles string string string
  | ShareRejected
  | Downloaded string

text \<open>\<open>xs.join(sep)\<close>.\<close>

fun js_join :: "string \<Rightarrow> string list \<Rightarrow> string" where
  "js_join sep [] = []"
| "js_join sep [x] = x"
| "js_join sep (x # y # zs) = x @ sep @ js_join sep (y # zs)"

text \<open>A rounded number that may be \<open>undefined\<close>, in a template literal.\<close>

definition js_opt_num_str :: "jsnum option \<Rightarrow> string" where
  "js_opt_num_str v = (case v of None \<Rightarrow> ''undefined'' | Some x \<Rightarrow> js_int_num_str x)"

definition js_opt_str :: "string option \<Rightarrow> string" where
  "js_opt_str v = (case v of None \<Rightarrow> ''undefined'' | Some s \<Rightarrow> s)"

text \<open>The share button's common tail (lines 242--267 of the challenge page,
  572--594 of the custom-name page): the \<open>navigator.share\<close> path when files can
  be shared, otherwise a download link.\<close>

definition share_image :: "score_image option \<Rightarrow> bool \<Rightarrow> bool \<Rightarrow> string \<Rightarrow> string \<Rightarrow> string \<Rightarrow> string \<Rightarrow>
   share_outcome" where
  "share_image img can_share share_ok title text file download =
     (case img of
        None \<Rightarrow> NotShared
      | Some _ \<Rightarrow> if can_share then (if share_ok then SharedFiles title text file else ShareRejected)
                 else Downloaded download)"

subsection \<open>The challenge page\<close>

text \<open>\<open>formatTime\<close> (lines 269--273): \<open>Math.floor(seconds / 60)\<close>, the remainder
  \<open>%\<close>, and \<open>padStart(2, '0')\<close>.\<close>

definition formatTime :: "int \<Rightarrow> string" where
  "formatTime seconds =
     js_int_str (seconds div 60) @ '':'' @ padStart 2 CHR ''0'' (js_int_str (js_rem seconds 60))"

text \<open>The header of a running game (lines 440--461): the clock and the score.\<close>

definition challenge_header :: "challenge_state \<Rightarrow> (string \<times> string) option" where
  "challenge_header st =
     (if gameStarted st \<and> \<not> gameEnded st then
        Some (formatTime (timeLeft st), js_nat_str (correct (stats st)) @ ''/'' @ js_nat_str (total (stats st)))
      else None)"

text \<open>The end-of-game modal (lines 325--345): message, score and percentage.\<close>

definition end_modal :: "challenge_state \<Rightarrow> (string \<times> string \<times> string) option" where
  "end_modal st =
     (if gameEnded st then
        Some (getScoreMessage (stats st), js_nat_str (correct (stats st)) @ ''/'' @ js_nat_str (total (stats st)),
              js_int_str (score_percentage (stats st)) @ ''% Benar'')
      else None)"

text \<open>\<open>generateScoreImage\<close> (lines 200--240).\<close>

definition challenge_score_image :: "bool \<Rightarrow> quiz_stats \<Rightarrow> int \<Rightarrow> score_image option" where
  "challenge_score_image ctx_ok s secondsLeft =
     (if \<not> ctx_ok then None
      else Some \<lparr>si_width = 800, si_height = 600, si_cmds =
        [SetFillGradient ''#667eea'' ''#764ba2'' 800 600, FillRect 0 0 800 600,
         SetFillStyle ''#ffffff'', SetFont ''bold 48px Arial'', SetTextAlign ''center'',
         FillText ''Skor Aksara Batak Challenge'' 400 100,
         SetFont ''bold 72px Arial'', FillText (js_nat_str (correct s) @ ''/'' @ js_nat_str (total s)) 400 200,
         SetFont ''bold 36px Arial'', FillText (js_int_str (score_percentage s) @ ''% Benar'') 400 280,
         SetFont ''24px Arial'', FillText (''Waktu: '' @ js_int_str (60 - secondsLeft) @ '' detik'') 400 350,
         SetFont ''20px Arial'', FillText ''learn-aksara-batak.vercel.app'' 400 550]\<rparr>)"

definition shareScore :: "bool \<Rightarrow> bool \<Rightarrow> bool \<Rightarrow> challenge_state \<Rightarrow> share_outcome" where
  "shareScore ctx_ok can_share share_ok st =
     share_image (challenge_score_image ctx_ok (stats st) (timeLeft st)) can_share share_ok
       ''Skor Aksara Batak Challenge''
       (''Aku berhasil menjawab '' @ js_nat_str (correct (stats st)) @ '' dari '' @ js_nat_str (total (stats st))
          @ '' soal dengan benar!'')
       ''aksara-score.jpg'' ''aksara-batak-score.jpg''"

subsection \<open>The custom-name page\<close>

text \<open>A view that renders, is not rendered, or throws.\<close>

datatype 'a render = Rendered 'a | NotRendered | RenderTypeError

datatype dot = DotDone | DotCurrent | DotTodo

text \<open>The progress dots (lines 828--839).\<close>

definition progress_dots :: "nat \<Rightarrow> nat \<Rightarrow> dot list" where
  "progress_dots n cur = map (\<lambda>i. if i < cur then DotDone else if i = cur then DotCurrent else DotTodo) [0..<n]"

record step2_view =
  sv_syllable :: string
  sv_glyph :: "string option"
  sv_aksara :: string
  sv_completed :: bool
  sv_check_label :: "string option"
  sv_score :: "string option"
  sv_next :: bool
  sv_dots :: "dot list"
  sv_progress :: string

text \<open>The canvas block of step 2 (lines 828--930): rendered when there are
  canvases; it reads \<open>syllableCanvases[currentCanvasIndex]\<close> and then its
  \<open>aksara\<close>, which throws when the read is \<open>undefined\<close>.\<close>

definition step2_block :: "custom_state \<Rightarrow> step2_view render" where
  "step2_block st =
     (if syllableCanvases st = [] then NotRendered
      else case js_at (syllableCanvases st) (currentCanvasIndex st) of
        None \<Rightarrow> RenderTypeError
      | Some sc \<Rightarrow> Rendered
          \<lparr>sv_syllable = syllable sc,
           sv_glyph = map_option svgPath (find (\<lambda>c. latin c = aksara sc) characters),
           sv_aksara = aksara sc, sv_completed = isCompleted sc,
           sv_check_label = (if isCompleted sc then None
                             else Some (if isChecking st then ''Memeriksa...'' else ''Periksa'')),
           sv_score = (if isCompleted sc then Some (js_opt_num_str (score sc) @ ''%'') else None),
           sv_next = (isCompleted sc \<and> int (currentCanvasIndex st) < int (length (syllableCanvases st)) - 1),
           sv_dots = progress_dots (length (syllableCanvases st)) (currentCanvasIndex st),
           sv_progress = js_nat_str (currentCanvasIndex st + 1) @ '' dari ''
             @ js_nat_str (length (syllableCanvases st)) @ '' suku kata''\<rparr>)"

text \<open>\<open>getScoreMessage\<close> of the custom-name page (lines 616--621).\<close>

definition name_score_message :: "jsnum \<Rightarrow> string" where
  "name_score_message s =
     (if js_ge s 90 then ''Luar biasa! Tulisan sempurna!''
      else if js_ge s 70 then ''Bagus sekali! Terus berlatih!''
      else if js_ge s 50 then ''Tidak buruk! Masih bisa ditingkatkan!''
      else ''Jangan menyerah! Terus berlatih ya!'')"

record result_entry =
  re_syllable :: string
  re_image :: "image option"
  re_score :: string

text \<open>The entries of the result modal (lines 648--662): each syllable with the
  image and the score at its index.\<close>

definition result_entries :: "final_result \<Rightarrow> result_entry list" where
  "result_entries fr =
     map (\<lambda>(i, s). \<lparr>re_syllable = s,
                     re_image = (case js_at (canvasImages fr) i of Some (Some img) \<Rightarrow> Some img | _ \<Rightarrow> None),
                     re_score = js_opt_num_str (js_at (scores fr) i) @ ''%''\<rparr>)
       (enumerate 0 (fr_syllables fr))"

text \<open>The modal's header (lines 635--646).\<close>

definition result_header :: "final_result \<Rightarrow> string \<times> string \<times> string \<times> string" where
  "result_header fr =
     (name_score_message (averageScore fr), fr_name fr, js_int_num_str (averageScore fr) @ ''%'',
      ''Skor rata-rata dari '' @ js_nat_str (length (fr_syllables fr)) @ '' suku kata'')"

text \<open>One turn of the image loop of \<open>generateScoreImage\<close> (lines 529--561): for a
  drawing that loads, a white frame, the drawing, its syllable and its score.\<close>

definition name_image_slot :: "final_result \<Rightarrow> real \<Rightarrow> image \<Rightarrow> nat \<Rightarrow> draw_cmd list" where
  "name_image_slot fr startX img i =
     (let imageSize = 80; imageY = 280; x = startX + real i * (imageSize + 20)
      in [SetFillStyle ''#ffffff'', FillRect (x - 5) (imageY - 5) (imageSize + 10) (imageSize + 10),
          DrawImage img x imageY imageSize imageSize,
          SetFillStyle ''#ffffff'', SetFont ''16px Arial'', SetTextAlign ''center'',
          FillText (js_opt_str (js_at (fr_syllables fr) i)) (x + imageSize / 2) (imageY + imageSize + 20),
          SetFont ''14px Arial'',
          FillText (js_opt_num_str (js_at (scores fr) i) @ ''%'') (x + imageSize / 2) (imageY + imageSize + 40)])"

text \<open>The image loop of \<open>generateScoreImage\<close> (lines 524--561): the drawings
  are centred in a row; \<open>loads i\<close> says whether the \<open>i\<close>-th one loads as an
  image.\<close>

definition name_image_loop :: "final_result \<Rightarrow> (nat \<Rightarrow> bool) \<Rightarrow> draw_cmd list" where
  "name_image_loop fr loads =
     (let n = length (canvasImages fr); startX = (800 - (real n * (80 + 20) - 20)) / 2
      in concat (map (\<lambda>i. case canvasImages fr ! i of
                             None \<Rightarrow> []
                           | Some img \<Rightarrow> if loads i then name_image_slot fr startX img i else [])
                  [0..<n]))"

text \<open>\<open>generateScoreImage\<close> (lines 488--565).\<close>

definition name_score_image :: "bool \<Rightarrow> (nat \<Rightarrow> bool) \<Rightarrow> final_result option \<Rightarrow> score_image option" where
  "name_score_image ctx_ok loads fro =
     (case fro of
        None \<Rightarrow> None
      | Some fr \<Rightarrow>
          if \<not> ctx_ok then None
          else Some \<lparr>si_width = 800, si_height = 700, si_cmds =
                 [SetFillGradient ''#667eea'' ''#764ba2'' 800 700, FillRect 0 0 800 700,
                  SetFillStyle ''#ffffff'', SetFont ''bold 32px Arial'', SetTextAlign ''center'',
                  FillText ''Namaku dalam Aksara Batak'' 400 60,
                  SetFont ''bold 48px Arial'', FillText (fr_name fr) 400 120,
                  SetFont ''bold 64px Arial'', FillText (js_int_num_str (averageScore fr) @ ''%'') 400 200,
                  SetFont ''20px Arial'',
                  FillText (''Skor per suku kata: '' @ js_join ''%, '' (map js_int_num_str (scores fr)) @ ''%'') 400 240]
                 @ name_image_loop fr loads
                 @ [SetFillStyle ''#ffffff'', SetFont ''18px Arial'', SetTextAlign ''center'',
                    FillText ''learn-aksara-batak.vercel.app'' 400 650]\<rparr>)"

definition shareResult :: "bool \<Rightarrow> (nat \<Rightarrow> bool) \<Rightarrow> bool \<Rightarrow> bool \<Rightarrow> custom_state \<Rightarrow> share_outcome" where
  "shareResult ctx_ok loads can_share share_ok st =
     share_image (name_score_image ctx_ok loads (finalResult st)) can_share share_ok
       ''Namaku dalam Aksara Batak''
       (case finalResult st of
          None \<Rightarrow> []
        | Some fr \<Rightarrow> ''Namaku \"'' @ fr_name fr @ ''\" dalam Aksara Batak dengan skor ''
                      @ js_int_num_str (averageScore fr) @ ''%!'')
       ''aksara-name.jpg'' ''aksara-batak-name.jpg''"

text \<open>A command that paints inside a \<open>w\<close> by \<open>h\<close> canvas: a rectangle or an
  image lies inside it; a text is anchored inside it (its width depends on the
  font, which is not modelled).\<close>

fun cmd_in_canvas :: "real \<Rightarrow> real \<Rightarrow> draw_cmd \<Rightarrow> bool" where
  "cmd_in_canvas w h (FillRect x y rw rh) \<longleftrightarrow> 0 \<le> x \<and> 0 \<le> y \<and> x + rw \<le> w \<and> y + rh \<le> h"
| "cmd_in_canvas w h (DrawImage img x y iw ih) \<longleftrightarrow> 0 \<le> x \<and> 0 \<le> y \<and> x + iw \<le> w \<and> y + ih \<le> h"
| "cmd_in_canvas w h (FillText t x y) \<longleftrightarrow> 0 \<le> x \<and> x \<le> w \<and> 0 \<le> y \<and> y \<le> h"
| "cmd_in_canvas w h _ \<longleftrightarrow> True"

text \<open>The horizontal extent of every image a command list draws, in order.\<close>

fun image_span :: "draw_cmd \<Rightarrow> (real \<times> real) option" where
  "image_span (DrawImage img x y w h) = Some (x, x + w)"
| "image_span _ = None"

fun drawn_spans :: "draw_cmd list \<Rightarrow> (real \<times> real) list" where
  "drawn_spans [] = []"
| "drawn_spans (c # cs) = (case image_span c of Some sp \<Rightarrow> sp # drawn_spans cs | None \<Rightarrow> drawn_spans cs)"

text \<open>The reader of a clock \<open>m:ss\<close>, the specification \<open>formatTime\<close> is checked
  against.\<close>

definition parse_time :: "string \<Rightarrow> int option" where
  "parse_time t =
     (case dropWhile (\<lambda>c. c \<noteq> CHR '':'') t of
        [] \<Rightarrow> None
      | _ # ss \<Rightarrow>
          (case (read_nat (takeWhile (\<lambda>c. c \<noteq> CHR '':'') t), read_nat ss) of
             (Some m, Some s) \<Rightarrow> if length ss = 2 \<and> s < 60 then Some (int (m * 60 + s)) else None
           | _ \<Rightarrow> None))"

subsection \<open>Lemmas\<close>

lemma js_int_str_nonneg [simp]: "0 \<le> i \<Longrightarrow> js_int_str i = js_nat_str (nat i)"
  by (simp add: js_int_str_def)

lemma js_rem_nonneg: "0 \<le> a \<Longrightarrow> 0 < b \<Longrightarrow> js_rem a b = a mod b"
  by (cases "a = 0") (simp_all add: js_rem_def)

lemma no_colon_js_nat_str: "CHR '':'' \<notin> set (js_nat_str n)"
  using js_nat_str_digits [of "CHR '':''" n] by (auto simp: digit_val_def)

lemma digit_val_zero: "digit_val CHR ''0'' = Some 0"
  by (simp add: digit_val_def)

lemma pad2_js_nat_str:
  assumes "k < 100"
  shows "length (padStart 2 CHR ''0'' (js_nat_str k)) = 2 \<and> read_nat (padStart 2 CHR ''0'' (js_nat_str k)) = Some k"
proof (cases "k < 10")
  case True
  then show ?thesis
    by (simp add: padStart_def length_js_nat_str_lt10 read_nat_def digit_val_zero)
next
  case False
  then have "padStart 2 CHR ''0'' (js_nat_str k) = js_nat_str k"
    using assms by (simp add: padStart_def length_js_nat_str_lt100)
  moreover have "length (js_nat_str k) = 2" using assms False by (simp add: length_js_nat_str_lt100)
  ultimately show ?thesis by simp
qed

lemma final_result_of_lengths [simp]:
  "length (fr_syllables (final_result_of v cs)) = length cs"
  "length (scores (final_result_of v cs)) = length cs"
  "length (canvasImages (final_result_of v cs)) = length cs"
  by (simp_all add: final_result_of_def Let_def)

lemma js_at_Some [simp]: "i < length xs \<Longrightarrow> js_at xs i = Some (xs ! i)"
  by (simp add: js_at_def)

lemma final_result_step3:
  assumes "custom_reachable raster st" "finalResult st = Some fr"
  shows "currentStep st = 3 \<and> fr = final_result_of (inputValue st) (syllableCanvases st)
    \<and> length (syllableCanvases st) \<le> 5"
proof -
  have f: "flow_ok st" using custom_reachable_inv [OF assms(1)] by simp
  then have s3: "currentStep st = 3" using assms(2) by (auto simp: flow_ok_def)
  then have "isNameValid (inputValue st)" "map syllable (syllableCanvases st) = convertToSyllables (inputValue st)"
    using f by (simp_all add: flow_ok_def)
  then have "length (syllableCanvases st) \<le> 5"
    by (metis isNameValid_syllables_le length_map)
  then show ?thesis using s3 f assms(2) by (simp add: flow_ok_def)
qed

lemma name_image_slot_in_canvas:
  assumes "n \<le> 8" "i < n"
  shows "list_all (cmd_in_canvas 800 700) (name_image_slot fr ((800 - (real n * (80 + 20) - 20)) / 2) img i)"
proof -
  have a: "real i + 1 \<le> real n" "real n \<le> 8" using assms by simp_all
  then show ?thesis by (simp add: name_image_slot_def Let_def field_simps)
qed

lemma name_image_loop_in_canvas:
  assumes "length (canvasImages fr) \<le> 8"
  shows "list_all (cmd_in_canvas 800 700) (name_image_loop fr loads)"
  using name_image_slot_in_canvas [OF assms]
  by (auto simp: name_image_loop_def Let_def list_all_iff split: option.splits if_splits)

lemma name_score_image_in_canvas:
  assumes "length (canvasImages fr) \<le> 8" "name_score_image ctx_ok loads (Some fr) = Some img"
  shows "si_width img = 800 \<and> si_height img = 700 \<and> list_all (cmd_in_canvas 800 700) (si_cmds img)"
  using assms(2) name_image_loop_in_canvas [OF assms(1), of loads]
  by (auto simp: name_score_image_def split: if_splits)

lemma drawn_spans_append [simp]: "drawn_spans (xs @ ys) = drawn_spans xs @ drawn_spans ys"
  by (induction xs) (simp_all split: option.split)

lemma drawn_spans_concat: "drawn_spans (concat xss) = concat (map drawn_spans xss)"
  by (induction xss) simp_all

lemma drawn_spans_slot:
  "drawn_spans (name_image_slot fr sx img i) = [(sx + real i * 100, sx + real i * 100 + 80)]"
  by (simp add: name_image_slot_def Let_def)

lemma drawn_spans_loop:
  "\<exists>sx. drawn_spans (name_image_loop fr loads) =
     concat (map (\<lambda>i. if canvasImages fr ! i \<noteq> None \<and> loads i
                        then [(sx + real i * 100, sx + real i * 100 + 80)] else [])
       [0..<length (canvasImages fr)])"
proof -
  let ?sx = "(800 - (real (length (canvasImages fr)) * (80 + 20) - 20)) / 2"
  have "drawn_spans (name_image_loop fr loads) =
     concat (map (\<lambda>i. if canvasImages fr ! i \<noteq> None \<and> loads i
                        then [(?sx + real i * 100, ?sx + real i * 100 + 80)] else [])
       [0..<length (canvasImages fr)])"
    unfolding name_image_loop_def Let_def drawn_spans_concat map_map comp_def
    by (intro arg_cong [where f = concat] map_cong refl)
      (auto simp: drawn_spans_slot split: option.split)
  then show ?thesis by blast
qed

lemma spans_apart:
  "sorted_wrt (\<lambda>a b. snd a + 20 \<le> fst b)
     (concat (map (\<lambda>i. if P i then [(sx + real i * 100, sx + real i * 100 + 80)] else []) [0..<n]))"
proof (induction n)
  case (Suc n)
  have "\<forall>a \<in> set (concat (map (\<lambda>i. if P i then [(sx + real i * 100, sx + real i * 100 + 80)] else [])
      [0..<n])). snd a + 20 \<le> sx + real n * 100"
    by (auto split: if_splits simp: algebra_simps)
  then show ?case using Suc by (auto simp: sorted_wrt_append)
qed simp

lemma name_score_image_spans:
  assumes "name_score_image ctx_ok loads (Some fr) = Some img"
  shows "sorted_wrt (\<lambda>a b. snd a + 20 \<le> fst b) (drawn_spans (si_cmds img))"
proof -
  obtain sx where "drawn_spans (name_image_loop fr loads) =
     concat (map (\<lambda>i. if canvasImages fr ! i \<noteq> None \<and> loads i
                        then [(sx + real i * 100, sx + real i * 100 + 80)] else [])
       [0..<length (canvasImages fr)])"
    using drawn_spans_loop by blast
  then show ?thesis using assms spans_apart
    by (auto simp: name_score_image_def split: if_splits)
qed

subsection \<open>Properties of the views\<close>

text \<open>The views of the custom-name page read only what exists: in every
  reachable state the step-2 canvas block renders (its read of
  \<open>syllableCanvases[currentCanvasIndex]\<close> is defined, so the read of
  \<open>.aksara\<close> cannot throw), and the result modal and the score image read the
  scores, images and syllables only at indices where they exist, so no
  \<open>undefined\<close> is shown.\<close>

theorem custom_views_defined:
  assumes "custom_reachable raster st"
  shows "(currentStep st = 2 \<longrightarrow> (\<exists>v. step2_block st = Rendered v))
    \<and> (\<forall>fr. finalResult st = Some fr \<longrightarrow>
          (\<forall>i < length (fr_syllables fr). js_at (scores fr) i \<noteq> None \<and> js_at (canvasImages fr) i \<noteq> None)
        \<and> (\<forall>i < length (canvasImages fr). js_at (fr_syllables fr) i \<noteq> None \<and> js_at (scores fr) i \<noteq> None))"
proof -
  have f: "flow_ok st" using custom_reachable_inv [OF assms] by simp
  have "currentStep st = 2 \<Longrightarrow> \<exists>v. step2_block st = Rendered v"
  proof -
    assume "currentStep st = 2"
    then have "currentCanvasIndex st < length (syllableCanvases st)" using f by (simp add: flow_ok_def)
    then show ?thesis by (auto simp: step2_block_def)
  qed
  moreover have "finalResult st = Some fr \<Longrightarrow>
      (\<forall>i < length (fr_syllables fr). js_at (scores fr) i \<noteq> None \<and> js_at (canvasImages fr) i \<noteq> None)
    \<and> (\<forall>i < length (canvasImages fr). js_at (fr_syllables fr) i \<noteq> None \<and> js_at (scores fr) i \<noteq> None)" for fr
    using final_result_step3 [OF assms] by auto
  ultimately show ?thesis by blast
qed

theorem custom_views_defined_witness:
  "custom_reachable no_raster one_syllable_done
   \<and> (\<exists>fr. finalResult one_syllable_done = Some fr
        \<and> (\<forall>i < length (fr_syllables fr). js_at (scores fr) i \<noteq> None))"
proof -
  have r: "custom_reachable no_raster one_syllable_done" "currentStep one_syllable_done = 3"
    using one_syllable_reachable by blast+
  then obtain fr where fr: "finalResult one_syllable_done = Some fr"
    using custom_reachable_inv [OF r(1)] by (auto simp: flow_ok_def)
  show ?thesis using custom_views_defined [OF r(1)] r(1) fr by blast
qed

text \<open>C39. The score image of the custom-name page, for every final result the
  page can reach, is 800 by 700; every frame and drawing lies inside it and every
  label is anchored inside it; the drawings run left to right at least 20 pixels
  apart, so no two overlap.  The row is centred and the checklist allows at most
  five syllables (the layout holds up to eight).  The width of the texts depends
  on the font and is not modelled: a long name drawn at 48 px may overflow.\<close>

theorem name_image_in_canvas:
  assumes "custom_reachable raster st" "finalResult st = Some fr"
    and "name_score_image ctx_ok loads (Some fr) = Some img"
  shows "si_width img = 800 \<and> si_height img = 700 \<and> list_all (cmd_in_canvas 800 700) (si_cmds img)
    \<and> sorted_wrt (\<lambda>a b. snd a + 20 \<le> fst b) (drawn_spans (si_cmds img))"
  using final_result_step3 [OF assms(1,2)] name_score_image_in_canvas [OF _ assms(3)]
    name_score_image_spans [OF assms(3)] by simp

theorem name_image_in_canvas_witness:
  "\<exists>fr img. custom_reachable no_raster one_syllable_done \<and> finalResult one_syllable_done = Some fr
     \<and> name_score_image True (\<lambda>_. True) (Some fr) = Some img
     \<and> list_all (cmd_in_canvas 800 700) (si_cmds img)
     \<and> sorted_wrt (\<lambda>a b. snd a + 20 \<le> fst b) (drawn_spans (si_cmds img))"
proof -
  have r: "custom_reachable no_raster one_syllable_done" "currentStep one_syllable_done = 3"
    using one_syllable_reachable by blast+
  then obtain fr where fr: "finalResult one_syllable_done = Some fr"
    using custom_reachable_inv [OF r(1)] by (auto simp: flow_ok_def)
  obtain img where i: "name_score_image True (\<lambda>_. True) (Some fr) = Some img"
    by (simp add: name_score_image_def)
  show ?thesis using name_image_in_canvas [OF r(1) fr i] r(1) fr i by blast
qed

text \<open>C40. The challenge clock can be read back: for every non-negative number of
  seconds, \<open>formatTime\<close> prints minutes, a colon and two digits of seconds
  from which the number is recovered.\<close>

theorem format_time_roundtrip:
  "0 \<le> seconds \<Longrightarrow> parse_time (formatTime seconds) = Some seconds"
proof -
  assume s: "0 \<le> seconds"
  let ?m = "nat (seconds div 60)" and ?k = "nat (seconds mod 60)"
  have k: "?k < 100" and k60: "?k < 60" by simp_all
  have t: "formatTime seconds = js_nat_str ?m @ CHR '':'' # padStart 2 CHR ''0'' (js_nat_str ?k)"
    using s by (simp add: formatTime_def js_rem_nonneg)
  have all: "\<And>x. x \<in> set (js_nat_str ?m) \<Longrightarrow> x \<noteq> CHR '':''"
    using no_colon_js_nat_str [of ?m] by blast
  have tw: "takeWhile (\<lambda>c. c \<noteq> CHR '':'') (formatTime seconds) = js_nat_str ?m"
    unfolding t by (subst takeWhile_append2) (use all in auto)
  have dw: "dropWhile (\<lambda>c. c \<noteq> CHR '':'') (formatTime seconds) = CHR '':'' # padStart 2 CHR ''0'' (js_nat_str ?k)"
    unfolding t by (subst dropWhile_append2) (use all in auto)
  have "0 \<le> seconds div 60" using s by simp
  then have "int (?m * 60 + ?k) = seconds" using s by simp
  then show ?thesis using pad2_js_nat_str [OF k] tw dw k60 by (simp add: parse_time_def)
qed

theorem format_time_roundtrip_witness:
  "0 \<le> (65::int) \<and> parse_time (formatTime 65) = Some 65"
  using format_time_roundtrip [of 65] by simp

end
