(* ===== verification/Practice.thy ===== *)
theory Practice
  imports Canvas Classify Aksara
begin

text \<open>
  The practice page (\<open>src/src/app/tryon/practice/page.tsx\<close>, \<open>TryOn\<close>): a
  carousel of the 19 base characters, navigated by buttons, swipes, arrow keys
  and a card grid, with one always-mounted drawing canvas (320 by 320, no
  placeholder) and a check that posts the drawing to the classifier.  The
  state hooks are the fields of \<open>practice_state\<close>; the scroll position of the
  card container and the request in flight (with the character its
  \<open>checkDrawing\<close> closure captured) are fields too.  A touch coordinate is a
  JavaScript number that may be absent (\<open>null\<close>), so an \<open>real option\<close>; the
  source tests it for truthiness, which a coordinate 0 fails.
\<close>

subsection \<open>State\<close>

record practice_state =
  currentIndex :: nat
  isChecking :: bool
  showResult :: bool
  predictionResult :: "prediction_result option"
  touchStart :: "real option"
  touchEnd :: "real option"
  isGridDragging :: bool
  gridDragStart :: "(real \<times> real) option"
  gridScrollStart :: real
  scrollTop :: real
  scroll_limit :: real
  pr_request :: "character option"
  pr_canvas :: canvas_state

text \<open>The canvas props of lines 597--604.\<close>

definition practice_canvas_props :: canvas_props where
  "practice_canvas_props = default_props\<lparr>cp_width := 320, cp_height := 320\<rparr>"

text \<open>The first render; the card container can scroll up to \<open>limit\<close> pixels
  (its \<open>scrollHeight - clientHeight\<close>, a property of the layout).\<close>

definition practice_init :: "real \<Rightarrow> practice_state" where
  "practice_init limit = \<lparr>currentIndex = 0, isChecking = False, showResult = False,
     predictionResult = None, touchStart = None, touchEnd = None, isGridDragging = False,
     gridDragStart = None, gridScrollStart = 0, scrollTop = 0, scroll_limit = max 0 limit,
     pr_request = None, pr_canvas = mount_canvas practice_canvas_props\<rparr>"

definition current_character :: "practice_state \<Rightarrow> character" where
  "current_character st = characters_base ! currentIndex st"

subsection \<open>Navigation\<close>

text \<open>\<open>scrollTop\<close> assignment: the browser keeps it within \<open>[0, limit]\<close>.\<close>

definition set_scroll :: "real \<Rightarrow> practice_state \<Rightarrow> practice_state" where
  "set_scroll v st = st\<lparr>scrollTop := max 0 (min (scroll_limit st) v)\<rparr>"

text \<open>The effect on \<open>currentIndex\<close> (lines 66--84): centre the current card.\<close>

definition scrollToCurrentCharacter :: "practice_state \<Rightarrow> practice_state" where
  "scrollToCurrentCharacter st =
     (let cardHeight = 200; scrollTopValue = real (currentIndex st) * cardHeight - 200
      in set_scroll (max 0 scrollTopValue) st)"

definition clear_practice_canvas :: "practice_state \<Rightarrow> practice_state" where
  "clear_practice_canvas st = st\<lparr>pr_canvas := clear practice_canvas_props (pr_canvas st)\<rparr>"

text \<open>Lines 86--101, with the index arithmetic of JavaScript numbers.\<close>

definition nextCharacter :: "practice_state \<Rightarrow> practice_state" where
  "nextCharacter st = clear_practice_canvas
     (st\<lparr>currentIndex := (currentIndex st + 1) mod length characters_base\<rparr>)"

definition prevCharacter :: "practice_state \<Rightarrow> practice_state" where
  "prevCharacter st = clear_practice_canvas
     (st\<lparr>currentIndex := nat ((int (currentIndex st) - 1 + int (length characters_base))
                                mod int (length characters_base))\<rparr>)"

definition selectCharacter :: "nat \<Rightarrow> practice_state \<Rightarrow> practice_state" where
  "selectCharacter index st = clear_practice_canvas (st\<lparr>currentIndex := index\<rparr>)"

text \<open>Swipes (lines 103--141).  \<open>!touchStart\<close> holds for \<open>null\<close> and for 0.\<close>

definition minSwipeDistance :: real where
  "minSwipeDistance = 50"

definition js_truthy :: "real option \<Rightarrow> bool" where
  "js_truthy v = (case v of None \<Rightarrow> False | Some x \<Rightarrow> x \<noteq> 0)"

definition onTouchStart :: "real \<Rightarrow> practice_state \<Rightarrow> practice_state" where
  "onTouchStart x st = st\<lparr>touchEnd := None, touchStart := Some x\<rparr>"

definition onTouchMove :: "real \<Rightarrow> practice_state \<Rightarrow> practice_state" where
  "onTouchMove x st = st\<lparr>touchEnd := Some x\<rparr>"

definition onTouchEnd :: "practice_state \<Rightarrow> practice_state" where
  "onTouchEnd st =
     (case (touchStart st, touchEnd st) of
        (Some s, Some e) \<Rightarrow>
          if \<not> js_truthy (Some s) \<or> \<not> js_truthy (Some e) then st
          else let distance = s - e
               in if distance > minSwipeDistance then nextCharacter st
                  else if distance < - minSwipeDistance then prevCharacter st
                  else st
      | _ \<Rightarrow> st)"

datatype key = ArrowLeft | ArrowRight | OtherKey

definition handleKeyDown :: "key \<Rightarrow> practice_state \<Rightarrow> practice_state" where
  "handleKeyDown k st =
     (case k of ArrowLeft \<Rightarrow> prevCharacter st | ArrowRight \<Rightarrow> nextCharacter st | OtherKey \<Rightarrow> st)"

text \<open>Dragging the card grid (lines 154--227); the document listeners of the
  effect call the same code as the container's own handlers.\<close>

definition handleGridMouseDown :: "real \<Rightarrow> real \<Rightarrow> practice_state \<Rightarrow> practice_state" where
  "handleGridMouseDown x y st =
     st\<lparr>isGridDragging := True, gridDragStart := Some (x, y), gridScrollStart := scrollTop st\<rparr>"

definition handleGridMove :: "real \<Rightarrow> practice_state \<Rightarrow> practice_state" where
  "handleGridMove y st =
     (case gridDragStart st of
        None \<Rightarrow> st
      | Some (sx, sy) \<Rightarrow> set_scroll (max 0 (gridScrollStart st - (y - sy))) st)"

definition handleGridMouseMove :: "real \<Rightarrow> practice_state \<Rightarrow> practice_state" where
  "handleGridMouseMove y st = (if \<not> isGridDragging st then st else handleGridMove y st)"

definition handleGridMouseUp :: "practice_state \<Rightarrow> practice_state" where
  "handleGridMouseUp st = st\<lparr>isGridDragging := False, gridDragStart := None, gridScrollStart := 0\<rparr>"

definition handleGridTouchStart :: "real \<Rightarrow> real \<Rightarrow> practice_state \<Rightarrow> practice_state" where
  "handleGridTouchStart x y st = st\<lparr>gridDragStart := Some (x, y), gridScrollStart := scrollTop st\<rparr>"

definition handleGridTouchEnd :: "practice_state \<Rightarrow> practice_state" where
  "handleGridTouchEnd st = st\<lparr>gridDragStart := None, gridScrollStart := 0\<rparr>"

subsection \<open>Checking\<close>

text \<open>The synchronous part of \<open>checkDrawing\<close> (lines 229--254).\<close>

definition practice_checkDrawing :: "practice_state \<Rightarrow> practice_state" where
  "practice_checkDrawing st =
     (case getImageData (pr_canvas st) of
        None \<Rightarrow> st\<lparr>isChecking := False\<rparr>
      | Some img \<Rightarrow> st\<lparr>isChecking := True, pr_request := Some (current_character st)\<rparr>)"

text \<open>The answer (lines 256--293), for the character the closure captured.\<close>

definition practice_response :: "character \<Rightarrow> classifier_response \<Rightarrow> practice_state \<Rightarrow> practice_state" where
  "practice_response ch resp st =
     st\<lparr>predictionResult := Some (check_result (latin ch) resp), showResult := True,
        isChecking := False, pr_request := None\<rparr>"

definition closeResult :: "practice_state \<Rightarrow> practice_state" where
  "closeResult st = st\<lparr>showResult := False, predictionResult := None\<rparr>"

text \<open>The "try again / continue" button of the result modal (lines 367--375).\<close>

definition retryOrNext :: "prediction_result \<Rightarrow> practice_state \<Rightarrow> practice_state" where
  "retryOrNext r st =
     (let st1 = closeResult st in if isCorrect r then nextCharacter st1 else clear_practice_canvas st1)"

subsection \<open>Events\<close>

datatype practice_event =
    NextButton | PrevButton | SelectCard nat
  | SwipeStart real | SwipeMove real | SwipeEnd
  | KeyDown key
  | GridMouseDown real real | GridMouseMove real | GridMouseUp
  | GridTouchStart real real | GridTouchMove real | GridTouchEnd
  | PracticeCheck | PracticeAnswer classifier_response
  | CloseResult | RetryOrNext
  | PracticeCanvas client_rect canvas_event

definition result_open :: "practice_state \<Rightarrow> bool" where
  "result_open st \<longleftrightarrow> showResult st \<and> predictionResult st \<noteq> None"

text \<open>The page's step: a pointer event needs its element not covered by the
  result modal (line 305); a key press goes to the focused slider whatever is
  shown; a change of \<open>currentIndex\<close> runs the scrolling effect.\<close>

definition after_render :: "practice_state \<Rightarrow> practice_state \<Rightarrow> practice_state" where
  "after_render st st' = (if currentIndex st' \<noteq> currentIndex st then scrollToCurrentCharacter st' else st')"

fun practice_handler ::
  "(real \<Rightarrow> point list list \<Rightarrow> (nat \<times> nat) list) \<Rightarrow> practice_event \<Rightarrow> practice_state \<Rightarrow>
   practice_state option" where
  "practice_handler raster NextButton st = (if result_open st then None else Some (nextCharacter st))"
| "practice_handler raster PrevButton st = (if result_open st then None else Some (prevCharacter st))"
| "practice_handler raster (SelectCard i) st =
     (if result_open st \<or> i \<ge> length characters_base then None else Some (selectCharacter i st))"
| "practice_handler raster (SwipeStart x) st = (if result_open st then None else Some (onTouchStart x st))"
| "practice_handler raster (SwipeMove x) st = (if result_open st then None else Some (onTouchMove x st))"
| "practice_handler raster SwipeEnd st = (if result_open st then None else Some (onTouchEnd st))"
| "practice_handler raster (KeyDown k) st = Some (handleKeyDown k st)"
| "practice_handler raster (GridMouseDown x y) st =
     (if result_open st then None else Some (handleGridMouseDown x y st))"
| "practice_handler raster (GridMouseMove y) st = Some (handleGridMouseMove y st)"
| "practice_handler raster GridMouseUp st = Some (handleGridMouseUp st)"
| "practice_handler raster (GridTouchStart x y) st =
     (if result_open st then None else Some (handleGridTouchStart x y st))"
| "practice_handler raster (GridTouchMove y) st =
     (if result_open st then None else Some (handleGridMove y st))"
| "practice_handler raster GridTouchEnd st = Some (handleGridTouchEnd st)"
| "practice_handler raster PracticeCheck st =
     (if result_open st \<or> isChecking st then None else Some (practice_checkDrawing st))"
| "practice_handler raster (PracticeAnswer resp) st =
     (case pr_request st of None \<Rightarrow> None | Some ch \<Rightarrow> Some (practice_response ch resp st))"
| "practice_handler raster CloseResult st = (if result_open st then Some (closeResult st) else None)"
| "practice_handler raster RetryOrNext st =
     (case predictionResult st of
        Some r \<Rightarrow> if showResult st then Some (retryOrNext r st) else None
      | None \<Rightarrow> None)"
| "practice_handler raster (PracticeCanvas r e) st =
     (if result_open st then None
      else Some (st\<lparr>pr_canvas := fst (canvas_handle raster practice_canvas_props r e (pr_canvas st))\<rparr>))"

definition practice_step ::
  "(real \<Rightarrow> point list list \<Rightarrow> (nat \<times> nat) list) \<Rightarrow> practice_event \<Rightarrow> practice_state \<Rightarrow>
   practice_state option" where
  "practice_step raster e st = map_option (after_render st) (practice_handler raster e st)"

inductive practice_reachable ::
  "(real \<Rightarrow> point list list \<Rightarrow> (nat \<times> nat) list) \<Rightarrow> practice_state \<Rightarrow> bool"
  for raster where
  init: "practice_reachable raster (practice_init limit)"
| step: "practice_reachable raster st \<Longrightarrow> practice_step raster e st = Some st' \<Longrightarrow>
     practice_reachable raster st'"

text \<open>The invariant of the page: the index and the scroll position in range, the
  check button disabled exactly while a request is in flight, the canvas set up.\<close>

definition practice_inv :: "practice_state \<Rightarrow> bool" where
  "practice_inv st \<longleftrightarrow> currentIndex st < 19 \<and> 0 \<le> scrollTop st \<and> scrollTop st \<le> scroll_limit st
     \<and> (isChecking st \<longleftrightarrow> pr_request st \<noteq> None) \<and> canvas_inv practice_canvas_props (pr_canvas st)"

subsection \<open>Lemmas: index arithmetic and the invariant\<close>


lemma length_characters_base [simp]: "length characters_base = 19"
  by (simp add: characters_base_def characters_def)

lemma next_index_lt: "(i + 1) mod 19 < (19::nat)" by simp

lemma prev_index_lt: "nat ((int i - 1 + 19) mod 19) < 19" by simp

lemma prev_index_eq:
  "i < 19 \<Longrightarrow> nat ((int i - 1 + 19) mod 19) = (if i = 0 then 18 else i - 1)"
proof -
  assume "i < 19"
  then have "0 \<le> int i" "int i < 19" by simp_all
  then have "(int i - 1 + 19) mod 19 = (if int i = 0 then 18 else int i - 1)" by presburger
  then show ?thesis by (auto simp: of_nat_diff)
qed

lemma index_roundtrip:
  "i < 19 \<Longrightarrow> nat ((int ((i + 1) mod 19) - 1 + 19) mod 19) = i"
  "i < 19 \<Longrightarrow> (nat ((int i - 1 + 19) mod 19) + 1) mod 19 = i"
proof -
  assume i: "i < 19"
  have "(i + 1) mod 19 < 19" by simp
  then show "nat ((int ((i + 1) mod 19) - 1 + 19) mod 19) = i"
    using prev_index_eq [of "(i + 1) mod 19"] i by (auto simp: mod_Suc)
  show "(nat ((int i - 1 + 19) mod 19) + 1) mod 19 = i"
    using prev_index_eq [OF i] i by auto
qed

lemma practice_fields [simp]:
  "currentIndex (nextCharacter st) = (currentIndex st + 1) mod 19"
  "currentIndex (prevCharacter st) = nat ((int (currentIndex st) - 1 + 19) mod 19)"
  "currentIndex (set_scroll v st) = currentIndex st"
  "scroll_limit (set_scroll v st) = scroll_limit st"
  "isChecking (nextCharacter st) = isChecking st" "isChecking (prevCharacter st) = isChecking st"
  "pr_request (nextCharacter st) = pr_request st" "pr_request (prevCharacter st) = pr_request st"
  "scrollTop (nextCharacter st) = scrollTop st" "scrollTop (prevCharacter st) = scrollTop st"
  "scroll_limit (nextCharacter st) = scroll_limit st" "scroll_limit (prevCharacter st) = scroll_limit st"
  by (simp_all add: nextCharacter_def prevCharacter_def clear_practice_canvas_def set_scroll_def)


lemma inv_set_scroll: "practice_inv st \<Longrightarrow> practice_inv (set_scroll v st)"
  by (auto simp: practice_inv_def set_scroll_def)

lemma inv_clear_canvas: "practice_inv st \<Longrightarrow> practice_inv (clear_practice_canvas st)"
  by (simp add: practice_inv_def clear_practice_canvas_def canvas_inv_clear)

lemma inv_navigation:
  "practice_inv st \<Longrightarrow> practice_inv (nextCharacter st)"
  "practice_inv st \<Longrightarrow> practice_inv (prevCharacter st)"
  "practice_inv st \<Longrightarrow> i < 19 \<Longrightarrow> practice_inv (selectCharacter i st)"
  using prev_index_lt [of "currentIndex st"]
  by (simp_all add: practice_inv_def nextCharacter_def prevCharacter_def selectCharacter_def
      clear_practice_canvas_def canvas_inv_clear)

lemma inv_touch_end: "practice_inv st \<Longrightarrow> practice_inv (onTouchEnd st)"
  by (simp add: onTouchEnd_def inv_navigation Let_def split: option.splits)

lemma inv_key: "practice_inv st \<Longrightarrow> practice_inv (handleKeyDown k st)"
  by (simp add: handleKeyDown_def inv_navigation split: key.splits)

lemma inv_grid:
  "practice_inv st \<Longrightarrow> practice_inv (handleGridMouseDown x y st)"
  "practice_inv st \<Longrightarrow> practice_inv (handleGridMove y st)"
  "practice_inv st \<Longrightarrow> practice_inv (handleGridMouseMove y st)"
  "practice_inv st \<Longrightarrow> practice_inv (handleGridMouseUp st)"
  "practice_inv st \<Longrightarrow> practice_inv (handleGridTouchStart x y st)"
  "practice_inv st \<Longrightarrow> practice_inv (handleGridTouchEnd st)"
  by (auto simp: practice_inv_def handleGridMouseDown_def handleGridMove_def handleGridMouseMove_def
      handleGridMouseUp_def handleGridTouchStart_def handleGridTouchEnd_def set_scroll_def
      split: option.splits)

lemma inv_check:
  "practice_inv st \<Longrightarrow> \<not> isChecking st \<Longrightarrow> practice_inv (practice_checkDrawing st)"
  "practice_inv st \<Longrightarrow> practice_inv (practice_response ch resp st)"
  "practice_inv st \<Longrightarrow> practice_inv (closeResult st)"
  "practice_inv st \<Longrightarrow> practice_inv (retryOrNext r st)"
  using inv_navigation inv_clear_canvas
  by (auto simp: practice_inv_def practice_checkDrawing_def practice_response_def closeResult_def
      retryOrNext_def Let_def split: option.splits)

lemma practice_handler_inv:
  assumes "practice_inv st" "practice_handler raster e st = Some st'"
  shows "practice_inv st'"
proof -
  have t: "practice_inv (onTouchStart x st)" "practice_inv (onTouchMove x st)"
    "practice_inv (st\<lparr>pr_canvas := fst (canvas_handle raster practice_canvas_props r ev (pr_canvas st))\<rparr>)"
    for x r ev
    using assms(1) by (simp_all add: practice_inv_def onTouchStart_def onTouchMove_def canvas_inv_handle)
  show ?thesis using assms t
    by (cases e) (auto simp: inv_navigation inv_touch_end inv_key inv_grid inv_check
        split: if_splits option.splits)
qed

lemma practice_step_inv:
  "practice_inv st \<Longrightarrow> practice_step raster e st = Some st' \<Longrightarrow> practice_inv st'"
  using practice_handler_inv [of st raster e] inv_set_scroll
  by (auto simp: practice_step_def after_render_def scrollToCurrentCharacter_def Let_def)

lemma practice_reachable_inv: "practice_reachable raster st \<Longrightarrow> practice_inv st"
proof (induction rule: practice_reachable.induct)
  case (init limit)
  then show ?case by (simp add: practice_inv_def practice_init_def canvas_inv_mount)
next
  case (step st e st')
  then show ?case using practice_step_inv by blast
qed


lemma after_render_index [simp]: "currentIndex (after_render st st') = currentIndex st'"
  "result_open (after_render st st') = result_open st'"
  "predictionResult (after_render st st') = predictionResult st'"
  "pr_request (after_render st st') = pr_request st'"
  "isChecking (after_render st st') = isChecking st'"
  "showResult (after_render st st') = showResult st'"
  by (simp_all add: after_render_def scrollToCurrentCharacter_def set_scroll_def result_open_def Let_def)

subsection \<open>Properties of the page\<close>

text \<open>C25. In every reachable state of the practice page the index names one of
  the 19 characters, the card grid's scroll position lies in its range, and the
  check button is disabled exactly while a request is in flight.\<close>

theorem practice_invariant:
  assumes "practice_reachable raster st"
  shows "currentIndex st < length characters_base \<and> 0 \<le> scrollTop st \<and> scrollTop st \<le> scroll_limit st
    \<and> (isChecking st \<longleftrightarrow> pr_request st \<noteq> None)"
  using practice_reachable_inv [OF assms] by (simp add: practice_inv_def)

theorem practice_invariant_witness:
  "practice_reachable no_raster (practice_init 300)
   \<and> currentIndex (practice_init 300) < length characters_base
   \<and> scrollTop (practice_init 300) \<le> scroll_limit (practice_init 300)"
  using practice_invariant [OF practice_reachable.init [of no_raster 300]]
    practice_reachable.init [of no_raster 300] by simp

text \<open>C26. Arrow keys are inverse to each other: from any reachable state, right
  then left (or left then right) returns to the same character, including the
  wrap-around at both ends.\<close>

theorem practice_arrow_roundtrip:
  assumes "practice_reachable raster st"
  shows "(\<exists>st1 st2. practice_step raster (KeyDown ArrowRight) st = Some st1
            \<and> practice_step raster (KeyDown ArrowLeft) st1 = Some st2 \<and> currentIndex st2 = currentIndex st)
       \<and> (\<exists>st1 st2. practice_step raster (KeyDown ArrowLeft) st = Some st1
            \<and> practice_step raster (KeyDown ArrowRight) st1 = Some st2 \<and> currentIndex st2 = currentIndex st)"
proof -
  have i: "currentIndex st < 19" using practice_reachable_inv [OF assms] by (simp add: practice_inv_def)
  show ?thesis using index_roundtrip [OF i]
    by (simp add: practice_step_def handleKeyDown_def)
qed

theorem practice_arrow_roundtrip_witness:
  "practice_reachable no_raster (practice_init 0)
   \<and> (\<exists>st1 st2. practice_step no_raster (KeyDown ArrowLeft) (practice_init 0) = Some st1
       \<and> practice_step no_raster (KeyDown ArrowRight) st1 = Some st2
       \<and> currentIndex st2 = currentIndex (practice_init 0))"
  using practice_arrow_roundtrip [OF practice_reachable.init [of no_raster 0]]
    practice_reachable.init [of no_raster 0] by blast

text \<open>C27. A swipe that starts at the screen's left edge is ignored: \<open>onTouchEnd\<close>
  tests the coordinates for truthiness, so a start at \<open>clientX = 0\<close> counts as no
  touch, while the same swipe one pixel further right goes to the previous
  character.\<close>

theorem practice_swipe_from_zero_ignored:
  assumes "\<not> result_open st"
  shows "map_option currentIndex (run_opt (practice_step raster) [SwipeStart 0, SwipeMove 100, SwipeEnd] st)
           = Some (currentIndex st)
    \<and> map_option currentIndex (run_opt (practice_step raster) [SwipeStart 1, SwipeMove 101, SwipeEnd] st)
           = Some (nat ((int (currentIndex st) - 1 + 19) mod 19))"
  using assms
  by (simp add: practice_step_def after_render_def onTouchStart_def onTouchMove_def onTouchEnd_def
      js_truthy_def minSwipeDistance_def result_open_def Let_def scrollToCurrentCharacter_def set_scroll_def)


theorem practice_swipe_from_zero_ignored_witness:
  "\<not> result_open (practice_init 0)
   \<and> map_option currentIndex (run_opt (practice_step no_raster) [SwipeStart 0, SwipeMove 100, SwipeEnd]
        (practice_init 0)) = Some 0
   \<and> map_option currentIndex (run_opt (practice_step no_raster) [SwipeStart 1, SwipeMove 101, SwipeEnd]
        (practice_init 0)) = Some 18"
proof -
  have h: "\<not> result_open (practice_init 0)" by (simp add: result_open_def practice_init_def)
  show ?thesis using practice_swipe_from_zero_ignored [OF h, of no_raster] h
    by (simp add: practice_init_def)
qed

text \<open>C28. The result can name another character than the one shown: the
  navigation stays enabled while a check is in flight, and the answer is
  compared with the character \<open>checkDrawing\<close> captured at the click.\<close>

theorem practice_stale_expected:
  "\<exists>st. practice_reachable raster st \<and> result_open st
     \<and> map_option expected (predictionResult st) \<noteq> Some (latin (current_character st))"
proof -
  let ?S0 = "practice_init 0"
  obtain m where m: "main (pr_canvas ?S0) = Some m"
    using canvas_inv_mount [of practice_canvas_props]
    by (auto simp: practice_init_def canvas_inv_def split: option.splits)
  let ?S1 = "?S0\<lparr>isChecking := True, pr_request := Some (characters_base ! 0)\<rparr>"
  have s1: "practice_step raster PracticeCheck ?S0 = Some ?S1"
    using m by (simp add: practice_step_def practice_checkDrawing_def getImageData_def after_render_def
        current_character_def result_open_def) (simp add: practice_init_def)
  have r1: "practice_reachable raster ?S1"
    by (rule practice_reachable.step [OF practice_reachable.init s1])
  obtain S2 where s2: "practice_step raster NextButton ?S1 = Some S2"
    by (simp add: practice_step_def result_open_def practice_init_def)
  have f2: "currentIndex S2 = 1" "pr_request S2 = Some (characters_base ! 0)"
    using s2 by (auto simp: practice_step_def result_open_def practice_init_def)
  have r2: "practice_reachable raster S2" by (rule practice_reachable.step [OF r1 s2])
  obtain S3 where s3: "practice_step raster (PracticeAnswer FetchFailed) S2 = Some S3"
    using f2 by (simp add: practice_step_def)
  have f3: "result_open S3" "currentIndex S3 = 1"
    "predictionResult S3 = Some (check_result (latin (characters_base ! 0)) FetchFailed)"
    using s3 f2 by (auto simp: practice_step_def practice_response_def result_open_def)
  have "latin (characters_base ! 0) \<noteq> latin (characters_base ! 1)"
    by (simp add: characters_base_def characters_def)
  then have "map_option expected (predictionResult S3) \<noteq> Some (latin (current_character S3))"
    using f3 by (simp add: check_result_def extract_class_def current_character_def)
  then show ?thesis using practice_reachable.step [OF r2 s3] f3 by blast
qed

end
