(* ===== verification/Explore.thy ===== *)
theory Explore
  imports Canvas Classify Aksara
begin

text \<open>
  The explore page (\<open>src/src/app/tryon/explore/page.tsx\<close>, \<open>Explore\<close>): one
  drawing canvas with the default props, whose \<open>onDrawing\<close> callback records
  \<open>Date.now()\<close> in \<open>lastDrawTime\<close>; an effect on \<open>lastDrawTime\<close> cancels the
  pending timeout and schedules \<open>classifyDrawing\<close> 2000 ms later.
  \<open>classifyDrawing\<close> clears the result on an empty canvas, and otherwise posts
  the image and shows the answer when it arrives.

  The state hooks are the fields of \<open>explore_state\<close>.  The timeout handle of
  \<open>classificationTimeoutRef\<close> is its deadline.  The requests in flight are a list
  of the images they posted, in the order they were sent, and may be answered
  in any order.  \<open>Date.now()\<close> is the field \<open>clock\<close>: time passes only through
  the event \<open>Wait\<close>, which cannot jump past a pending deadline, so the timer
  fires at its deadline (as in the clock of \<open>KerberosIV\<close>'s trace model).
\<close>

subsection \<open>State\<close>

record explore_state =
  isClassifying :: bool
  classificationResult :: "classification_result option"
  lastDrawTime :: nat
  classificationTimeout :: "nat option"
  explore_requests :: "rgba list list list"
  clock :: nat
  ex_canvas :: canvas_state

text \<open>The canvas of lines 270--277: every prop at its default (400 by 400, white
  background, trash button shown).\<close>

definition explore_canvas_props :: canvas_props where
  "explore_canvas_props = default_props"

text \<open>The first render, at the time \<open>t0\<close> (\<open>Date.now()\<close> is positive).\<close>

definition explore_init :: "nat \<Rightarrow> explore_state" where
  "explore_init t0 = \<lparr>isClassifying = False, classificationResult = None, lastDrawTime = 0,
     classificationTimeout = None, explore_requests = [], clock = t0,
     ex_canvas = mount_canvas explore_canvas_props\<rparr>"

text \<open>The page's own copy of the catalog (lines 32--52): the 19 base characters.\<close>

definition explore_characters :: "character list" where
  "explore_characters = characters_base"

subsection \<open>The inactivity timer\<close>

definition handleDrawing :: "explore_state \<Rightarrow> explore_state" where
  "handleDrawing st = st\<lparr>lastDrawTime := clock st\<rparr>"

text \<open>The notifications the canvas fired during one event, in order; only
  \<open>onDrawing\<close> is wired.\<close>

definition explore_notify :: "notification list \<Rightarrow> explore_state \<Rightarrow> explore_state" where
  "explore_notify ns st = fold (\<lambda>n s. if n = Drawing then handleDrawing s else s) ns st"

text \<open>The effect of lines 55--73, run when \<open>lastDrawTime\<close> changed: the cleanup of
  the previous run cancels the pending timeout, and a positive \<open>lastDrawTime\<close>
  schedules a new one 2000 ms from now.\<close>

definition inactivity_effect :: "explore_state \<Rightarrow> explore_state" where
  "inactivity_effect st =
     st\<lparr>classificationTimeout := (if lastDrawTime st > 0 then Some (clock st + 2000) else None)\<rparr>"

definition explore_commit :: "explore_state \<Rightarrow> explore_state \<Rightarrow> explore_state" where
  "explore_commit st st' = (if lastDrawTime st' \<noteq> lastDrawTime st then inactivity_effect st' else st')"

subsection \<open>Classification\<close>

text \<open>The synchronous part of \<open>classifyDrawing\<close> (lines 79--108): an empty canvas
  clears the result; an export that fails returns through the \<open>finally\<close>, which
  resets \<open>isClassifying\<close>; otherwise the image is posted.  An exception of
  \<open>isEmpty\<close>, outside the \<open>try\<close>, rejects the async function's promise before
  any state is set.\<close>

definition classifyDrawing :: "explore_state \<Rightarrow> explore_state" where
  "classifyDrawing st =
     (case isEmpty explore_canvas_props (ex_canvas st) of
        Inl _ \<Rightarrow> st
      | Inr True \<Rightarrow> st\<lparr>classificationResult := None\<rparr>
      | Inr False \<Rightarrow>
          (case getImageData (ex_canvas st) of
             None \<Rightarrow> st\<lparr>isClassifying := False\<rparr>
           | Some img \<Rightarrow> st\<lparr>isClassifying := True, explore_requests := explore_requests st @ [img]\<rparr>))"

text \<open>The answer to the \<open>i\<close>-th request in flight (lines 110--138): the result,
  stamped with \<open>Date.now()\<close>, replaces whatever is shown, and the \<open>finally\<close>
  resets \<open>isClassifying\<close> even when other requests are still in flight.\<close>

definition explore_response ::
  "nat \<Rightarrow> classifier_response \<Rightarrow> explore_state \<Rightarrow> explore_state option" where
  "explore_response i resp st =
     (if i < length (explore_requests st) then
        Some (st\<lparr>classificationResult := Some (classify_result (clock st) resp), isClassifying := False,
                 explore_requests := take i (explore_requests st) @ drop (Suc i) (explore_requests st)\<rparr>)
      else None)"

subsection \<open>What the page shows\<close>

text \<open>\<open>getCharacterByLatin\<close>, \<open>getConfidenceColor\<close> and \<open>getConfidenceText\<close>
  (lines 141--155).\<close>

text \<open>\<open>getCharacterByLatin\<close> calls \<open>latin.toUpperCase()\<close> in its \<open>find\<close>
  callback: with a class that is not a string it throws a \<open>TypeError\<close>
  (\<open>None\<close>).\<close>

definition getCharacterByLatin :: "jsval \<Rightarrow> character option option" where
  "getCharacterByLatin l =
     (case l of
        JStr s \<Rightarrow> Some (find (\<lambda>c. js_upper (latin c) = js_upper s) explore_characters)
      | _ \<Rightarrow> None)"

definition getConfidenceColor :: "jsnum \<Rightarrow> string" where
  "getConfidenceColor c =
     (if js_ge c 80 then ''text-green-600 bg-green-50''
      else if js_ge c 60 then ''text-yellow-600 bg-yellow-50'' else ''text-red-600 bg-red-50'')"

definition getConfidenceText :: "jsnum \<Rightarrow> string" where
  "getConfidenceText c =
     (if js_ge c 80 then ''Sangat yakin'' else if js_ge c 60 then ''Cukup yakin'' else ''Kurang yakin'')"

text \<open>The left panel (lines 189--263): waiting (with the spinner while
  \<open>isClassifying\<close>), a recognised class (with its glyph when the class names a
  catalog character), or the failure box; and the auto-classify badge of
  lines 280--286.  A class that is not a string makes the render throw
  (\<open>RenderCrash\<close>) at the call of \<open>getCharacterByLatin\<close>.\<close>

datatype explore_panel =
    Waiting bool
  | Recognised string "string option" string string jsnum
  | Failed
  | RenderCrash

definition result_panel :: "explore_state \<Rightarrow> explore_panel" where
  "result_panel st =
     (case classificationResult st of
        None \<Rightarrow> Waiting (isClassifying st)
      | Some r \<Rightarrow>
          if cr_predicted r \<noteq> JStr ''Error'' then
            (case (cr_predicted r, getCharacterByLatin (cr_predicted r)) of
               (JStr p, Some ch) \<Rightarrow>
                 Recognised p (map_option svgPath ch)
                   (getConfidenceColor (cr_confidence r)) (getConfidenceText (cr_confidence r)) (cr_confidence r)
             | _ \<Rightarrow> RenderCrash)
          else Failed)"

definition auto_badge :: "explore_state \<Rightarrow> bool" where
  "auto_badge st \<longleftrightarrow> lastDrawTime st > 0 \<and> \<not> isClassifying st \<and> classificationResult st = None"

subsection \<open>Events\<close>

text \<open>Input on the canvas or its trash button; time passing; the timeout
  firing; the answer to one request in flight.\<close>

datatype explore_event =
    ExploreCanvas client_rect canvas_event
  | Wait nat
  | TimeoutFires
  | ExploreResponse nat classifier_response

fun explore_handler ::
  "(real \<Rightarrow> point list list \<Rightarrow> (nat \<times> nat) list) \<Rightarrow> explore_event \<Rightarrow> explore_state \<Rightarrow>
   explore_state option" where
  "explore_handler raster (ExploreCanvas r e) st =
     (case canvas_handle raster explore_canvas_props r e (ex_canvas st) of
        (cs, ns) \<Rightarrow> Some (explore_notify ns (st\<lparr>ex_canvas := cs\<rparr>)))"
| "explore_handler raster (Wait n) st =
     (case classificationTimeout st of
        None \<Rightarrow> Some (st\<lparr>clock := clock st + n\<rparr>)
      | Some d \<Rightarrow> if clock st + n \<le> d then Some (st\<lparr>clock := clock st + n\<rparr>) else None)"
| "explore_handler raster TimeoutFires st =
     (case classificationTimeout st of
        None \<Rightarrow> None
      | Some d \<Rightarrow> if clock st = d then Some (classifyDrawing (st\<lparr>classificationTimeout := None\<rparr>)) else None)"
| "explore_handler raster (ExploreResponse i resp) st = explore_response i resp st"

definition explore_step ::
  "(real \<Rightarrow> point list list \<Rightarrow> (nat \<times> nat) list) \<Rightarrow> explore_event \<Rightarrow> explore_state \<Rightarrow>
   explore_state option" where
  "explore_step raster e st = map_option (explore_commit st) (explore_handler raster e st)"

inductive explore_reachable ::
  "(real \<Rightarrow> point list list \<Rightarrow> (nat \<times> nat) list) \<Rightarrow> explore_state \<Rightarrow> bool"
  for raster where
  init: "0 < t0 \<Longrightarrow> explore_reachable raster (explore_init t0)"
| step: "explore_reachable raster st \<Longrightarrow> explore_step raster e st = Some st' \<Longrightarrow>
     explore_reachable raster st'"

text \<open>The invariant: the clock is positive and not behind the last drawing; a
  pending timeout is due exactly 2000 ms after a drawing and not yet past, and
  one is pending until that time has come; the
  spinner flag implies a request in flight; the canvas is set up.\<close>

definition explore_inv :: "explore_state \<Rightarrow> bool" where
  "explore_inv st \<longleftrightarrow> 0 < clock st \<and> lastDrawTime st \<le> clock st
     \<and> pred_option (\<lambda>d. 0 < lastDrawTime st \<and> d = lastDrawTime st + 2000 \<and> clock st \<le> d)
         (classificationTimeout st)
     \<and> (0 < lastDrawTime st \<and> clock st < lastDrawTime st + 2000 \<longrightarrow>
          classificationTimeout st = Some (lastDrawTime st + 2000))
     \<and> (isClassifying st \<longrightarrow> explore_requests st \<noteq> [])
     \<and> canvas_inv explore_canvas_props (ex_canvas st)"

subsection \<open>Lemmas\<close>

lemma explore_notify_fields [simp]:
  "isClassifying (explore_notify ns st) = isClassifying st"
  "classificationResult (explore_notify ns st) = classificationResult st"
  "classificationTimeout (explore_notify ns st) = classificationTimeout st"
  "explore_requests (explore_notify ns st) = explore_requests st"
  "clock (explore_notify ns st) = clock st"
  "ex_canvas (explore_notify ns st) = ex_canvas st"
  "lastDrawTime (explore_notify ns st) = (if Drawing \<in> set ns then clock st else lastDrawTime st)"
  unfolding explore_notify_def
  by (induction ns arbitrary: st) (simp_all add: handleDrawing_def)

lemma explore_commit_fields [simp]:
  "isClassifying (explore_commit st st') = isClassifying st'"
  "classificationResult (explore_commit st st') = classificationResult st'"
  "explore_requests (explore_commit st st') = explore_requests st'"
  "clock (explore_commit st st') = clock st'"
  "ex_canvas (explore_commit st st') = ex_canvas st'"
  "lastDrawTime (explore_commit st st') = lastDrawTime st'"
  "classificationTimeout (explore_commit st st') =
     (if lastDrawTime st' \<noteq> lastDrawTime st then
        (if lastDrawTime st' > 0 then Some (clock st' + 2000) else None)
      else classificationTimeout st')"
  by (simp_all add: explore_commit_def inactivity_effect_def)

lemma classifyDrawing_fields [simp]:
  "lastDrawTime (classifyDrawing st) = lastDrawTime st"
  "clock (classifyDrawing st) = clock st"
  "ex_canvas (classifyDrawing st) = ex_canvas st"
  "classificationTimeout (classifyDrawing st) = classificationTimeout st"
  by (simp_all add: classifyDrawing_def split: option.splits sum.splits bool.splits)

lemma canvas_inv_explore_props [simp]:
  "canvas_inv explore_canvas_props (mount_canvas explore_canvas_props)"
  by (rule canvas_inv_mount)

lemma explore_inv_init: "0 < t0 \<Longrightarrow> explore_inv (explore_init t0)"
  by (simp add: explore_inv_def explore_init_def)

lemma inv_canvas_event:
  assumes inv: "explore_inv st" and h: "canvas_handle raster explore_canvas_props r e (ex_canvas st) = (cs, ns)"
  shows "explore_inv (explore_commit st (explore_notify ns (st\<lparr>ex_canvas := cs\<rparr>)))"
proof -
  have c: "canvas_inv explore_canvas_props cs"
    using canvas_inv_handle [of explore_canvas_props "ex_canvas st" raster r e] inv h
    by (simp add: explore_inv_def)
  show ?thesis
  proof (cases "Drawing \<in> set ns \<and> clock st \<noteq> lastDrawTime st")
    case True
    then show ?thesis using inv c by (simp add: explore_inv_def)
  next
    case False
    then have "lastDrawTime (explore_notify ns (st\<lparr>ex_canvas := cs\<rparr>)) = lastDrawTime st" by auto
    then show ?thesis using inv c by (simp add: explore_inv_def)
  qed
qed

lemma inv_wait:
  assumes inv: "explore_inv st" and h: "explore_handler raster (Wait n) st = Some st'"
  shows "explore_inv (explore_commit st st')"
proof -
  have st': "st' = st\<lparr>clock := clock st + n\<rparr>"
    and le: "pred_option (\<lambda>d. clock st + n \<le> d) (classificationTimeout st)"
    using h by (auto split: option.splits if_splits)
  have "explore_inv st'"
    using inv le unfolding st' explore_inv_def by (cases "classificationTimeout st") auto
  then show ?thesis using st' by (simp add: explore_commit_def)
qed

lemma inv_classifyDrawing:
  "explore_inv st \<Longrightarrow> explore_inv (classifyDrawing st)"
  by (auto simp: explore_inv_def classifyDrawing_def split: option.splits sum.splits bool.splits)

lemma inv_timeout:
  "explore_inv st \<Longrightarrow> explore_handler raster TimeoutFires st = Some st' \<Longrightarrow> explore_inv (explore_commit st st')"
proof -
  assume inv: "explore_inv st" and h: "explore_handler raster TimeoutFires st = Some st'"
  then obtain d where d: "classificationTimeout st = Some d" "clock st = d"
    and st': "st' = classifyDrawing (st\<lparr>classificationTimeout := None\<rparr>)"
    by (auto split: option.splits if_splits)
  have "explore_inv (st\<lparr>classificationTimeout := None\<rparr>)" using inv d by (auto simp: explore_inv_def)
  then have "explore_inv st'" unfolding st' by (rule inv_classifyDrawing)
  then show ?thesis using st' by (simp add: explore_commit_def)
qed

lemma inv_response:
  "explore_inv st \<Longrightarrow> explore_response i resp st = Some st' \<Longrightarrow> explore_inv (explore_commit st st')"
  by (auto simp: explore_inv_def explore_response_def explore_commit_def split: if_splits)

lemma explore_step_inv:
  assumes inv: "explore_inv st" and s: "explore_step raster e st = Some st'"
  shows "explore_inv st'"
proof -
  obtain st1 where h1: "explore_handler raster e st = Some st1" and e1: "st' = explore_commit st st1"
    using s by (auto simp: explore_step_def simp del: explore_handler.simps)
  show ?thesis
  proof (cases e)
    case (ExploreCanvas r ce)
    obtain cs ns where h: "canvas_handle raster explore_canvas_props r ce (ex_canvas st) = (cs, ns)"
      by (cases "canvas_handle raster explore_canvas_props r ce (ex_canvas st)") simp
    have "st1 = explore_notify ns (st\<lparr>ex_canvas := cs\<rparr>)"
      using h1 h unfolding ExploreCanvas by simp
    then show ?thesis unfolding e1 using inv_canvas_event [OF inv h] by simp
  next
    case (Wait n)
    show ?thesis unfolding e1 by (rule inv_wait [OF inv h1 [unfolded Wait]])
  next
    case TimeoutFires
    show ?thesis unfolding e1 by (rule inv_timeout [OF inv h1 [unfolded TimeoutFires]])
  next
    case (ExploreResponse i resp)
    show ?thesis unfolding e1 by (rule inv_response [OF inv h1 [unfolded ExploreResponse explore_handler.simps]])
  qed
qed

lemma explore_reachable_inv: "explore_reachable raster st \<Longrightarrow> explore_inv st"
proof (induction rule: explore_reachable.induct)
  case (init t0)
  then show ?case by (rule explore_inv_init)
next
  case (step st e st')
  then show ?case using explore_step_inv by blast
qed

lemma explore_step_handler:
  "explore_step raster e st = Some st' \<Longrightarrow>
   \<exists>st1. explore_handler raster e st = Some st1 \<and> st' = explore_commit st st1"
  by (auto simp: explore_step_def simp del: explore_handler.simps)

lemma explore_request_sent:
  assumes s: "explore_step raster e st = Some st'"
    and more: "length (explore_requests st) < length (explore_requests st')"
  shows "e = TimeoutFires \<and> classificationTimeout st = Some (clock st)
    \<and> isEmpty explore_canvas_props (ex_canvas st) = Inr False
    \<and> (\<exists>img. getImageData (ex_canvas st) = Some img \<and> explore_requests st' = explore_requests st @ [img])"
proof -
  obtain st1 where h1: "explore_handler raster e st = Some st1" and e1: "st' = explore_commit st st1"
    using explore_step_handler [OF s] by blast
  have more1: "length (explore_requests st) < length (explore_requests st1)" using more e1 by simp
  show ?thesis
  proof (cases e)
    case (ExploreCanvas r ce)
    then show ?thesis using h1 more1 by (auto split: prod.splits)
  next
    case (Wait n)
    then show ?thesis using h1 more1 by (auto split: option.splits if_splits)
  next
    case (ExploreResponse i resp)
    then show ?thesis using h1 more1 by (auto simp: explore_response_def split: if_splits)
  next
    case TimeoutFires
    then obtain d where d: "classificationTimeout st = Some d" "clock st = d"
      and st1: "st1 = classifyDrawing (st\<lparr>classificationTimeout := None\<rparr>)"
      using h1 by (auto split: option.splits if_splits)
    show ?thesis using more1 e1 d TimeoutFires unfolding st1
      by (auto simp: classifyDrawing_def split: if_splits option.splits sum.splits bool.splits)
  qed
qed

subsection \<open>A concrete run\<close>

text \<open>The run the witnesses use, on the test rasteriser \<open>dot_raster\<close>: press,
  one stroke segment, wait 2 s, the timeout fires; another segment, wait 2 s,
  the timeout fires again.\<close>

lemma scenario_canvas:
  fixes c0 c1 c2 c3
  defines "c0 \<equiv> mount_canvas explore_canvas_props"
  defines "c1 \<equiv> fst (canvas_handle dot_raster explore_canvas_props unit_rect (MouseDown 0 0) c0)"
  defines "c2 \<equiv> fst (canvas_handle dot_raster explore_canvas_props unit_rect (MouseMove 1 1) c1)"
  defines "c3 \<equiv> fst (canvas_handle dot_raster explore_canvas_props unit_rect (MouseMove 1 1) c2)"
  shows "snd (canvas_handle dot_raster explore_canvas_props unit_rect (MouseDown 0 0) c0) = [DrawStart]"
    "snd (canvas_handle dot_raster explore_canvas_props unit_rect (MouseMove 1 1) c1) = [Drawing]"
    "snd (canvas_handle dot_raster explore_canvas_props unit_rect (MouseMove 1 1) c2) = [Drawing]"
    "isEmpty explore_canvas_props c2 = Inr False" "isEmpty explore_canvas_props c3 = Inr False"
    "getImageData c2 \<noteq> None" "getImageData c3 \<noteq> None"
proof -
  note u = c0_def c1_def c2_def c3_def explore_canvas_props_def default_props_def startDrawing_def draw_def
    mount_canvas_def canvas_defs multi_touch.simps
  show "snd (canvas_handle dot_raster explore_canvas_props unit_rect (MouseDown 0 0) c0) = [DrawStart]"
    "snd (canvas_handle dot_raster explore_canvas_props unit_rect (MouseMove 1 1) c1) = [Drawing]"
    "snd (canvas_handle dot_raster explore_canvas_props unit_rect (MouseMove 1 1) c2) = [Drawing]"
    "getImageData c2 \<noteq> None" "getImageData c3 \<noteq> None"
    by (simp_all add: u getImageData_def)
  have d1: "isDrawing c1" by (simp add: u)
  have inv0: "canvas_inv explore_canvas_props c0" unfolding c0_def by (rule canvas_inv_mount)
  have inv1: "canvas_inv explore_canvas_props c1"
    unfolding c1_def by (rule canvas_inv_handle [OF inv0, of dot_raster unit_rect, simplified])
  have inv2: "canvas_inv explore_canvas_props c2"
    unfolding c2_def by (rule canvas_inv_handle [OF inv1, of dot_raster unit_rect, simplified])
  have pr: "\<not> disabled explore_canvas_props" "strokeColor explore_canvas_props \<noteq> white"
    "cp_width explore_canvas_props = 400" "cp_height explore_canvas_props = 400"
    by (simp_all add: explore_canvas_props_def default_props_def white_def default_stroke_def)
  have m: "\<exists>s. main c = Some s" if "canvas_inv explore_canvas_props c" for c
    using that by (auto simp: canvas_inv_def split: option.splits)
  show "isEmpty explore_canvas_props c2 = Inr False"
    using m [OF inv1] draw_marks_canvas [OF inv1 d1 pr(1) _ pr(2), of "Mouse 1 1" _ 1 1 dot_raster unit_rect]
    by (auto simp: c2_def pr dot_raster_def)
  show "isEmpty explore_canvas_props c3 = Inr False"
    using m [OF inv2] draw_marks_canvas [OF inv2 _ pr(1) _ pr(2), of "Mouse 1 1" _ 1 1 dot_raster unit_rect] d1
    by (auto simp: c3_def c2_def pr dot_raster_def)
qed

lemma scenario_images:
  obtains img2 img3 where
    "getImageData (fst (canvas_handle dot_raster explore_canvas_props unit_rect (MouseMove 1 1)
       (fst (canvas_handle dot_raster explore_canvas_props unit_rect (MouseDown 0 0)
         (mount_canvas explore_canvas_props))))) = Some img2"
    "getImageData (fst (canvas_handle dot_raster explore_canvas_props unit_rect (MouseMove 1 1)
       (fst (canvas_handle dot_raster explore_canvas_props unit_rect (MouseMove 1 1)
       (fst (canvas_handle dot_raster explore_canvas_props unit_rect (MouseDown 0 0)
         (mount_canvas explore_canvas_props))))))) = Some img3"
  using scenario_canvas(6,7) by blast

lemmas scenario_simps = explore_step_def explore_init_def scenario_canvas(1-5) explore_notify_def handleDrawing_def
  explore_commit_def inactivity_effect_def classifyDrawing_def prod.case_eq_if

lemma explore_run_reachable:
  "explore_reachable raster st \<Longrightarrow> run_opt (explore_step raster) es st = Some st' \<Longrightarrow>
   explore_reachable raster st'"
proof (induction es arbitrary: st)
  case Nil
  then show ?case by simp
next
  case (Cons e es)
  then show ?case by (auto split: option.splits intro: explore_reachable.step)
qed

lemma explore_init_reachable: "explore_reachable raster (explore_init 1)"
  by (rule explore_reachable.init) simp

lemma scenario_stroke:
  "\<exists>st st'. run_opt (explore_step dot_raster) [ExploreCanvas unit_rect (MouseDown 0 0)] (explore_init 1) = Some st
     \<and> explore_step dot_raster (ExploreCanvas unit_rect (MouseMove 1 1)) st = Some st'
     \<and> Drawing \<in> set (snd (canvas_handle dot_raster explore_canvas_props unit_rect (MouseMove 1 1) (ex_canvas st)))"
  by (simp add: scenario_simps del: canvas_handle.simps)

lemma scenario_first_request:
  "\<exists>st st'. run_opt (explore_step dot_raster) [ExploreCanvas unit_rect (MouseDown 0 0),
       ExploreCanvas unit_rect (MouseMove 1 1), Wait 2000] (explore_init 1) = Some st
     \<and> explore_step dot_raster TimeoutFires st = Some st'
     \<and> explore_requests st = [] \<and> length (explore_requests st') = 1"
proof -
  obtain img2 img3 where i: "getImageData (fst (canvas_handle dot_raster explore_canvas_props unit_rect (MouseMove 1 1)
       (fst (canvas_handle dot_raster explore_canvas_props unit_rect (MouseDown 0 0)
         (mount_canvas explore_canvas_props))))) = Some img2" by (rule scenario_images)
  show ?thesis by (simp add: scenario_simps i del: canvas_handle.simps)
qed

lemma scenario_timer:
  "\<exists>st. run_opt (explore_step dot_raster) [ExploreCanvas unit_rect (MouseDown 0 0),
       ExploreCanvas unit_rect (MouseMove 1 1)] (explore_init 1) = Some st
     \<and> classificationTimeout st = Some 2001 \<and> clock st = 1"
  by (simp add: scenario_simps del: canvas_handle.simps)

lemma scenario_two_requests:
  "\<exists>st. run_opt (explore_step dot_raster) [ExploreCanvas unit_rect (MouseDown 0 0),
       ExploreCanvas unit_rect (MouseMove 1 1), Wait 2000, TimeoutFires, ExploreCanvas unit_rect (MouseMove 1 1),
       Wait 2000, TimeoutFires] (explore_init 1) = Some st
     \<and> length (explore_requests st) = 2 \<and> classificationResult st = None"
proof -
  obtain img2 img3 where i: "getImageData (fst (canvas_handle dot_raster explore_canvas_props unit_rect (MouseMove 1 1)
       (fst (canvas_handle dot_raster explore_canvas_props unit_rect (MouseDown 0 0)
         (mount_canvas explore_canvas_props))))) = Some img2"
    "getImageData (fst (canvas_handle dot_raster explore_canvas_props unit_rect (MouseMove 1 1)
       (fst (canvas_handle dot_raster explore_canvas_props unit_rect (MouseMove 1 1)
       (fst (canvas_handle dot_raster explore_canvas_props unit_rect (MouseDown 0 0)
         (mount_canvas explore_canvas_props))))))) = Some img3" by (rule scenario_images)
  show ?thesis by (simp add: scenario_simps i del: canvas_handle.simps)
qed

subsection \<open>Properties of the page\<close>

text \<open>In every reachable state of the explore page the clock is not behind
  the last drawing, a pending timeout is due exactly 2000 ms after the last
  drawing and one is pending until then, and the spinner flag implies a request
  in flight.\<close>

theorem explore_invariant:
  assumes "explore_reachable raster st"
  shows "lastDrawTime st \<le> clock st
    \<and> (\<forall>d. classificationTimeout st = Some d \<longrightarrow> d = lastDrawTime st + 2000 \<and> clock st \<le> d)
    \<and> (0 < lastDrawTime st \<and> clock st < lastDrawTime st + 2000 \<longrightarrow>
         classificationTimeout st = Some (lastDrawTime st + 2000))
    \<and> (isClassifying st \<longrightarrow> explore_requests st \<noteq> [])"
  using explore_reachable_inv [OF assms] by (auto simp: explore_inv_def)

theorem explore_invariant_witness:
  "explore_reachable no_raster (explore_init 1)
   \<and> lastDrawTime (explore_init 1) \<le> clock (explore_init 1)"
proof -
  have r: "explore_reachable no_raster (explore_init 1)" by (rule explore_reachable.init) simp
  show ?thesis using r explore_invariant [OF r] by simp
qed

text \<open>C29. The explore page posts a drawing only when the inactivity timeout
  fires, exactly 2000 ms after the last \<open>onDrawing\<close> notification, and only a
  canvas that is not empty; the request carries the canvas's current image.\<close>

theorem explore_request_after_quiet:
  assumes "explore_reachable raster st" and "explore_step raster e st = Some st'"
    and "length (explore_requests st) < length (explore_requests st')"
  shows "e = TimeoutFires \<and> 0 < lastDrawTime st \<and> clock st = lastDrawTime st + 2000
    \<and> isEmpty explore_canvas_props (ex_canvas st) = Inr False
    \<and> (\<exists>img. getImageData (ex_canvas st) = Some img \<and> explore_requests st' = explore_requests st @ [img])"
  using explore_request_sent [OF assms(2,3)] explore_reachable_inv [OF assms(1)]
  by (auto simp: explore_inv_def)

theorem explore_request_after_quiet_witness:
  "\<exists>st st'. explore_reachable dot_raster st \<and> explore_step dot_raster TimeoutFires st = Some st'
     \<and> length (explore_requests st) < length (explore_requests st')
     \<and> 0 < lastDrawTime st \<and> clock st = lastDrawTime st + 2000
     \<and> isEmpty explore_canvas_props (ex_canvas st) = Inr False"
proof -
  obtain st st' where r: "run_opt (explore_step dot_raster) [ExploreCanvas unit_rect (MouseDown 0 0),
       ExploreCanvas unit_rect (MouseMove 1 1), Wait 2000] (explore_init 1) = Some st"
    and s: "explore_step dot_raster TimeoutFires st = Some st'"
    and l: "explore_requests st = []" "length (explore_requests st') = 1"
    using scenario_first_request by blast
  have reach: "explore_reachable dot_raster st" by (rule explore_run_reachable [OF explore_init_reachable r])
  have more: "length (explore_requests st) < length (explore_requests st')" using l by simp
  show ?thesis using reach s more explore_request_after_quiet [OF reach s more] by blast
qed

text \<open>C30. Every stroke segment reschedules the classification: after an event in
  which the canvas fired \<open>onDrawing\<close>, the last drawing time is now and the only
  pending timeout is due 2000 ms from now, whatever was pending before.\<close>

theorem explore_stroke_reschedules:
  assumes reach: "explore_reachable raster st"
    and s: "explore_step raster (ExploreCanvas r e) st = Some st'"
    and d: "Drawing \<in> set (snd (canvas_handle raster explore_canvas_props r e (ex_canvas st)))"
  shows "lastDrawTime st' = clock st \<and> classificationTimeout st' = Some (clock st + 2000)"
proof -
  obtain cs ns where h: "canvas_handle raster explore_canvas_props r e (ex_canvas st) = (cs, ns)"
    by (cases "canvas_handle raster explore_canvas_props r e (ex_canvas st)") simp
  have st': "st' = explore_commit st (explore_notify ns (st\<lparr>ex_canvas := cs\<rparr>))"
    using s h by (simp add: explore_step_def)
  have dn: "Drawing \<in> set ns" using d h by simp
  have inv: "explore_inv st" by (rule explore_reachable_inv [OF reach])
  show ?thesis
  proof (cases "clock st = lastDrawTime st")
    case True
    then have "classificationTimeout st = Some (lastDrawTime st + 2000)"
      using inv by (simp add: explore_inv_def)
    then show ?thesis using True dn unfolding st' by simp
  next
    case False
    then show ?thesis using dn inv unfolding st' by (simp add: explore_inv_def)
  qed
qed

theorem explore_stroke_reschedules_witness:
  "\<exists>st st'. explore_reachable dot_raster st
     \<and> explore_step dot_raster (ExploreCanvas unit_rect (MouseMove 1 1)) st = Some st'
     \<and> Drawing \<in> set (snd (canvas_handle dot_raster explore_canvas_props unit_rect (MouseMove 1 1) (ex_canvas st)))
     \<and> lastDrawTime st' = clock st \<and> classificationTimeout st' = Some (clock st + 2000)"
proof -
  obtain st st' where r: "run_opt (explore_step dot_raster) [ExploreCanvas unit_rect (MouseDown 0 0)] (explore_init 1) = Some st"
    and s: "explore_step dot_raster (ExploreCanvas unit_rect (MouseMove 1 1)) st = Some st'"
    and d: "Drawing \<in> set (snd (canvas_handle dot_raster explore_canvas_props unit_rect (MouseMove 1 1) (ex_canvas st)))"
    using scenario_stroke by blast
  have reach: "explore_reachable dot_raster st" by (rule explore_run_reachable [OF explore_init_reachable r])
  show ?thesis using reach s d explore_stroke_reschedules [OF reach s d] by blast
qed

text \<open>C31. The pending classification always happens: from a reachable state with
  a timeout pending, waiting until its deadline and letting it fire is possible,
  leaves no timeout pending, and either clears the result (empty canvas) or
  puts one more request in flight with the spinner flag set.\<close>

theorem explore_timer_fires:
  assumes reach: "explore_reachable raster st" and t: "classificationTimeout st = Some d"
  shows "\<exists>st'. run_opt (explore_step raster) [Wait (d - clock st), TimeoutFires] st = Some st'
    \<and> classificationTimeout st' = None
    \<and> (\<exists>b. isEmpty explore_canvas_props (ex_canvas st) = Inr b)
    \<and> (isEmpty explore_canvas_props (ex_canvas st) = Inr True \<longrightarrow>
         classificationResult st' = None \<and> explore_requests st' = explore_requests st)
    \<and> (isEmpty explore_canvas_props (ex_canvas st) = Inr False \<longrightarrow>
         isClassifying st' \<and> length (explore_requests st') = Suc (length (explore_requests st)))"
proof -
  have inv: "explore_inv st" by (rule explore_reachable_inv [OF reach])
  then have le: "clock st \<le> d" using t by (simp add: explore_inv_def)
  obtain s where m: "main (ex_canvas st) = Some s"
    using inv by (auto simp: explore_inv_def canvas_inv_def split: option.splits)
  let ?st1 = "st\<lparr>clock := d\<rparr>"
  have w: "explore_step raster (Wait (d - clock st)) st = Some ?st1"
    using t le by (simp add: explore_step_def explore_commit_def)
  have f: "explore_step raster TimeoutFires ?st1 = Some (classifyDrawing (?st1\<lparr>classificationTimeout := None\<rparr>))"
    using t by (simp add: explore_step_def explore_commit_def)
  obtain b where b: "isEmpty explore_canvas_props (ex_canvas st) = Inr b"
    using m by (simp add: isEmpty_def explore_canvas_props_def default_props_def)
  show ?thesis
    using w f m b by (cases b) (auto simp: classifyDrawing_def getImageData_def)
qed

theorem explore_timer_fires_witness:
  "\<exists>st st'. explore_reachable dot_raster st \<and> classificationTimeout st = Some 2001
     \<and> run_opt (explore_step dot_raster) [Wait (2001 - clock st), TimeoutFires] st = Some st'
     \<and> classificationTimeout st' = None"
proof -
  obtain st where r: "run_opt (explore_step dot_raster) [ExploreCanvas unit_rect (MouseDown 0 0),
       ExploreCanvas unit_rect (MouseMove 1 1)] (explore_init 1) = Some st"
    and t: "classificationTimeout st = Some 2001"
    using scenario_timer by blast
  have reach: "explore_reachable dot_raster st" by (rule explore_run_reachable [OF explore_init_reachable r])
  show ?thesis using reach t explore_timer_fires [OF reach t] by blast
qed

text \<open>C32. Answers are applied in the order they arrive, not the order the drawings
  were sent: a stroke during a classification starts a second request; when the
  newer one is answered first, the spinner flag is cleared while the older one
  is still in flight, and the older answer then replaces the newer result.\<close>

theorem explore_stale_answer_wins:
  "\<exists>st st1 st2. explore_reachable dot_raster st \<and> length (explore_requests st) = 2
     \<and> explore_step dot_raster (ExploreResponse 1 (Response 200 (Some (roboflow_answer (JStr ''A'') (JNum 1) [])))) st = Some st1
     \<and> \<not> isClassifying st1 \<and> explore_requests st1 \<noteq> []
     \<and> result_panel st1 \<noteq> Failed
     \<and> explore_step dot_raster (ExploreResponse 0 FetchFailed) st1 = Some st2
     \<and> result_panel st2 = Failed"
proof -
  obtain st where r: "run_opt (explore_step dot_raster) [ExploreCanvas unit_rect (MouseDown 0 0),
       ExploreCanvas unit_rect (MouseMove 1 1), Wait 2000, TimeoutFires, ExploreCanvas unit_rect (MouseMove 1 1),
       Wait 2000, TimeoutFires] (explore_init 1) = Some st"
    and l: "length (explore_requests st) = 2"
    using scenario_two_requests by blast
  have reach: "explore_reachable dot_raster st" by (rule explore_run_reachable [OF explore_init_reachable r])
  show ?thesis
    using reach l
    by (auto simp: explore_step_def explore_response_def explore_commit_def result_panel_def
        classify_result_def response_ok_def length_Suc_conv getCharacterByLatin_def)
qed

text \<open>C38. The explore page trusts the class of an answer: a well-formed answer
  (status 200--299, the first output's \<open>model_predictions\<close> present) whose
  \<open>top\<close> is not a string, \<open>null\<close> or a number for instance, is stored as it is,
  and the next render of the result panel throws at the call of
  \<open>getCharacterByLatin\<close>.  The other three pages call \<open>toUpperCase\<close> inside
  their \<open>try\<close> and show \<open>'Error'\<close> for the same answer.\<close>

theorem explore_nonstring_class_crashes:
  assumes "response_ok status" "\<forall>s. cls \<noteq> JStr s"
    and "explore_step raster (ExploreResponse i (Response status (Some (roboflow_answer cls conf others)))) st
         = Some st'"
  shows "result_panel st' = RenderCrash"
proof -
  have st': "st' = st\<lparr>classificationResult :=
      Some (classify_result (clock st) (Response status (Some (roboflow_answer cls conf others)))),
      isClassifying := False,
      explore_requests := take i (explore_requests st) @ drop (Suc i) (explore_requests st)\<rparr>"
    using assms(3) by (auto simp: explore_step_def explore_response_def explore_commit_def split: if_splits)
  have "cls \<noteq> JStr ''Error''" "getCharacterByLatin cls = None"
    using assms(2) by (cases cls; simp add: getCharacterByLatin_def)+
  then show ?thesis using assms(1) st'
    by (simp add: result_panel_def classify_result_def split: jsval.split)
qed

theorem explore_nonstring_class_crashes_witness:
  "\<exists>st'. response_ok 200 \<and> (\<forall>s. JNull \<noteq> JStr s)
     \<and> explore_step dot_raster (ExploreResponse 0 (Response 200 (Some (roboflow_answer JNull (JNum 1) []))))
         ((explore_init 1)\<lparr>explore_requests := [[]]\<rparr>) = Some st'
     \<and> result_panel st' = RenderCrash"
proof -
  let ?st = "(explore_init 1)\<lparr>explore_requests := [[]]\<rparr>"
  let ?r = "Response 200 (Some (roboflow_answer JNull (JNum 1) []))"
  have ok: "response_ok 200" by (simp add: response_ok_def)
  have ns: "\<forall>s. JNull \<noteq> JStr s" by simp
  obtain st' where s: "explore_step dot_raster (ExploreResponse 0 ?r) ?st = Some st'"
    by (simp add: explore_step_def explore_response_def)
  show ?thesis using ok ns s explore_nonstring_class_crashes [OF ok ns s] by blast
qed

end
