(* ===== verification/Language.thy ===== *)
theory Language
  imports Prelude
begin

text \<open>
  The language layer: the i18next set-up of \<open>src/src/lib/i18n.ts\<close> (initial
  language \<open>'id'\<close>), the \<open>LanguageProvider\<close> of
  \<open>src/src/contexts/LanguageContext.tsx\<close> (its \<open>isLoading\<close> flag, the
  \<open>checkI18nReady\<close> polling loop, \<open>changeLanguage\<close>), \<open>LanguageUpdater\<close>
  (\<open>src/src/components/LanguageUpdater.tsx\<close>), which copies the current
  language to \<open><html lang>\<close>, and the dropdown of
  \<open>src/src/components/LanguageSwitcher.tsx\<close>.

  The i18next library is not modelled: whether it has finished initialising and
  whether a call \<open>i18n.changeLanguage(l)\<close> succeeds are chosen by the
  environment (events \<open>I18nInitialized\<close> and \<open>LanguageSettled\<close>).  The calls in
  flight are a list, answered in any order; each remembers whether the switcher
  made it, since the switcher closes its dropdown only after the call returns.
  The 100 ms timeout of the polling loop is the flag \<open>ready_check\<close>.
\<close>

subsection \<open>State\<close>

record lang_state =
  i18n_initialized :: bool
  i18n_language :: string
  isLoading :: bool
  ready_check :: bool
  lang_calls :: "(string \<times> bool) list"
  document_lang :: string
  switcher_open :: bool

text \<open>The \<open>languages\<close> table (lines 66--69): code, name, flag.\<close>

definition languages :: "(string \<times> string \<times> string) list" where
  "languages = [(''id'', ''Bahasa Indonesia'', ''/id-id.svg''), (''en'', ''English'', ''/en-us.svg'')]"

text \<open>\<open>lng: 'id'\<close> in the \<open>init\<close> options of \<open>i18n.ts\<close>.\<close>

definition i18n_lng :: string where
  "i18n_lng = ''id''"

definition currentLanguage :: "lang_state \<Rightarrow> string" where
  "currentLanguage st = i18n_language st"

subsection \<open>The provider and the updater\<close>

text \<open>\<open>checkI18nReady\<close> (lines 21--27): clear \<open>isLoading\<close> once i18next is
  initialised, otherwise look again in 100 ms.\<close>

definition checkI18nReady :: "lang_state \<Rightarrow> lang_state" where
  "checkI18nReady st = (if i18n_initialized st then st\<lparr>isLoading := False\<rparr> else st\<lparr>ready_check := True\<rparr>)"

text \<open>The synchronous part of \<open>changeLanguage\<close> (lines 31--34).\<close>

definition changeLanguage :: "string \<Rightarrow> bool \<Rightarrow> lang_state \<Rightarrow> lang_state" where
  "changeLanguage l from_switcher st =
     st\<lparr>isLoading := True, lang_calls := lang_calls st @ [(l, from_switcher)]\<rparr>"

text \<open>The rest of \<open>changeLanguage\<close> when the \<open>i\<close>-th call of i18next returns (lines
  34--41): on success the language and \<open>document.documentElement.lang\<close> change;
  the \<open>finally\<close> clears \<open>isLoading\<close>; a call of the switcher then closes its
  dropdown (line 51).\<close>

definition language_settled :: "nat \<Rightarrow> bool \<Rightarrow> lang_state \<Rightarrow> lang_state option" where
  "language_settled i ok st =
     (if i < length (lang_calls st) then
        (case lang_calls st ! i of
           (l, from_switcher) \<Rightarrow>
             let st1 = st\<lparr>lang_calls := take i (lang_calls st) @ drop (Suc i) (lang_calls st)\<rparr>;
                 st2 = (if ok then st1\<lparr>i18n_language := l, document_lang := l\<rparr> else st1);
                 st3 = st2\<lparr>isLoading := False\<rparr>
             in Some (if from_switcher then st3\<lparr>switcher_open := False\<rparr> else st3))
      else None)"

text \<open>\<open>LanguageUpdater\<close>'s effect, run when \<open>currentLanguage\<close> changed.\<close>

definition updater_effect :: "lang_state \<Rightarrow> lang_state" where
  "updater_effect st =
     st\<lparr>document_lang := (if currentLanguage st = [] then ''id'' else currentLanguage st)\<rparr>"

definition lang_commit :: "lang_state \<Rightarrow> lang_state \<Rightarrow> lang_state" where
  "lang_commit st st' = (if currentLanguage st' \<noteq> currentLanguage st then updater_effect st' else st')"

text \<open>The first render of the layout (\<open><html lang="id">\<close>), then the effects,
  the child's (\<open>LanguageUpdater\<close>) before the provider's.\<close>

definition lang_mount :: "bool \<Rightarrow> lang_state" where
  "lang_mount ready = checkI18nReady (updater_effect
     \<lparr>i18n_initialized = ready, i18n_language = i18n_lng, isLoading = True, ready_check = False,
      lang_calls = [], document_lang = ''id'', switcher_open = False\<rparr>)"

subsection \<open>The switcher\<close>

text \<open>The document's \<open>mousedown\<close> listener (lines 26--30):
  \<open>dropdownRef.current\<close> is set exactly while the dropdown is rendered.\<close>

definition handleClickOutside :: "lang_state \<Rightarrow> lang_state" where
  "handleClickOutside st = (if switcher_open st then st\<lparr>switcher_open := False\<rparr> else st)"

text \<open>The toggle button (lines 111--126): a press is a \<open>mousedown\<close>, handled by
  the document listener since the button lies outside the dropdown, a render,
  and then the \<open>click\<close>, whose handler reads the state of that render.\<close>

definition toggle_press :: "lang_state \<Rightarrow> lang_state" where
  "toggle_press st =
     (let st1 = handleClickOutside st in st1\<lparr>switcher_open := \<not> switcher_open st1\<rparr>)"

text \<open>\<open>handleLanguageChange\<close> (lines 47--52).\<close>

definition handleLanguageChange :: "string \<Rightarrow> lang_state \<Rightarrow> lang_state" where
  "handleLanguageChange code st =
     (if code \<noteq> currentLanguage st then changeLanguage code True st else st\<lparr>switcher_open := False\<rparr>)"

subsection \<open>Events\<close>

datatype lang_event =
    I18nInitialized
  | ReadyTimeout
  | ChangeLanguageCall string
  | LanguageSettled nat bool
  | SwitcherToggle
  | SwitcherOption string
  | OutsidePress

text \<open>A call of \<open>changeLanguage\<close> from another component passes one of the
  codes of the table (\<open>Navigation\<close> passes the literals \<open>'id'\<close> and \<open>'en'\<close>).
  The toggle button is \<open>disabled\<close> while \<open>isLoading\<close>; the options exist only
  while the dropdown is rendered.\<close>

fun lang_handler :: "lang_event \<Rightarrow> lang_state \<Rightarrow> lang_state option" where
  "lang_handler I18nInitialized st = Some (st\<lparr>i18n_initialized := True\<rparr>)"
| "lang_handler ReadyTimeout st =
     (if ready_check st then Some (checkI18nReady (st\<lparr>ready_check := False\<rparr>)) else None)"
| "lang_handler (ChangeLanguageCall l) st =
     (if l \<in> set (map fst languages) then Some (changeLanguage l False st) else None)"
| "lang_handler (LanguageSettled i ok) st = language_settled i ok st"
| "lang_handler SwitcherToggle st = (if isLoading st then None else Some (toggle_press st))"
| "lang_handler (SwitcherOption code) st =
     (if switcher_open st \<and> code \<in> set (map fst languages) then Some (handleLanguageChange code st)
      else None)"
| "lang_handler OutsidePress st = Some (handleClickOutside st)"

definition lang_step :: "lang_event \<Rightarrow> lang_state \<Rightarrow> lang_state option" where
  "lang_step e st = map_option (lang_commit st) (lang_handler e st)"

inductive lang_reachable :: "lang_state \<Rightarrow> bool" where
  mount: "lang_reachable (lang_mount ready)"
| step: "lang_reachable st \<Longrightarrow> lang_step e st = Some st' \<Longrightarrow> lang_reachable st'"

text \<open>The invariant: \<open><html lang>\<close> shows the current language, a non-empty
  code of the table; \<open>isLoading\<close> is set only while the polling loop or a call
  is still pending.\<close>

definition lang_inv :: "lang_state \<Rightarrow> bool" where
  "lang_inv st \<longleftrightarrow> document_lang st = currentLanguage st
     \<and> currentLanguage st \<in> set (map fst languages)
     \<and> list_all (\<lambda>c. fst c \<in> set (map fst languages)) (lang_calls st)
     \<and> (isLoading st \<longrightarrow> ready_check st \<or> lang_calls st \<noteq> [])"

subsection \<open>Lemmas\<close>

lemma codes_languages [simp]: "fst ` set languages = {''id'', ''en''}"
  by (simp add: languages_def)

lemma lang_commit_keeps [simp]:
  "currentLanguage (lang_commit st st') = currentLanguage st'"
  "isLoading (lang_commit st st') = isLoading st'"
  "ready_check (lang_commit st st') = ready_check st'"
  "lang_calls (lang_commit st st') = lang_calls st'"
  "switcher_open (lang_commit st st') = switcher_open st'"
  "i18n_initialized (lang_commit st st') = i18n_initialized st'"
  by (simp_all add: lang_commit_def updater_effect_def currentLanguage_def)

lemma lang_inv_mount: "lang_inv (lang_mount ready)"
  by (simp add: lang_inv_def lang_mount_def checkI18nReady_def updater_effect_def currentLanguage_def
      i18n_lng_def)

lemma lang_inv_commit:
  "lang_inv st' \<Longrightarrow> lang_inv (lang_commit st st')"
  by (auto simp add: lang_inv_def lang_commit_def updater_effect_def currentLanguage_def)

lemma lang_inv_settled:
  assumes inv: "lang_inv st" and s: "language_settled i ok st = Some st'"
  shows "lang_inv st'"
proof -
  obtain l sw where c: "lang_calls st ! i = (l, sw)" by fastforce
  have i: "i < length (lang_calls st)" using s by (simp add: language_settled_def split: if_splits)
  then have "(l, sw) \<in> set (lang_calls st)" using c by (metis nth_mem)
  then have l: "l \<in> {''id'', ''en''}" using inv by (auto simp: lang_inv_def list_all_iff)
  have calls: "list_all (\<lambda>c. fst c \<in> {''id'', ''en''}) (take i (lang_calls st) @ drop (Suc i) (lang_calls st))"
    using inv by (auto simp: lang_inv_def list_all_iff dest: in_set_takeD in_set_dropD)
  show ?thesis
    using s i c l calls inv
    by (cases ok; cases sw) (auto simp: language_settled_def lang_inv_def Let_def currentLanguage_def)
qed

lemma lang_handler_inv:
  assumes inv: "lang_inv st" and h: "lang_handler e st = Some st'"
  shows "lang_inv st'"
proof (cases e)
  case (LanguageSettled i ok)
  then show ?thesis using lang_inv_settled [OF inv] h by simp
next
  case (ChangeLanguageCall l)
  then show ?thesis using inv h
    by (auto simp: lang_inv_def changeLanguage_def currentLanguage_def split: if_splits)
qed (use inv h in \<open>auto simp: lang_inv_def checkI18nReady_def toggle_press_def handleClickOutside_def
       handleLanguageChange_def changeLanguage_def currentLanguage_def Let_def split: if_splits\<close>)

lemma lang_step_inv: "lang_inv st \<Longrightarrow> lang_step e st = Some st' \<Longrightarrow> lang_inv st'"
  by (auto simp: lang_step_def intro: lang_inv_commit lang_handler_inv)

lemma lang_reachable_inv: "lang_reachable st \<Longrightarrow> lang_inv st"
proof (induction rule: lang_reachable.induct)
  case (mount ready)
  then show ?case by (rule lang_inv_mount)
next
  case (step st e st')
  then show ?case using lang_step_inv by blast
qed

text \<open>C37. Pressing the switcher's toggle button while its dropdown is open leaves
  it open: the document's \<open>mousedown\<close> listener closes it, React renders, and
  the button's \<open>click\<close> handler of that render opens it again.\<close>

theorem switcher_toggle_cannot_close:
  assumes "switcher_open st" and "\<not> isLoading st"
  shows "\<exists>st'. lang_step SwitcherToggle st = Some st' \<and> switcher_open st'"
  using assms by (simp add: lang_step_def toggle_press_def handleClickOutside_def lang_commit_def currentLanguage_def)

theorem switcher_toggle_cannot_close_witness:
  "\<exists>st. lang_reachable st \<and> switcher_open st \<and> \<not> isLoading st
     \<and> (\<exists>st'. lang_step SwitcherToggle st = Some st' \<and> switcher_open st')"
proof -
  let ?st = "toggle_press (lang_mount True)"
  have s: "lang_step SwitcherToggle (lang_mount True) = Some ?st"
    by (simp add: lang_step_def lang_mount_def checkI18nReady_def updater_effect_def lang_commit_def currentLanguage_def i18n_lng_def
        toggle_press_def handleClickOutside_def)
  have r: "lang_reachable ?st"
    by (rule lang_reachable.step [OF lang_reachable.mount s])
  have o: "switcher_open ?st" "\<not> isLoading ?st"
    by (simp_all add: lang_mount_def checkI18nReady_def updater_effect_def toggle_press_def
        handleClickOutside_def)
  show ?thesis using r o switcher_toggle_cannot_close [OF o] by blast
qed

end
