(* ===== verification/Navigation.thy ===== *)
theory Navigation
  imports Language
begin

text \<open>
  The navigation bar of the home, history, about and try-on landing pages
  (\<open>src/src/components/Navigation.tsx\<close>).  It holds two state hooks,
  \<open>isScrolled\<close> and \<open>isMobileMenuOpen\<close>.  A window scroll listener switches
  the bar between its two looks.  The mobile menu is opened and closed by GSAP
  tweens on the menu element, and a resize to desktop width closes it.  Its
  language buttons call \<open>changeLanguage\<close> of the language context
  (theory \<open>Language\<close>).

  The DOM state that GSAP writes is kept apart from the React state:
  \<^item> \<open>nav_dom\<close> is the style the last tween of the bar and the logos aims at;
  \<^item> the menu's \<open>display\<close> and the opacity its last tween aims at are fields;
  \<^item> the closing tweens still running are counted, since each one hides the
    menu (\<open>display: none\<close>) when it completes.
  React does not touch these styles again after the first render, because the
  inline style objects of the JSX never change.  GSAP's default is not to
  overwrite a running tween, so a tween that opens the menu does not cancel a
  closing one still running.  All menu tweens last 0.3 s, so they complete in
  the order they started (event \<open>CloseTweenEnd\<close>).  The window's width is a
  field, since the menu and its button are hidden from 1280 px (\<open>xl:\<close>).
  A link to another route unmounts the page and is not modelled; a link to the
  current route keeps the component mounted.
\<close>

subsection \<open>State\<close>

text \<open>The style GSAP gives the bar and the two logos (lines 47--82 and 94--129).\<close>

record nav_style =
  nav_width :: nat
  nav_marginTop :: nat
  nav_paddingLeft :: nat
  nav_borderRadius :: nat
  logo_opacity :: nat
  favicon_opacity :: nat

definition scrolled_style :: "bool \<Rightarrow> nav_style" where
  "scrolled_style scrolled =
     \<lparr>nav_width = (if scrolled then 90 else 100), nav_marginTop = (if scrolled then 16 else 0),
      nav_paddingLeft = (if scrolled then 24 else 16), nav_borderRadius = (if scrolled then 200 else 0),
      logo_opacity = (if scrolled then 0 else 1), favicon_opacity = (if scrolled then 1 else 0)\<rparr>"

record nav_props =
  darkMode :: bool
  forceScrolled :: bool
  disableScrollAnimation :: bool

record nav_state =
  isScrolled :: bool
  isMobileMenuOpen :: bool
  nav_dom :: nav_style
  menu_display :: bool
  menu_opacity :: nat
  menu_y :: int
  close_tweens :: nat
  viewport_wide :: bool
  nav_lang :: lang_state

text \<open>\<open>navigationRoutes\<close> (lines 30--34): translation key and target.\<close>

definition navigationRoutes :: "(string \<times> string) list" where
  "navigationRoutes = [(''navigation.home'', ''/''), (''navigation.history'', ''/history''),
     (''navigation.about'', ''/about'')]"

subsection \<open>Handlers\<close>

text \<open>\<open>handleScroll\<close> (lines 42--84), listening only when neither
  \<open>disableScrollAnimation\<close> nor \<open>forceScrolled\<close> is set (lines 38--40).\<close>

definition scroll_listening :: "nav_props \<Rightarrow> bool" where
  "scroll_listening p \<longleftrightarrow> \<not> disableScrollAnimation p \<and> \<not> forceScrolled p"

definition handleScroll :: "real \<Rightarrow> nav_state \<Rightarrow> nav_state" where
  "handleScroll scrollY st =
     (let scrolled = scrollY > 0
      in if scrolled \<noteq> isScrolled st then st\<lparr>isScrolled := scrolled, nav_dom := scrolled_style scrolled\<rparr>
         else st)"

text \<open>The effect on \<open>forceScrolled\<close> (lines 90--131); the prop defaults to
  \<open>false\<close>, so it is never \<open>undefined\<close> and the effect always runs.\<close>

definition forced_effect :: "nav_props \<Rightarrow> nav_state \<Rightarrow> nav_state" where
  "forced_effect p st = st\<lparr>isScrolled := forceScrolled p, nav_dom := scrolled_style (forceScrolled p)\<rparr>"

text \<open>\<open>toggleMobileMenu\<close> (lines 133--158).\<close>

definition toggleMobileMenu :: "nav_state \<Rightarrow> nav_state" where
  "toggleMobileMenu st =
     (if \<not> isMobileMenuOpen st then
        st\<lparr>isMobileMenuOpen := True, menu_display := True, menu_opacity := 1, menu_y := 0\<rparr>
      else st\<lparr>isMobileMenuOpen := False, menu_opacity := 0, menu_y := -20,
               close_tweens := Suc (close_tweens st)\<rparr>)"

text \<open>The \<open>onComplete\<close> of the oldest closing tween (lines 151--155).\<close>

definition close_tween_end :: "nav_state \<Rightarrow> nav_state option" where
  "close_tween_end st =
     (if close_tweens st = 0 then None
      else Some (st\<lparr>close_tweens := close_tweens st - 1, menu_display := False\<rparr>))"

text \<open>\<open>handleResize\<close> (lines 161--176), with \<open>gsap.set\<close>.\<close>

definition handleResize :: "nat \<Rightarrow> nav_state \<Rightarrow> nav_state" where
  "handleResize innerWidth st =
     (let st1 = st\<lparr>viewport_wide := innerWidth \<ge> 1280\<rparr>
      in if innerWidth \<ge> 1280 \<and> isMobileMenuOpen st1 then
           st1\<lparr>isMobileMenuOpen := False, menu_display := False, menu_opacity := 0\<rparr>
         else st1)"

text \<open>A link of the mobile menu to the current route, or its try-on link on the
  try-on landing page (lines 350 and 402).\<close>

definition menuLinkClick :: "nav_state \<Rightarrow> nav_state" where
  "menuLinkClick st = st\<lparr>isMobileMenuOpen := False\<rparr>"

subsection \<open>What is shown\<close>

text \<open>The class of the bar (lines 182--188), the logo (line 201) and the icon of
  the menu button (line 325).\<close>

definition nav_class :: "nav_props \<Rightarrow> nav_state \<Rightarrow> string" where
  "nav_class p st =
     (if darkMode p then
        (if isScrolled st then ''bg-gray-900/20 border-gray-700/20 text-white backdrop-blur-md''
         else ''bg-transparent border-transparent text-white'')
      else ''bg-white/80 border-gray-200/50 backdrop-blur-md'')"

definition logo_src :: "nav_props \<Rightarrow> string" where
  "logo_src p = (if darkMode p then ''/logo_horas_dark.webp'' else ''/logo_horas.webp'')"

datatype menu_icon = MenuIcon | CloseIcon

definition menu_button_icon :: "nav_state \<Rightarrow> menu_icon" where
  "menu_button_icon st = (if isMobileMenuOpen st then CloseIcon else MenuIcon)"

text \<open>The menu can be seen: laid out (\<open>display\<close> not \<open>none\<close>, width below
  1280 px) and faded in.\<close>

definition menu_shown :: "nav_state \<Rightarrow> bool" where
  "menu_shown st \<longleftrightarrow> \<not> viewport_wide st \<and> menu_display st \<and> menu_opacity st = 1"

subsection \<open>Events\<close>

datatype nav_event =
    WindowScroll real
  | WindowResize nat
  | MenuButton
  | CloseTweenEnd
  | MenuLink
  | LanguageButton string
  | LanguageEnv lang_event

text \<open>The menu button exists below 1280 px; the menu's links and buttons
  while it is laid out; the language entries of the bar from 1280 px or in the
  menu.  The environment's events of the language context (i18next finishing,
  the polling timeout) pass through.\<close>

fun nav_handler :: "nav_props \<Rightarrow> nav_event \<Rightarrow> nav_state \<Rightarrow> nav_state option" where
  "nav_handler p (WindowScroll y) st = Some (if scroll_listening p then handleScroll y st else st)"
| "nav_handler p (WindowResize w) st = Some (handleResize w st)"
| "nav_handler p MenuButton st = (if viewport_wide st then None else Some (toggleMobileMenu st))"
| "nav_handler p CloseTweenEnd st = close_tween_end st"
| "nav_handler p MenuLink st =
     (if \<not> viewport_wide st \<and> menu_display st then Some (menuLinkClick st) else None)"
| "nav_handler p (LanguageButton l) st =
     (if viewport_wide st \<or> menu_display st then
        map_option (\<lambda>ls. st\<lparr>nav_lang := ls\<rparr>) (lang_step (ChangeLanguageCall l) (nav_lang st))
      else None)"
| "nav_handler p (LanguageEnv e) st =
     (case e of
        I18nInitialized \<Rightarrow> map_option (\<lambda>ls. st\<lparr>nav_lang := ls\<rparr>) (lang_step e (nav_lang st))
      | ReadyTimeout \<Rightarrow> map_option (\<lambda>ls. st\<lparr>nav_lang := ls\<rparr>) (lang_step e (nav_lang st))
      | LanguageSettled i ok \<Rightarrow> map_option (\<lambda>ls. st\<lparr>nav_lang := ls\<rparr>) (lang_step e (nav_lang st))
      | _ \<Rightarrow> None)"

text \<open>The first render with the props, then the effects: the scroll listener,
  the forced-look effect, the resize listener.\<close>

definition nav_mount :: "nav_props \<Rightarrow> bool \<Rightarrow> lang_state \<Rightarrow> nav_state" where
  "nav_mount p wide ls = forced_effect p
     \<lparr>isScrolled = forceScrolled p, isMobileMenuOpen = False, nav_dom = scrolled_style False,
      menu_display = False, menu_opacity = 0, menu_y = 0, close_tweens = 0,
      viewport_wide = wide, nav_lang = ls\<rparr>"

inductive nav_reachable :: "nav_props \<Rightarrow> nav_state \<Rightarrow> bool" for p where
  mount: "lang_reachable ls \<Longrightarrow> nav_reachable p (nav_mount p wide ls)"
| step: "nav_reachable p st \<Longrightarrow> nav_handler p e st = Some st' \<Longrightarrow> nav_reachable p st'"

text \<open>The invariant: the bar's look follows \<open>isScrolled\<close>, which stays at
  \<open>forceScrolled\<close> when the listener is off; the language context is in a
  reachable state.\<close>

definition nav_inv :: "nav_props \<Rightarrow> nav_state \<Rightarrow> bool" where
  "nav_inv p st \<longleftrightarrow> nav_dom st = scrolled_style (isScrolled st)
     \<and> (\<not> scroll_listening p \<longrightarrow> isScrolled st = forceScrolled p)
     \<and> lang_reachable (nav_lang st)"

subsection \<open>Lemmas\<close>

lemma nav_inv_mount: "lang_reachable ls \<Longrightarrow> nav_inv p (nav_mount p wide ls)"
  by (simp add: nav_inv_def nav_mount_def forced_effect_def)

lemma nav_lang_step:
  "nav_inv p st \<Longrightarrow> lang_step e (nav_lang st) = Some ls \<Longrightarrow> nav_inv p (st\<lparr>nav_lang := ls\<rparr>)"
  by (auto simp: nav_inv_def intro: lang_reachable.step)

lemma nav_handler_inv:
  assumes inv: "nav_inv p st" and h: "nav_handler p e st = Some st'"
  shows "nav_inv p st'"
proof (cases e)
  case (WindowScroll y)
  then show ?thesis using inv h
    by (auto simp: nav_inv_def handleScroll_def Let_def scroll_listening_def)
next
  case (LanguageButton l)
  then show ?thesis using inv h nav_lang_step [OF inv] by (auto split: if_splits)
next
  case (LanguageEnv le)
  then show ?thesis using inv h nav_lang_step [OF inv] by (cases le) auto
qed (use inv h in \<open>auto simp: nav_inv_def handleResize_def toggleMobileMenu_def close_tween_end_def
       menuLinkClick_def Let_def split: if_splits\<close>)

lemma nav_reachable_inv: "nav_reachable p st \<Longrightarrow> nav_inv p st"
proof (induction rule: nav_reachable.induct)
  case (mount ls wide)
  then show ?case by (rule nav_inv_mount)
next
  case (step st e st')
  then show ?case using nav_handler_inv by blast
qed


subsection \<open>Properties of the bar\<close>

text \<open>C34. On every page the bar's GSAP look matches \<open>isScrolled\<close>, which keeps the
  value of \<open>forceScrolled\<close> when the scroll listener is off; and the language
  context behind the bar keeps \<open><html lang>\<close> equal to the current language,
  a code of the table, with \<open>isLoading\<close> set only while the polling loop or a
  call of i18next is pending.\<close>

theorem nav_invariant:
  assumes "nav_reachable p st"
  shows "nav_dom st = scrolled_style (isScrolled st)
    \<and> (\<not> scroll_listening p \<longrightarrow> isScrolled st = forceScrolled p)
    \<and> document_lang (nav_lang st) = currentLanguage (nav_lang st)
    \<and> currentLanguage (nav_lang st) \<in> {''id'', ''en''}
    \<and> (isLoading (nav_lang st) \<longrightarrow> ready_check (nav_lang st) \<or> lang_calls (nav_lang st) \<noteq> [])"
proof -
  have n: "nav_inv p st" by (rule nav_reachable_inv [OF assms])
  then have "lang_inv (nav_lang st)" by (simp add: nav_inv_def lang_reachable_inv)
  then show ?thesis using n by (simp add: nav_inv_def lang_inv_def)
qed

theorem nav_invariant_witness:
  "nav_reachable (nav_props.make True False True) (nav_mount (nav_props.make True False True) True (lang_mount True))
   \<and> \<not> isScrolled (nav_mount (nav_props.make True False True) True (lang_mount True))"
proof -
  let ?p = "nav_props.make True False True"
  have r: "nav_reachable ?p (nav_mount ?p True (lang_mount True))"
    by (rule nav_reachable.mount, rule lang_reachable.mount)
  show ?thesis using r nav_invariant [OF r] by (simp add: scroll_listening_def nav_props.make_def)
qed

text \<open>C35. A link of the open mobile menu to the current route closes the menu
  only in React's state: the menu stays on screen while the button shows the
  hamburger icon again.\<close>

theorem nav_link_leaves_menu_shown:
  assumes "menu_shown st"
  shows "\<exists>st'. nav_handler p MenuLink st = Some st' \<and> menu_shown st'
    \<and> \<not> isMobileMenuOpen st' \<and> menu_button_icon st' = MenuIcon"
  using assms by (simp add: menu_shown_def menuLinkClick_def menu_button_icon_def)

theorem nav_link_leaves_menu_shown_witness:
  "menu_shown (toggleMobileMenu (nav_mount (nav_props.make False False False) False (lang_mount True)))
   \<and> (\<exists>st'. nav_handler (nav_props.make False False False) MenuLink
        (toggleMobileMenu (nav_mount (nav_props.make False False False) False (lang_mount True))) = Some st'
       \<and> menu_shown st' \<and> \<not> isMobileMenuOpen st' \<and> menu_button_icon st' = MenuIcon)"
proof -
  have s: "menu_shown (toggleMobileMenu (nav_mount (nav_props.make False False False) False (lang_mount True)))"
    by (simp add: menu_shown_def toggleMobileMenu_def nav_mount_def forced_effect_def)
  show ?thesis using s nav_link_leaves_menu_shown [OF s] by blast
qed


end
