(* ===== verification/Spec2Isabelle.thy ===== *)
theory Spec2Isabelle
  imports Validation Canvas ScoreViews Practice Explore Navigation
begin

text \<open>
  \<^bold>\<open>A verification library for horasaksa, a web application for learning the
  Batak (Toba) script.\<close>

  \<^bold>\<open>The program.\<close>  A Next.js/React client (\<open>src/src\<close>).  Its logic lives in
  \<^item> the name transliterator of the "write your name" page
    (\<open>app/tryon/custom-name/page.tsx\<close>): a symbol catalog, a table from Latin
    syllables to script symbols, a greedy segmentation loop
    (\<open>convertToSyllables\<close>) and a checklist of validation rules;
  \<^item> the landing page's name form (\<open>components/sections/HandsOn.tsx\<close>), with its own
    validation rules, which redirects to the custom-name page;
  \<^item> the drawing canvas (\<open>components/CanvasAksara.tsx\<close>), a stroke surface with a
    separate placeholder layer, shared by every practice page;
  \<^item> the practice, challenge (60-second quiz) and explore (auto-classify after
    2 seconds of inactivity) pages (\<open>app/tryon/*/page.tsx\<close>), which export
    the canvas, post it to a remote classifier and score the answer.
  The remote classifier, the 3D models, routing, styling and translation tables
  are external collaborators.

  \<^bold>\<open>Theories.\<close>
  \<^item> \<open>Prelude\<close>: the JavaScript primitives the code calls (\<open>toLowerCase\<close>,
    \<open>toUpperCase\<close>, \<open>substring\<close>, the letter regex, global \<open>replace\<close>,
    \<open>Math.round\<close>) on strings of 8-bit code units, with the lemmas the
    components share.  Case mapping is that of Latin-1 (code units 0--255):
    \<open>toUpperCase\<close> maps the sharp s to \<open>SS\<close>, \<open>toLowerCase\<close> the
    accented capitals to their small letters.
  \<^item> \<open>JsValue\<close>: JSON values (\<open>jsval\<close>) and JavaScript numbers (\<open>jsnum\<close>,
    with the infinities and NaN), and the built-ins the pages apply to them, from
    the ECMAScript specification: ToNumber of a string (\<open>string_to_number\<close>),
    \<open>to_number\<close>, \<open>truthy\<close>, property reads \<open>js_get\<close> (\<open>None\<close> is the
    \<open>TypeError\<close> of a read on \<open>null\<close> or \<open>undefined\<close>) and
    \<open>decodeURIComponent\<close> with its UTF-8 decoding (\<open>None\<close> is the
    \<open>URIError\<close>; a function terminating by the length of its input).
  \<^item> \<open>Aksara\<close>: the catalog \<open>characters\<close>, the table \<open>aksara_mapping\<close>,
    \<open>isVowel\<close>, \<open>isConsonant\<close>, \<open>convertSyllableToAksara\<close>,
    \<open>canConvertToAksara\<close> (custom-name lines 90--296).  Facts of the tables are
    evaluated by \<open>code_simp\<close>; the main lemma says that on lower-case letters
    \<open>canConvertToAksara\<close> is membership in the table's keys.
  \<^item> \<open>Syllables\<close>: the loop \<open>convertToSyllables\<close> as written (\<open>match_len\<close>,
    \<open>syllable_loop\<close>, lines 119--174), with termination by the measure
    \<open>length - i\<close>, and the specification \<open>segment\<close> (greedy longest match).
  \<^item> \<open>Validation\<close>: the five rules of the custom-name page (\<open>inputRules\<close>,
    \<open>isNameValid\<close>, \<open>nameHandler\<close>) and of the landing form
    (\<open>handsOn_inputRules\<close>, \<open>handsOn_isValid\<close>, \<open>handleSubmit\<close>), with
    closed forms of both checklists and their relation.
  \<^item> \<open>Canvas\<close>: \<open>CanvasAksara.tsx\<close>.  The state \<open>canvas_state\<close> holds the
    drawing canvas (\<open>main\<close>, a bitmap with the 2D context's fill/stroke state and
    current path), the placeholder canvas (\<open>placeholder\<close>, present only while
    rendered, with a generation number standing for element identity), the
    \<open>isDrawingRef\<close> flag and the pending \<open>img.onload\<close> closures.  One
    definition per handler (\<open>startDrawing\<close>, \<open>draw\<close>, \<open>stopDrawing\<close>,
    \<open>clear\<close>, \<open>drawPlaceholder\<close>, \<open>clearPlaceholder\<close>, \<open>isEmpty\<close>,
    \<open>getImageData\<close>, the two effects), the event wiring \<open>canvas_handle\<close> and
    the parent-driven step \<open>canvas_step\<close>; \<open>canvas_reachable\<close> is the
    inductive set of states of a mounted component.  Callbacks are returned as a
    list of notifications.  Which pixels a stroke covers is a parameter
    \<open>raster\<close> of the model; the theorems hold for every rasteriser.

  \<^item> \<open>Classify\<close>: the answer of the remote workflow as a value
    (\<open>classifier_response\<close>) and the shared \<open>try\<close>/\<open>catch\<close> that reads it
    (\<open>get_or_throw\<close>, \<open>read_answer\<close>, \<open>extract_prediction\<close>, \<open>extract_class\<close>,
    \<open>error + result\<close> values), with what each page
    makes of it (\<open>check_result\<close>, \<open>classify_result\<close>, \<open>syllable_score\<close>).
  \<^item> \<open>Challenge\<close>, \<open>Practice\<close>, \<open>Explore\<close>, \<open>CustomName\<close>: one theory per page
    of \<open>app/tryon\<close>.  Each has a record of its state hooks (plus the refs, timers
    and requests in flight that the code keeps), a datatype of events, one
    definition per handler and effect, a partial step function (\<open>None\<close> when
    the event's element is not rendered, is disabled, or is covered by a modal),
    and an inductive set of reachable states.  Every step is followed by the
    effects React runs after rendering.  The page's canvas is the \<open>Canvas\<close>
    model, driven through \<open>canvas_handle\<close> and the imperative handle.  Timers and
    requests are explicit: the challenge page's interval and hint timeout; the
    explore page's clock and 2-second deadline; the custom-name page's 100 ms
    clearing timeouts in FIFO order; the requests in flight of every page, with
    the values their closures captured, answered in any order.
  \<^item> \<open>Language\<close>: the language context (\<open>contexts/LanguageContext.tsx\<close>:
    \<open>isLoading\<close>, the \<open>checkI18nReady\<close> polling loop, \<open>changeLanguage\<close>),
    \<open>LanguageUpdater\<close> and the \<open>LanguageSwitcher\<close> dropdown; i18next's
    initialisation and the outcome of each language change are events of the
    environment.
  \<^item> \<open>Navigation\<close>: \<open>components/Navigation.tsx\<close>, its two state hooks, the
    scroll, forced-look and resize effects, and the mobile menu together with the
    DOM state its GSAP tweens write; its language buttons drive the
    \<open>Language\<close> model.
  \<^item> \<open>ScoreViews\<close>: what the challenge and custom-name pages show and
    share.  The clock (\<open>formatTime\<close>), the game header and end modal, the
    step-2 block with its progress dots, and the result modal are functions of
    the page state.  A view whose index read would be \<open>undefined\<close> is a
    \<open>RenderTypeError\<close>.  Both \<open>generateScoreImage\<close> functions are modelled
    as the list of 2D-context calls they make (\<open>draw_cmd\<close>).  Whether each
    drawing loads as an image is a parameter.  \<open>shareScore\<close> and
    \<open>shareResult\<close> return the outcome of the Web Share or download branch.

  \<^bold>\<open>Results.\<close>
  \<^item> Transliteration: the loop is the greedy segmentation (its two fallback
    branches are dead code) and terminates within \<open>length - i\<close> iterations; on
    letters it cuts the name into table keys; a name of letters has exactly as
    many syllables as vowels; on letters the syllables spell the whole name
    exactly when every letter is a vowel, a consonant before a vowel or the
    \<open>n\<close> of \<open>nga\<close>/\<open>nya\<close>, so other consonants are dropped silently
    (\<open>ridho\<close> becomes \<open>ri\<close>, \<open>ho\<close>).
  \<^item> Validation: both checklists have closed forms; the custom-name checklist
    implies the landing one; the landing form submits a name the custom-name
    page rejects exactly when it has more than five vowels in at most five
    vowel groups (\<open>Mariaelena\<close>); the digraph replacement never changes a
    verdict.
  \<^item> Canvas: \<open>isEmpty\<close> compares with white, not the background colour, and
    throws \<open>IndexSizeError\<close> on a zero-sized canvas; \<open>clear\<close> empties a white
    canvas of positive size from any reachable state; the placeholder
    layer never affects the export; the callbacks follow the stroke protocol; a
    disabled canvas is inert; pointer coordinates land in the bitmap.
  \<^item> Classification: on every answer the pages compute the result the
    well-formed answer promises, or the error value of each malformed shape and
    transport failure (an answer with empty outputs is an ordinary wrong answer
    with the empty class).
  \<^item> Pages: each page's invariant holds in every reachable state.  Each page also
    has functional, liveness and round-trip results (the quiz ends after
    \<open>timeLeft\<close> ticks; the explore timer always fires; arrow keys are inverse;
    the custom-name final result).  Each page also has a reachable state that
    exhibits a defect of the code:
    \<^item> the challenge hint never reaches the canvas;
    \<^item> the challenge page shows the previous game's result modal;
    \<^item> the challenge page counts late answers after the game;
    \<^item> the custom-name page grades the previous syllable's drawing;
    \<^item> the practice page ignores a swipe from the left edge;
    \<^item> the practice page grades against a character no longer shown;
    \<^item> the explore page lets an older answer win;
    \<^item> the explore page's result panel throws on an answer whose class is not
      a string, where the other pages show Error;
    \<^item> the custom-name page's mount fails (\<open>URIError\<close>) on a name parameter
      whose decoded form holds a stray \<open>%\<close>, because it decodes twice.
  \<^item> Navigation and language: the bar's look follows \<open>isScrolled\<close> and
    \<open><html lang>\<close> follows the current language.  A menu link leaves the mobile
    menu on screen; reopening the menu at once hides it while it counts as open;
    the switcher's toggle button cannot close its dropdown.
  \<^item> Views: every reachable custom-name state renders its step-2 block and
    result modal without an undefined read; the share image of any reachable
    final result keeps its frames and drawings inside the 800 by 700 canvas, in
    order and 20 px apart, with its text anchored inside (the name itself has no
    \<open>maxWidth\<close> and can run past the edges); the challenge clock
    prints every non-negative time in a form that reads back to the same number.

  \<^bold>\<open>Bounds and fuel.\<close>  No fuel is needed by the pages: time advances only
  through explicit events (\<open>Tick\<close>, \<open>Wait\<close>), and a pending deadline cannot be
  passed.  The syllable loop is a terminating \<open>function\<close>, and its bounded
  version \<open>syllable_loop_fuel\<close> returns the loop's result for any budget larger
  than \<open>length - i\<close>.

  \<^bold>\<open>Not modelled.\<close>
  \<^item> The remote classifier: an opaque answer chosen by the environment.
  \<^item> Pixel rasterisation of strokes: a parameter of the canvas model.
  \<^item> Share images are modelled only down to their canvas calls.  Fonts, text
    width, gradients, JPEG encoding and the \<open>Blob\<close>/\<open>File\<close> objects are
    not modelled.  The text of the image is kept; its pixels are not.
  \<^item> GSAP animation timing: only tween targets and completion order are kept.
  \<^item> i18next internals and the translation tables.
  \<^item> The three.js 3D viewers.
  \<^item> The static content pages (home sections, history, about), layout, fonts
    and build configuration: no program logic.
\<close>

end
